theory Spec2Isabelle
  imports Complex_Main
begin

section \<open>Decimal values of Python's \<open>decimal\<close> module\<close>

text \<open>
  \<open>unlimited-pi.py\<close> computes with \<open>decimal.Decimal\<close>. A finite Decimal is a sign, a
  coefficient and an exponent; here the sign is folded into an integer coefficient, and
  the value is \<open>coeff * 10 ^ expo\<close>. What this leaves out: the negative zero, the special
  values (the default context traps every operation that would create a NaN or an
  infinity, so they are exceptions here), and the exponent limits \<open>Emin\<close>, \<open>Emax\<close> of
  the context (\<open>\<plusminus>999999\<close> by default). The rounding mode of the context is the default
  one, \<open>ROUND_HALF_EVEN\<close>.
\<close>

record decimal =
  coeff :: int
  expo :: int

datatype error =
    InvalidInput              \<comment> \<open>\<open>ValueError("Invalid input. Please enter an integer ...")\<close>\<close>
  | PrecisionLimitExceeded    \<comment> \<open>\<open>ValueError("Calculation limited to 10000 decimal places ...")\<close>\<close>
  | TypeError                 \<comment> \<open>raised by \<open>int()\<close>, not caught by \<open>calculate_pi\<close>\<close>
  | OverflowError             \<comment> \<open>raised by \<open>int()\<close>, not caught by \<open>calculate_pi\<close>\<close>
  | InvalidOperation          \<comment> \<open>\<open>decimal.InvalidOperation\<close>\<close>
  | DivisionByZero            \<comment> \<open>\<open>decimal.DivisionByZero\<close>\<close>

definition dec_of_int :: "int \<Rightarrow> decimal" where
  \<comment> \<open>\<open>decimal.Decimal(i)\<close> for a Python int: exact, exponent 0\<close>
  "dec_of_int i = \<lparr>coeff = i, expo = 0\<rparr>"

fun ndigits :: "nat \<Rightarrow> nat" where
  \<comment> \<open>\<open>len(str(n))\<close>: the number of decimal digits, 1 for 0\<close>
  "ndigits n = (if n < 10 then 1 else Suc (ndigits (n div 10)))"

declare ndigits.simps [simp del]

definition round_half_even :: "nat \<Rightarrow> nat \<Rightarrow> nat" where
  \<comment> \<open>\<open>c / 10 ^ k\<close> rounded to the nearest integer, ties to the even one\<close>
  "round_half_even c k =
     (let q = c div 10 ^ k; r = c mod 10 ^ k in
      if 2 * r < 10 ^ k then q
      else if 2 * r > 10 ^ k then q + 1
      else if even q then q else q + 1)"

definition dec_fix :: "nat \<Rightarrow> decimal \<Rightarrow> decimal" where
  \<comment> \<open>\<open>Decimal._fix\<close>: round to at most \<open>prec\<close> significant digits\<close>
  "dec_fix prec x =
     (if coeff x = 0 then x
      else
        let exp_min = int (ndigits (nat \<bar>coeff x\<bar>)) + expo x - int prec in
        if expo x < exp_min then
          let c = round_half_even (nat \<bar>coeff x\<bar>) (nat (exp_min - expo x)) in
          if ndigits c > prec
          then \<lparr>coeff = sgn (coeff x) * int (c div 10), expo = exp_min + 1\<rparr>
          else \<lparr>coeff = sgn (coeff x) * int c, expo = exp_min\<rparr>
        else x)"

definition dec_add :: "nat \<Rightarrow> decimal \<Rightarrow> decimal \<Rightarrow> decimal" where
  \<comment> \<open>\<open>x + y\<close>: the exact sum at the smaller exponent, then rounded\<close>
  "dec_add prec x y =
     (let e = min (expo x) (expo y) in
      dec_fix prec \<lparr>coeff = coeff x * 10 ^ nat (expo x - e) + coeff y * 10 ^ nat (expo y - e),
                expo = e\<rparr>)"

definition dec_neg :: "decimal \<Rightarrow> decimal" where
  "dec_neg x = \<lparr>coeff = - coeff x, expo = expo x\<rparr>"

definition dec_sub :: "nat \<Rightarrow> decimal \<Rightarrow> decimal \<Rightarrow> decimal" where
  \<comment> \<open>\<open>x - y\<close> is \<open>x.__add__(y.copy_negate())\<close>\<close>
  "dec_sub prec x y = dec_add prec x (dec_neg y)"

definition dec_mul :: "nat \<Rightarrow> decimal \<Rightarrow> decimal \<Rightarrow> decimal" where
  \<comment> \<open>\<open>x * y\<close>: the exact product, then rounded\<close>
  "dec_mul prec x y = dec_fix prec \<lparr>coeff = coeff x * coeff y, expo = expo x + expo y\<rparr>"

function strip_zeros :: "nat \<Rightarrow> int \<Rightarrow> int \<Rightarrow> nat \<times> int" where
  \<comment> \<open>\<open>while exp < ideal_exp and coeff % 10 == 0: coeff //= 10; exp += 1\<close>\<close>
  "strip_zeros c e ideal =
     (if e < ideal \<and> c mod 10 = 0 then strip_zeros (c div 10) (e + 1) ideal else (c, e))"
  by pat_completeness auto
termination
  by (relation "measure (\<lambda>(c, e, ideal). nat (ideal - e))") auto

declare strip_zeros.simps [simp del]

definition dec_div :: "nat \<Rightarrow> decimal \<Rightarrow> decimal \<Rightarrow> error + decimal" where
  \<comment> \<open>\<open>x / y\<close> (\<open>Decimal.__truediv__\<close>): the quotient to \<open>prec + 1\<close> digits with a sticky
      last digit, then rounded; an exact quotient is brought towards the ideal exponent\<close>
  "dec_div prec x y =
     (if coeff y = 0 then
        (if coeff x = 0 then Inl InvalidOperation else Inl DivisionByZero)
      else if coeff x = 0 then Inr (dec_fix prec \<lparr>coeff = 0, expo = expo x - expo y\<rparr>)
      else
        let sign = sgn (coeff x) * sgn (coeff y);
            c1 = nat \<bar>coeff x\<bar>;
            c2 = nat \<bar>coeff y\<bar>;
            shift = int (ndigits c2) - int (ndigits c1) + int prec + 1;
            e = expo x - expo y - shift;
            num = (if shift \<ge> 0 then c1 * 10 ^ nat shift else c1);
            den = (if shift \<ge> 0 then c2 else c2 * 10 ^ nat (- shift));
            q = num div den;
            r = num mod den
        in if r \<noteq> 0 then
             Inr (dec_fix prec \<lparr>coeff = sign * int (if q mod 5 = 0 then q + 1 else q), expo = e\<rparr>)
           else
             (case strip_zeros q e (expo x - expo y) of
                (q', e') \<Rightarrow> Inr (dec_fix prec \<lparr>coeff = sign * int q', expo = e'\<rparr>)))"

function sqrt_newton :: "nat \<Rightarrow> nat \<Rightarrow> nat" where
  \<comment> \<open>\<open>while True: q = c//n; if n <= q: break; else: n = n + q >> 1\<close>\<close>
  "sqrt_newton c n =
     (let q = c div n in if n \<le> q then n else sqrt_newton c ((n + q) div 2))"
  by pat_completeness auto
termination
  by (relation "measure (\<lambda>(c, n). n)") auto

declare sqrt_newton.simps [simp del]

definition dec_sqrt :: "nat \<Rightarrow> decimal \<Rightarrow> error + decimal" where
  \<comment> \<open>\<open>x.sqrt()\<close> (\<open>Decimal.sqrt\<close>): the integer square root to \<open>prec + 1\<close> digits with a
      sticky last digit, then rounded half-even; an exact root keeps the ideal exponent\<close>
  "dec_sqrt ctxprec x =
     (if coeff x = 0 then Inr (dec_fix ctxprec \<lparr>coeff = 0, expo = expo x div 2\<rparr>)
      else if coeff x < 0 then Inl InvalidOperation
      else
        let prec = ctxprec + 1;
            ci = nat (coeff x);
            len = ndigits ci;
            c = (if odd (expo x) then ci * 10 else ci);
            l = (if odd (expo x) then len div 2 + 1 else (len + 1) div 2);
            shift = int prec - int l;
            c' = (if shift \<ge> 0 then c * 100 ^ nat shift else c div 100 ^ nat (- shift));
            exact0 = (shift \<ge> 0 \<or> c mod 100 ^ nat (- shift) = 0);
            e = expo x div 2 - shift;
            n = sqrt_newton c' (10 ^ prec);
            exact = (exact0 \<and> n * n = c')
        in if exact then
             Inr (dec_fix ctxprec
               \<lparr>coeff = int (if shift \<ge> 0 then n div 10 ^ nat shift else n * 10 ^ nat (- shift)),
                expo = e + shift\<rparr>)
           else
             Inr (dec_fix ctxprec \<lparr>coeff = int (if n mod 5 = 0 then n + 1 else n), expo = e\<rparr>))"

definition dec_pow2 :: "nat \<Rightarrow> decimal \<Rightarrow> decimal" where
  \<comment> \<open>\<open>x ** 2\<close> as the C implementation of the module (the default one) computes an
      integer power: the product rounded to \<open>prec + 3\<close> digits, then rounded to \<open>prec\<close>\<close>
  "dec_pow2 prec x =
     (if coeff x = 0 then \<lparr>coeff = 0, expo = 0\<rparr>
      else dec_fix prec (dec_fix (prec + 3) \<lparr>coeff = coeff x * coeff x, expo = 2 * expo x\<rparr>))"

definition dec_eq :: "decimal \<Rightarrow> decimal \<Rightarrow> bool" where
  \<comment> \<open>\<open>x == y\<close> compares the values, not the representations\<close>
  "dec_eq x y =
     (let e = min (expo x) (expo y) in
      coeff x * 10 ^ nat (expo x - e) = coeff y * 10 ^ nat (expo y - e))"

definition rescale_down :: "decimal \<Rightarrow> int \<Rightarrow> decimal" where
  \<comment> \<open>\<open>x._rescale(e, ROUND_DOWN)\<close>: pad with zeros, or cut the digits below \<open>10 ^ e\<close>\<close>
  "rescale_down x e =
     (if expo x \<ge> e then \<lparr>coeff = coeff x * 10 ^ nat (expo x - e), expo = e\<rparr>
      else \<lparr>coeff = sgn (coeff x) * int (nat \<bar>coeff x\<bar> div 10 ^ nat (e - expo x)), expo = e\<rparr>)"

definition quantize_down :: "nat \<Rightarrow> decimal \<Rightarrow> int \<Rightarrow> error + decimal" where
  \<comment> \<open>\<open>x.quantize(Decimal((0, (1,), e)), rounding=ROUND_DOWN)\<close>\<close>
  "quantize_down prec x e =
     (if coeff x = 0 then Inr \<lparr>coeff = 0, expo = e\<rparr>
      else if int (ndigits (nat \<bar>coeff x\<bar>)) + expo x - e > int prec then Inl InvalidOperation
      else
        let ans = rescale_down x e in
        if ndigits (nat \<bar>coeff ans\<bar>) > prec then Inl InvalidOperation else Inr ans)"


section \<open>The Gauss-Legendre iteration of \<open>calculate_pi\<close>\<close>

record gl_state =
  a_n :: decimal
  b_n :: decimal
  t_n :: decimal
  p_n :: decimal

definition gl_init :: "nat \<Rightarrow> error + gl_state" where
  \<comment> \<open>lines 29-32: \<open>a_n = 1\<close>, \<open>b_n = 1 / Decimal(2).sqrt()\<close>, \<open>t_n = 1 / 4\<close>, \<open>p_n = 1\<close>\<close>
  "gl_init prec =
     (case dec_sqrt prec (dec_of_int 2) of
        Inl e \<Rightarrow> Inl e
      | Inr r \<Rightarrow>
          (case dec_div prec (dec_of_int 1) r of
             Inl e \<Rightarrow> Inl e
           | Inr b0 \<Rightarrow>
               (case dec_div prec (dec_of_int 1) (dec_of_int 4) of
                  Inl e \<Rightarrow> Inl e
                | Inr t0 \<Rightarrow>
                    Inr \<lparr>a_n = dec_of_int 1, b_n = b0, t_n = t0, p_n = dec_of_int 1\<rparr>)))"

definition gl_next :: "nat \<Rightarrow> gl_state \<Rightarrow> error + gl_state" where
  \<comment> \<open>lines 38-41: \<open>a_next\<close>, \<open>b_next\<close>, \<open>t_next\<close>, \<open>p_next\<close> from the current state\<close>
  "gl_next prec s =
     (case dec_div prec (dec_add prec (a_n s) (b_n s)) (dec_of_int 2) of
        Inl e \<Rightarrow> Inl e
      | Inr a_next \<Rightarrow>
          (case dec_sqrt prec (dec_mul prec (a_n s) (b_n s)) of
             Inl e \<Rightarrow> Inl e
           | Inr b_next \<Rightarrow>
               Inr \<lparr>a_n = a_next,
                    b_n = b_next,
                    t_n = dec_sub prec (t_n s)
                            (dec_mul prec (p_n s) (dec_pow2 prec (dec_sub prec (a_n s) a_next))),
                    p_n = dec_mul prec (dec_of_int 2) (p_n s)\<rparr>))"

definition converged :: "gl_state \<Rightarrow> gl_state \<Rightarrow> bool" where
  \<comment> \<open>line 45: \<open>a_n == a_next or b_n == b_next\<close>\<close>
  "converged s s' = (dec_eq (a_n s) (a_n s') \<or> dec_eq (b_n s) (b_n s'))"

partial_function (option) gl_loop :: "nat \<Rightarrow> gl_state \<Rightarrow> (error + gl_state) option" where
  \<comment> \<open>lines 37-48: \<open>while True\<close>; \<open>None\<close> is the loop that never ends. On \<open>break\<close> the
      variables \<open>a_n\<close>, \<open>b_n\<close>, \<open>t_n\<close>, \<open>p_n\<close> still hold the state before the update.\<close>
  "gl_loop prec s =
     (case gl_next prec s of
        Inl e \<Rightarrow> Some (Inl e)
      | Inr s' \<Rightarrow> if converged s s' then Some (Inr s) else gl_loop prec s')"

definition pi_value :: "nat \<Rightarrow> gl_state \<Rightarrow> error + decimal" where
  \<comment> \<open>line 51: \<open>(a_n + b_n)**2 / (4 * t_n)\<close>\<close>
  "pi_value prec s =
     dec_div prec (dec_pow2 prec (dec_add prec (a_n s) (b_n s)))
                  (dec_mul prec (dec_of_int 4) (t_n s))"

section \<open>The printed form of a Decimal\<close>

definition digit_char :: "nat \<Rightarrow> char" where
  "digit_char d = ''0123456789'' ! d"

fun str_nat :: "nat \<Rightarrow> string" where
  \<comment> \<open>\<open>str(n)\<close> for a non-negative int\<close>
  "str_nat n = (if n < 10 then [digit_char n] else str_nat (n div 10) @ [digit_char (n mod 10)])"

declare str_nat.simps [simp del]

definition str_decimal :: "decimal \<Rightarrow> string" where
  \<comment> \<open>\<open>Decimal.__str__\<close>: plain notation when the exponent is at most 0 and the number
      is not too small, scientific notation otherwise\<close>
  "str_decimal x =
     (let sign = (if coeff x < 0 then ''-'' else []);
          ds = str_nat (nat \<bar>coeff x\<bar>);
          len = int (length ds);
          leftdigits = expo x + len;
          dotplace = (if expo x \<le> 0 \<and> leftdigits > - 6 then leftdigits else 1);
          intpart = (if dotplace \<le> 0 then ''0''
                     else if dotplace \<ge> len then ds @ replicate (nat (dotplace - len)) (CHR ''0'')
                     else take (nat dotplace) ds);
          fracpart = (if dotplace \<le> 0 then ''.'' @ replicate (nat (- dotplace)) (CHR ''0'') @ ds
                      else if dotplace \<ge> len then []
                      else ''.'' @ drop (nat dotplace) ds);
          ex = (if leftdigits = dotplace then []
                else ''E'' @ (if leftdigits - dotplace < 0 then ''-'' else ''+'')
                         @ str_nat (nat \<bar>leftdigits - dotplace\<bar>))
      in sign @ intpart @ fracpart @ ex)"


section \<open>The argument of \<open>calculate_pi\<close> and \<open>int()\<close>\<close>

text \<open>
  \<open>calculate_pi\<close> passes whatever it is given to \<open>int()\<close>. The arguments modelled are an
  int, a float (a finite float is \<open>m * 2 ^ e\<close> for integers \<open>m\<close> and \<open>e\<close>), a str whose
  code points are below 256, and \<open>None\<close>.
\<close>

datatype pyfloat =
    Finite int int      \<comment> \<open>\<open>Finite m e\<close> is the float \<open>m * 2 ^ e\<close>\<close>
  | Infinite
  | NaN

datatype pyobj = PyInt int | PyFloat pyfloat | PyStr string | PyNone

datatype int_error = IntValueError | IntTypeError | IntOverflowError

definition is_space :: "char \<Rightarrow> bool" where
  \<comment> \<open>the characters \<open>int()\<close> skips around the number\<close>
  "is_space c = (of_char c \<in> {9, 10, 11, 12, 13, 32, 133, 160 :: nat})"

definition is_digit :: "char \<Rightarrow> bool" where
  "is_digit c = (48 \<le> (of_char c :: nat) \<and> (of_char c :: nat) \<le> 57)"

definition digit_val :: "char \<Rightarrow> nat" where
  "digit_val c = of_char c - 48"

fun no_double_underscore :: "string \<Rightarrow> bool" where
  "no_double_underscore (c # d # cs) =
     (\<not> (c = CHR ''_'' \<and> d = CHR ''_'') \<and> no_double_underscore (d # cs))"
| "no_double_underscore cs = True"

definition max_str_digits :: nat where
  \<comment> \<open>\<open>sys.int_info.default_max_str_digits\<close>\<close>
  "max_str_digits = 4300"

definition digits_val :: "string \<Rightarrow> nat" where
  \<comment> \<open>the number written by a string of decimal digits\<close>
  "digits_val ds = foldl (\<lambda>acc c. 10 * acc + digit_val c) 0 ds"

definition int_of_str :: "string \<Rightarrow> int_error + int" where
  \<comment> \<open>\<open>int(s)\<close> for a str: white space, an optional sign, digits with single underscores
      between them, white space\<close>
  "int_of_str s =
     (let s1 = dropWhile is_space s;
          neg = (s1 \<noteq> [] \<and> hd s1 = CHR ''-'');
          s2 = (if s1 \<noteq> [] \<and> (hd s1 = CHR ''-'' \<or> hd s1 = CHR ''+'') then tl s1 else s1);
          body = takeWhile (\<lambda>c. is_digit c \<or> c = CHR ''_'') s2;
          rest = dropWhile (\<lambda>c. is_digit c \<or> c = CHR ''_'') s2;
          ds = filter is_digit body
      in if body = [] \<or> hd body = CHR ''_'' \<or> last body = CHR ''_''
            \<or> \<not> no_double_underscore body \<or> \<not> list_all is_space rest
            \<or> length ds > max_str_digits
         then Inl IntValueError
         else
           let v = int (digits_val ds)
           in Inr (if neg then - v else v))"

definition int_of_float :: "pyfloat \<Rightarrow> int_error + int" where
  \<comment> \<open>\<open>int(x)\<close> for a float: truncation towards zero\<close>
  "int_of_float x =
     (case x of
        Finite m e \<Rightarrow>
          Inr (if e \<ge> 0 then m * 2 ^ nat e else sgn m * (\<bar>m\<bar> div 2 ^ nat (- e)))
      | Infinite \<Rightarrow> Inl IntOverflowError
      | NaN \<Rightarrow> Inl IntValueError)"

definition py_int :: "pyobj \<Rightarrow> int_error + int" where
  "py_int x =
     (case x of
        PyInt i \<Rightarrow> Inr i
      | PyFloat f \<Rightarrow> int_of_float f
      | PyStr s \<Rightarrow> int_of_str s
      | PyNone \<Rightarrow> Inl IntTypeError)"


section \<open>\<open>calculate_pi\<close>\<close>

text \<open>
  \<open>decimal.getcontext()\<close> is the arithmetic context of the running thread; the function
  writes its \<open>prec\<close> field (line 25) and every operation after that reads it. Of the
  context, this field is modelled; it is passed in and returned.
\<close>

record dec_context =
  prec :: nat

definition MAX_DIGITS :: int where
  "MAX_DIGITS = 10000"

definition compute_pi :: "nat \<Rightarrow> nat \<Rightarrow> (error + decimal) option" where
  \<comment> \<open>lines 29-58, run with the context precision \<open>p\<close> for \<open>n\<close> digits\<close>
  "compute_pi p n =
     (case gl_init p of
        Inl e \<Rightarrow> Some (Inl e)
      | Inr s0 \<Rightarrow>
          (case gl_loop p s0 of
             None \<Rightarrow> None
           | Some (Inl e) \<Rightarrow> Some (Inl e)
           | Some (Inr s) \<Rightarrow>
               (case pi_value p s of
                  Inl e \<Rightarrow> Some (Inl e)
                | Inr v \<Rightarrow> Some (quantize_down p v (- int n)))))"

definition calculate_pi :: "pyobj \<Rightarrow> dec_context \<Rightarrow> ((error + decimal) \<times> dec_context) option" where
  "calculate_pi n_digits ctx =
     (case py_int n_digits of
        Inl IntValueError \<Rightarrow> Some (Inl InvalidInput, ctx)
      | Inl IntTypeError \<Rightarrow> Some (Inl TypeError, ctx)
      | Inl IntOverflowError \<Rightarrow> Some (Inl OverflowError, ctx)
      | Inr n \<Rightarrow>
          if n < 0 then Some (Inl InvalidInput, ctx)
          else if n > MAX_DIGITS then Some (Inl PrecisionLimitExceeded, ctx)
          else
            let calculation_precision = nat n + 5;
                ctx' = ctx\<lparr>prec := calculation_precision\<rparr>
            in map_option (\<lambda>r. (r, ctx')) (compute_pi (prec ctx') (nat n)))"

definition printed :: "((error + decimal) \<times> dec_context) option \<Rightarrow> (error + string) option" where
  \<comment> \<open>what \<open>print(pi_result)\<close> shows for the value returned (lines 70-72)\<close>
  "printed res = map_option (\<lambda>(r, ctx). map_sum id str_decimal r) res"


section \<open>The loop, unrolled\<close>

text \<open>
  \<open>gl_iterate p k s\<close> is the state after \<open>k\<close> passes of the loop body from \<open>s\<close>, none of
  which left the loop; \<open>gl_exit p s\<close> is the result of a pass that leaves it.
\<close>

fun gl_iterate :: "nat \<Rightarrow> nat \<Rightarrow> gl_state \<Rightarrow> gl_state option" where
  "gl_iterate p 0 s = Some s"
| "gl_iterate p (Suc k) s =
     (case gl_next p s of
        Inl e \<Rightarrow> None
      | Inr s' \<Rightarrow> if converged s s' then None else gl_iterate p k s')"

definition gl_exit :: "nat \<Rightarrow> gl_state \<Rightarrow> (error + gl_state) option" where
  "gl_exit p s =
     (case gl_next p s of
        Inl e \<Rightarrow> Some (Inl e)
      | Inr s' \<Rightarrow> if converged s s' then Some (Inr s) else None)"

definition dec_val :: "decimal \<Rightarrow> real" where
  \<comment> \<open>the number a Decimal stands for\<close>
  "dec_val x = of_int (coeff x) * 10 powi expo x"




section \<open>Arithmetic on large numerals\<close>

text \<open>
  The products, quotients and powers of the runs evaluated below have up to 113 digits.
  They are named here, so that each one is checked once, from a certificate (a quotient
  by one multiplication, a square root by two), and then used as a rewrite rule.
\<close>

definition npow10 :: "nat \<Rightarrow> nat" where
  "npow10 k = 10 ^ k"

definition ipow10 :: "nat \<Rightarrow> int" where
  "ipow10 k = 10 ^ k"

definition nmul :: "nat \<Rightarrow> nat \<Rightarrow> nat" where
  "nmul a b = a * b"

definition imul :: "int \<Rightarrow> int \<Rightarrow> int" where
  "imul a b = a * b"

definition ndiv :: "nat \<Rightarrow> nat \<Rightarrow> nat" where
  "ndiv a b = a div b"

definition nmod :: "nat \<Rightarrow> nat \<Rightarrow> nat" where
  "nmod a b = a mod b"

section \<open>Certificates for the arithmetic on large numerals\<close>

lemma newton_step_ge:
  fixes r n c :: nat
  assumes "r * r \<le> c" "0 < n"
  shows "r \<le> (n + c div n) div 2"
proof (cases "2 * r \<le> n")
  case True
  then show ?thesis by linarith
next
  case False
  have sq: "0 \<le> (int r - int n) * (int r - int n)" by simp
  have "int ((2 * r - n) * n) = (2 * int r - int n) * int n"
    using False by (simp add: of_nat_diff)
  also have "\<dots> \<le> int r * int r"
    using sq by (simp add: algebra_simps)
  also have "\<dots> = int (r * r)" by simp
  finally have "(2 * r - n) * n \<le> r * r" by (simp only: of_nat_le_iff)
  with assms(1) have "(2 * r - n) * n \<le> c" by linarith
  with assms(2) have "2 * r - n \<le> c div n"
    by (simp add: less_eq_div_iff_mult_less_eq)
  then show ?thesis by linarith
qed

lemma sqrt_newton_cert:
  "r * r \<le> c \<Longrightarrow> c < (r + 1) * (r + 1) \<Longrightarrow> r \<le> n \<Longrightarrow> sqrt_newton c n = r"
proof (induction c n rule: sqrt_newton.induct)
  case (1 c n)
  show ?case
  proof (cases "n \<le> c div n")
    case True
    have "n * n \<le> n * (c div n)" using True by simp
    also have "\<dots> \<le> c" by simp
    finally have "n * n < (r + 1) * (r + 1)" using 1(3) by linarith
    then have "n < r + 1"
      by (meson mult_le_mono not_le)
    with 1(4) have "n = r" by linarith
    with True show ?thesis by (subst sqrt_newton.simps) simp
  next
    case False
    then have npos: "0 < n" by (cases n) auto
    have "r \<le> (n + c div n) div 2" using newton_step_ge [OF 1(2) npos] .
    from 1(1) [OF refl False 1(2) 1(3) this] False
    show ?thesis by (subst sqrt_newton.simps) simp
  qed
qed

lemma ndivmod_cert: "a = nmul q b + r \<Longrightarrow> r < b \<Longrightarrow> ndiv a b = q \<and> nmod a b = r"
  by (simp add: nmul_def ndiv_def nmod_def)

lemma ndigits_small: "n < 10 \<Longrightarrow> ndigits n = 1"
  by (simp add: ndigits.simps)

lemma ndigits_pow: "10 ^ j \<le> n \<Longrightarrow> n < 10 ^ Suc j \<Longrightarrow> ndigits n = Suc j"
proof (induction j arbitrary: n)
  case 0
  then show ?case by (simp add: ndigits.simps)
next
  case (Suc j)
  have "10 ^ j \<le> n div 10" using Suc.prems(1) by (simp add: less_eq_div_iff_mult_less_eq)
  moreover have "n div 10 < 10 ^ Suc j"
    using Suc.prems(2) by (simp add: div_less_iff_less_mult)
  ultimately have "ndigits (n div 10) = Suc j" by (rule Suc.IH)
  moreover have "\<not> n < 10"
  proof -
    have "10 * 10 ^ j \<le> n" using Suc.prems(1) by simp
    moreover have "(1::nat) \<le> 10 ^ j" by simp
    ultimately show ?thesis by linarith
  qed
  ultimately show ?case by (subst ndigits.simps) simp
qed

lemma ndigits_cert: "npow10 j \<le> n \<Longrightarrow> n < npow10 k \<Longrightarrow> k = Suc j \<Longrightarrow> ndigits n = k"
  unfolding npow10_def by (simp add: ndigits_pow)

lemma strip_zeros_pow:
  "e + int j \<le> ideal \<Longrightarrow> e + int j = ideal \<or> c' mod 10 \<noteq> 0 \<Longrightarrow>
   strip_zeros (c' * 10 ^ j) e ideal = (c', e + int j)"
proof (induction j arbitrary: e)
  case 0
  then show ?case by (subst strip_zeros.simps) auto
next
  case (Suc j)
  have "strip_zeros (c' * 10 ^ Suc j) e ideal = strip_zeros (c' * 10 ^ j) (e + 1) ideal"
    using Suc.prems(1) by (subst strip_zeros.simps) simp
  also have "\<dots> = (c', (e + 1) + int j)"
    using Suc.prems by (intro Suc.IH) auto
  finally show ?case by simp
qed

lemma strip_zeros_cert:
  "c = nmul c' (npow10 j) \<Longrightarrow> e' = e + int j \<Longrightarrow> e' \<le> ideal \<Longrightarrow>
   e' = ideal \<or> nmod c' 10 \<noteq> 0 \<Longrightarrow> strip_zeros c e ideal = (c', e')"
  unfolding nmul_def npow10_def nmod_def by (simp add: strip_zeros_pow)

lemma sqrt_newton_cert':
  "r1 = r + 1 \<Longrightarrow> nmul r r \<le> c \<Longrightarrow> c < nmul r1 r1 \<Longrightarrow> r \<le> n \<Longrightarrow> sqrt_newton c n = r"
  unfolding nmul_def by (simp add: sqrt_newton_cert)

lemma npow10_0: "npow10 0 = 1" by (simp add: npow10_def)
lemma npow10_Suc_0 [simp]: "npow10 (Suc 0) = 10" by (simp add: npow10_def)
lemma ipow10_Suc_0 [simp]: "ipow10 (Suc 0) = 10" by (simp add: ipow10_def)
lemma npow10_next: "npow10 j = a \<Longrightarrow> Suc j = k \<Longrightarrow> 10 * a = b \<Longrightarrow> npow10 k = b"
  by (auto simp: npow10_def)
lemma ipow10_of: "npow10 k = a \<Longrightarrow> int a = b \<Longrightarrow> ipow10 k = b"
  by (auto simp: npow10_def ipow10_def)
lemma imul_nat: "nmul a b = c \<Longrightarrow> imul (int a) (int b) = int c"
  by (auto simp: nmul_def imul_def)
lemma nmul_1 [simp]: "nmul a 1 = a" "nmul 1 a = a" "nmul a (Suc 0) = a" "nmul (Suc 0) a = a"
  by (simp_all add: nmul_def)
lemma nmul_0 [simp]: "nmul a 0 = 0" "nmul 0 a = 0"
  by (simp_all add: nmul_def)
lemma imul_1 [simp]: "imul a 1 = a" "imul 1 a = a"
  by (simp_all add: imul_def)
lemma imul_0 [simp]: "imul a 0 = 0" "imul 0 a = 0"
  by (simp_all add: imul_def)
lemma imul_neg [simp]: "imul (- a) b = - imul a b" "imul a (- b) = - imul a b"
  by (simp_all add: imul_def)
lemma ndiv_1 [simp]: "ndiv a 1 = a" "ndiv a (Suc 0) = a" "nmod a 1 = 0" "nmod a (Suc 0) = 0"
  by (simp_all add: ndiv_def nmod_def)

lemma ten_sq: "(10::nat)\<^sup>2 = 100"
  by simp

lemma round_half_even_ev:
  "round_half_even c k =
     (let q = ndiv c (npow10 k); r = nmod c (npow10 k) in
      if 2 * r < npow10 k then q
      else if 2 * r > npow10 k then q + 1
      else if even q then q else q + 1)"
  unfolding round_half_even_def npow10_def ndiv_def nmod_def by (rule refl)

lemma dec_fix_ev:
  "dec_fix p x =
     (if coeff x = 0 then x
      else
        let exp_min = int (ndigits (nat \<bar>coeff x\<bar>)) + expo x - int p in
        if expo x < exp_min then
          let c = round_half_even (nat \<bar>coeff x\<bar>) (nat (exp_min - expo x)) in
          if ndigits c > p
          then \<lparr>coeff = sgn (coeff x) * int (ndiv c 10), expo = exp_min + 1\<rparr>
          else \<lparr>coeff = sgn (coeff x) * int c, expo = exp_min\<rparr>
        else x)"
  unfolding dec_fix_def ndiv_def by (rule refl)

lemma dec_add_ev:
  "dec_add p x y =
     (let e = min (expo x) (expo y) in
      dec_fix p \<lparr>coeff = imul (coeff x) (ipow10 (nat (expo x - e)))
                        + imul (coeff y) (ipow10 (nat (expo y - e))),
                expo = e\<rparr>)"
  unfolding dec_add_def imul_def ipow10_def by (rule refl)

lemma dec_mul_ev:
  "dec_mul p x y = dec_fix p \<lparr>coeff = imul (coeff x) (coeff y), expo = expo x + expo y\<rparr>"
  unfolding dec_mul_def imul_def by (rule refl)

lemma dec_div_ev:
  "dec_div p x y =
     (if coeff y = 0 then
        (if coeff x = 0 then Inl InvalidOperation else Inl DivisionByZero)
      else if coeff x = 0 then Inr (dec_fix p \<lparr>coeff = 0, expo = expo x - expo y\<rparr>)
      else
        let sign = sgn (coeff x) * sgn (coeff y);
            c1 = nat \<bar>coeff x\<bar>;
            c2 = nat \<bar>coeff y\<bar>;
            shift = int (ndigits c2) - int (ndigits c1) + int p + 1;
            e = expo x - expo y - shift;
            num = (if shift \<ge> 0 then nmul c1 (npow10 (nat shift)) else c1);
            den = (if shift \<ge> 0 then c2 else nmul c2 (npow10 (nat (- shift))));
            q = ndiv num den;
            r = nmod num den
        in if r \<noteq> 0 then
             Inr (dec_fix p \<lparr>coeff = sign * int (if nmod q 5 = 0 then q + 1 else q), expo = e\<rparr>)
           else
             (case strip_zeros q e (expo x - expo y) of
                (q', e') \<Rightarrow> Inr (dec_fix p \<lparr>coeff = sign * int q', expo = e'\<rparr>)))"
  unfolding dec_div_def nmul_def npow10_def ndiv_def nmod_def by (rule refl)

lemma dec_sqrt_ev:
  "dec_sqrt ctxprec x =
     (if coeff x = 0 then Inr (dec_fix ctxprec \<lparr>coeff = 0, expo = expo x div 2\<rparr>)
      else if coeff x < 0 then Inl InvalidOperation
      else
        let p1 = ctxprec + 1;
            ci = nat (coeff x);
            len = ndigits ci;
            c = (if odd (expo x) then ci * 10 else ci);
            l = (if odd (expo x) then len div 2 + 1 else (len + 1) div 2);
            shift = int p1 - int l;
            c' = (if shift \<ge> 0 then nmul c (npow10 (2 * nat shift))
                  else ndiv c (npow10 (2 * nat (- shift))));
            exact0 = (shift \<ge> 0 \<or> nmod c (npow10 (2 * nat (- shift))) = 0);
            e = expo x div 2 - shift;
            n = sqrt_newton c' (npow10 p1);
            exact = (exact0 \<and> nmul n n = c')
        in if exact then
             Inr (dec_fix ctxprec
               \<lparr>coeff = int (if shift \<ge> 0 then ndiv n (npow10 (nat shift))
                              else nmul n (npow10 (nat (- shift)))),
                expo = e + shift\<rparr>)
           else
             Inr (dec_fix ctxprec \<lparr>coeff = int (if nmod n 5 = 0 then n + 1 else n), expo = e\<rparr>))"
  unfolding dec_sqrt_def nmul_def npow10_def ndiv_def nmod_def power_mult ten_sq by (rule refl)

lemma dec_pow2_ev:
  "dec_pow2 p x =
     (if coeff x = 0 then \<lparr>coeff = 0, expo = 0\<rparr>
      else dec_fix p (dec_fix (p + 3) \<lparr>coeff = imul (coeff x) (coeff x), expo = 2 * expo x\<rparr>))"
  unfolding dec_pow2_def imul_def by (rule refl)

lemma dec_eq_ev:
  "dec_eq x y =
     (let e = min (expo x) (expo y) in
      imul (coeff x) (ipow10 (nat (expo x - e))) = imul (coeff y) (ipow10 (nat (expo y - e))))"
  unfolding dec_eq_def imul_def ipow10_def by (rule refl)

lemma rescale_down_ev:
  "rescale_down x e =
     (if expo x \<ge> e then \<lparr>coeff = imul (coeff x) (ipow10 (nat (expo x - e))), expo = e\<rparr>
      else \<lparr>coeff = sgn (coeff x) * int (ndiv (nat \<bar>coeff x\<bar>) (npow10 (nat (e - expo x)))), expo = e\<rparr>)"
  unfolding rescale_down_def imul_def ipow10_def ndiv_def npow10_def by (rule refl)

lemmas ev = gl_init_def gl_next_def converged_def pi_value_def quantize_down_def dec_of_int_def
  dec_neg_def dec_sub_def Let_def
  round_half_even_ev dec_fix_ev dec_add_ev dec_mul_ev dec_div_ev dec_sqrt_ev dec_pow2_ev
  dec_eq_ev rescale_down_ev

section \<open>The loop stops exactly when the test fires\<close>

lemma gl_loop_iterate: "gl_iterate p k s = Some sk \<Longrightarrow> gl_loop p s = gl_loop p sk"
proof (induction k arbitrary: s)
  case 0
  then show ?case by simp
next
  case (Suc k)
  then obtain s' where n: "gl_next p s = Inr s'" and c: "\<not> converged s s'"
    and it: "gl_iterate p k s' = Some sk"
    by (auto split: sum.splits if_splits)
  have "gl_loop p s = gl_loop p s'"
    by (subst gl_loop.simps) (simp add: n c)
  with Suc.IH [OF it] show ?case by simp
qed

lemma gl_loop_exit: "gl_exit p s = Some r \<Longrightarrow> gl_loop p s = Some r"
  by (subst gl_loop.simps) (auto simp: gl_exit_def split: sum.splits if_splits)

lemma gl_loop_Some_iterate:
  "gl_loop p s = Some r \<Longrightarrow> \<exists>k sk. gl_iterate p k s = Some sk \<and> gl_exit p sk = Some r"
proof (erule gl_loop.raw_induct [rotated], goal_cases)
  case (1 f p s r)
  show ?case
  proof (cases "gl_exit p s")
    case (Some r')
    with 1(2) have "r' = r"
      by (auto simp: gl_exit_def split: sum.splits if_splits)
    with Some have "gl_iterate p 0 s = Some s \<and> gl_exit p s = Some r" by simp
    then show ?thesis by blast
  next
    case None
    then obtain s' where n: "gl_next p s = Inr s'" and c: "\<not> converged s s'"
      by (auto simp: gl_exit_def split: sum.splits if_splits)
    with 1(2) have "f p s' = Some r" by simp
    from 1(1) [OF this] obtain k sk where it: "gl_iterate p k s' = Some sk"
      and fin: "gl_exit p sk = Some r"
      by blast
    from it n c have "gl_iterate p (Suc k) s = Some sk" by simp
    with fin show ?thesis by blast
  qed
qed

lemma gl_loop_Inr_iff:
  "gl_loop p s = Some (Inr sk) \<longleftrightarrow>
     (\<exists>k s'. gl_iterate p k s = Some sk \<and> gl_next p sk = Inr s' \<and> converged sk s')"
proof
  assume "gl_loop p s = Some (Inr sk)"
  from gl_loop_Some_iterate [OF this] obtain k s0 where it: "gl_iterate p k s = Some s0"
    and fin: "gl_exit p s0 = Some (Inr sk)"
    by blast
  from fin obtain s' where "gl_next p s0 = Inr s'" "converged s0 s'" "s0 = sk"
    by (auto simp: gl_exit_def split: sum.splits if_splits)
  with it show "\<exists>k s'. gl_iterate p k s = Some sk \<and> gl_next p sk = Inr s' \<and> converged sk s'"
    by blast
next
  assume "\<exists>k s'. gl_iterate p k s = Some sk \<and> gl_next p sk = Inr s' \<and> converged sk s'"
  then obtain k s' where it: "gl_iterate p k s = Some sk" and n: "gl_next p sk = Inr s'" and c: "converged sk s'"
    by blast
  from n c have "gl_exit p sk = Some (Inr sk)" by (simp add: gl_exit_def)
  from gl_loop_exit [OF this] gl_loop_iterate [OF it] show "gl_loop p s = Some (Inr sk)" by simp
qed


section \<open>Digit strings\<close>

lemma digit_char_props: "d < 10 \<Longrightarrow> is_digit (digit_char d) \<and> digit_val (digit_char d) = d \<and> digit_char d \<noteq> CHR ''_''"
proof -
  assume "d < 10"
  then have "d \<in> {0, 1, 2, 3, 4, 5, 6, 7, 8, 9}" by auto
  then show ?thesis
    by (auto simp: digit_char_def is_digit_def digit_val_def)
qed

lemma is_digit_char: "is_digit c \<Longrightarrow> digit_val c < 10 \<and> digit_char (digit_val c) = c"
proof -
  assume d: "is_digit c"
  define k where "k = digit_val c"
  from d have k: "k < 10" and oc: "(of_char c :: nat) = 48 + k"
    by (auto simp: k_def digit_val_def is_digit_def)
  from k have "k \<in> {0, 1, 2, 3, 4, 5, 6, 7, 8, 9}" by auto
  then have od: "(of_char (digit_char k) :: nat) = 48 + k"
    by (auto simp: digit_char_def)
  have "(of_char c :: nat) = of_char (digit_char k)"
    by (simp only: oc od)
  then have "c = digit_char k" by (simp only: of_char_eq_iff)
  with k show ?thesis unfolding k_def by simp
qed

lemma digits_val_snoc: "digits_val (ds @ [c]) = 10 * digits_val ds + digit_val c"
  by (simp add: digits_val_def)

lemma str_nat_digits: "str_nat n \<noteq> [] \<and> list_all is_digit (str_nat n) \<and> digits_val (str_nat n) = n"
proof (induction n rule: str_nat.induct)
  case (1 n)
  show ?case
  proof (cases "n < 10")
    case True
    then show ?thesis
      by (subst (1 2 3) str_nat.simps) (simp add: digit_char_props digits_val_def)
  next
    case False
    have m: "n mod 10 < 10" by simp
    from 1 [OF False] digit_char_props [OF m] False show ?thesis
      by (subst (1 2 3) str_nat.simps) (simp add: digits_val_snoc)
  qed
qed

lemma length_str_nat: "length (str_nat n) = ndigits n"
proof (induction n rule: str_nat.induct)
  case (1 n)
  show ?case
  proof (cases "n < 10")
    case True
    then show ?thesis by (subst str_nat.simps, subst ndigits.simps) simp
  next
    case False
    with 1 [OF False] show ?thesis by (subst str_nat.simps, subst ndigits.simps) simp
  qed
qed

lemma digits_val_pos:
  "ds \<noteq> [] \<Longrightarrow> hd ds \<noteq> CHR ''0'' \<Longrightarrow> list_all is_digit ds \<Longrightarrow> 0 < digits_val ds"
proof (induction ds rule: rev_induct)
  case Nil
  then show ?case by simp
next
  case (snoc c ds)
  show ?case
  proof (cases "ds = []")
    case True
    with snoc.prems have d: "is_digit c" "c \<noteq> CHR ''0''" by simp_all
    have "digit_val c \<noteq> 0"
    proof
      assume "digit_val c = 0"
      with is_digit_char [OF d(1)] have "c = digit_char 0" by simp
      with d(2) show False by (simp add: digit_char_def)
    qed
    with True show ?thesis by (simp add: digits_val_def)
  next
    case False
    with snoc have "0 < digits_val ds" by simp
    then show ?thesis by (simp add: digits_val_snoc)
  qed
qed

lemma str_nat_cert:
  "digits_val ds = n \<Longrightarrow> ds \<noteq> [] \<Longrightarrow> list_all is_digit ds \<Longrightarrow>
   hd ds \<noteq> CHR ''0'' \<or> length ds = 1 \<Longrightarrow> str_nat n = ds"
proof (induction ds arbitrary: n rule: rev_induct)
  case Nil
  then show ?case by simp
next
  case (snoc c ds)
  from snoc.prems have c: "is_digit c" by simp
  from snoc.prems(1) have n: "n = 10 * digits_val ds + digit_val c" by (simp add: digits_val_snoc)
  show ?case
  proof (cases "ds = []")
    case True
    with n is_digit_char [OF c] show ?thesis
      by (subst str_nat.simps) (simp add: digits_val_def)
  next
    case False
    with snoc.prems have h: "hd ds \<noteq> CHR ''0''" "list_all is_digit ds" by auto
    from digits_val_pos [OF False h] have pos: "0 < digits_val ds" .
    from h False have "str_nat (digits_val ds) = ds" by (intro snoc.IH) auto
    moreover from n pos is_digit_char [OF c] have "\<not> n < 10" "n div 10 = digits_val ds" "n mod 10 = digit_val c"
      by auto
    ultimately show ?thesis using is_digit_char [OF c]
      by (subst str_nat.simps) simp
  qed
qed

lemma is_digit_not_other:
  "is_digit c \<Longrightarrow> c \<noteq> CHR ''_'' \<and> c \<noteq> CHR ''-'' \<and> c \<noteq> CHR ''+'' \<and> \<not> is_space c"
  by (auto simp: is_digit_def is_space_def)

lemma digits_no_double_underscore: "list_all is_digit ds \<Longrightarrow> no_double_underscore ds"
  by (induction ds rule: no_double_underscore.induct) (auto dest: is_digit_not_other)

lemma int_of_str_digits:
  assumes ne: "ds \<noteq> []" and dg: "list_all is_digit ds" and len: "length ds \<le> max_str_digits"
  shows "int_of_str ds = Inr (int (digits_val ds))"
proof -
  from ne obtain c cs where ds: "ds = c # cs" by (cases ds) auto
  with dg have c: "is_digit c" by simp
  from dg have all: "\<forall>x\<in>set ds. is_digit x \<or> x = CHR ''_''" by (auto simp: list_all_iff)
  have s1: "dropWhile is_space ds = ds"
    using ds is_digit_not_other [OF c] by simp
  have tw: "takeWhile (\<lambda>c. is_digit c \<or> c = CHR ''_'') ds = ds"
    using all by (simp add: takeWhile_eq_all_conv)
  have dw: "dropWhile (\<lambda>c. is_digit c \<or> c = CHR ''_'') ds = []"
    using all by (simp add: dropWhile_eq_Nil_conv)
  have fl: "filter is_digit ds = ds"
    using dg by (simp add: list_all_iff filter_id_conv)
  have hd: "hd ds \<noteq> CHR ''_''" "hd ds \<noteq> CHR ''-''" "hd ds \<noteq> CHR ''+''"
    using ds is_digit_not_other [OF c] by simp_all
  have "is_digit (last ds)" using ne dg by (simp add: list_all_iff)
  then have la: "last ds \<noteq> CHR ''_''" by (auto dest: is_digit_not_other)
  show ?thesis
    unfolding int_of_str_def Let_def s1
    using ne hd la len digits_no_double_underscore [OF dg]
    by (simp add: tw dw fl)
qed

lemma int_of_str_str_nat:
  "ndigits n \<le> max_str_digits \<Longrightarrow> int_of_str (str_nat n) = Inr (int n)"
  using int_of_str_digits [of "str_nat n"] str_nat_digits [of n]
  by (simp add: length_str_nat)

section \<open>The runs for 0, 2, 3, 10 and 50 digits, step by step\<close>

lemma dg_f1 [simp]: "ndigits 2 = 1"
  by (rule ndigits_small) simp

lemma p10_f2 [simp]: "npow10 0 = 1"
  by (rule npow10_0)

lemma p10_f3 [simp]: "npow10 1 = 10"
  by (rule npow10_next [OF p10_f2]) simp_all

lemma p10_f4 [simp]: "npow10 2 = 100"
  by (rule npow10_next [OF p10_f3]) simp_all

lemma p10_f5 [simp]: "npow10 3 = 1000"
  by (rule npow10_next [OF p10_f4]) simp_all

lemma p10_f6 [simp]: "npow10 4 = 10000"
  by (rule npow10_next [OF p10_f5]) simp_all

lemma p10_f7 [simp]: "npow10 5 = 100000"
  by (rule npow10_next [OF p10_f6]) simp_all

lemma p10_f8 [simp]: "npow10 6 = 1000000"
  by (rule npow10_next [OF p10_f7]) simp_all

lemma p10_f9 [simp]: "npow10 7 = 10000000"
  by (rule npow10_next [OF p10_f8]) simp_all

lemma p10_f10 [simp]: "npow10 8 = 100000000"
  by (rule npow10_next [OF p10_f9]) simp_all

lemma p10_f11 [simp]: "npow10 9 = 1000000000"
  by (rule npow10_next [OF p10_f10]) simp_all

lemma p10_f12 [simp]: "npow10 10 = 10000000000"
  by (rule npow10_next [OF p10_f11]) simp_all

lemma nm_f13 [simp]: "nmul 2 10000000000 = 20000000000"
  by (simp only: nmul_def arith_simps rel_simps numeral_times_numeral numeral_plus_numeral)

lemma nm_f14 [simp]: "nmul 141421 141421 = 19999899241"
  by (simp only: nmul_def arith_simps rel_simps numeral_times_numeral numeral_plus_numeral)

lemma nm_f15 [simp]: "nmul 141422 141422 = 20000182084"
  by (simp only: nmul_def arith_simps rel_simps numeral_times_numeral numeral_plus_numeral)

lemma sq_f16 [simp]: "sqrt_newton 20000000000 1000000 = 141421"
  by (rule sqrt_newton_cert' [where ?r1.0 = 141422]) simp_all

lemma nm_f17 [simp]: "nmul 28284 5 = 141420"
  by (simp only: nmul_def arith_simps rel_simps numeral_times_numeral numeral_plus_numeral)

lemma nd_f18 [simp]: "ndiv 141421 5 = 28284 \<and> nmod 141421 5 = 1"
  by (rule ndivmod_cert [where r = 1]) simp_all

lemma dg_f19 [simp]: "ndigits 141421 = 6"
  by (rule ndigits_cert [where j = 5]) simp_all

lemma nm_f20 [simp]: "nmul 14142 10 = 141420"
  by (simp only: nmul_def arith_simps rel_simps numeral_times_numeral numeral_plus_numeral)

lemma nd_f21 [simp]: "ndiv 141421 10 = 14142 \<and> nmod 141421 10 = 1"
  by (rule ndivmod_cert [where r = 1]) simp_all

lemma dg_f22 [simp]: "ndigits 14142 = 5"
  by (rule ndigits_cert [where j = 4]) simp_all

lemma dg_f23 [simp]: "ndigits 1 = 1"
  by (simp add: ndigits.simps)

lemma dg_f24 [simp]: "ndigits (Suc 0) = 1"
  by (simp add: ndigits.simps)

lemma nm_f25 [simp]: "nmul 707113 14142 = 9999992046"
  by (simp only: nmul_def arith_simps rel_simps numeral_times_numeral numeral_plus_numeral)

lemma nd_f26 [simp]: "ndiv 10000000000 14142 = 707113 \<and> nmod 10000000000 14142 = 7954"
  by (rule ndivmod_cert [where r = 7954]) simp_all

lemma nm_f27 [simp]: "nmul 141422 5 = 707110"
  by (simp only: nmul_def arith_simps rel_simps numeral_times_numeral numeral_plus_numeral)

lemma nd_f28 [simp]: "ndiv 707113 5 = 141422 \<and> nmod 707113 5 = 3"
  by (rule ndivmod_cert [where r = 3]) simp_all

lemma dg_f29 [simp]: "ndigits 707113 = 6"
  by (rule ndigits_cert [where j = 5]) simp_all

lemma nm_f30 [simp]: "nmul 70711 10 = 707110"
  by (simp only: nmul_def arith_simps rel_simps numeral_times_numeral numeral_plus_numeral)

lemma nd_f31 [simp]: "ndiv 707113 10 = 70711 \<and> nmod 707113 10 = 3"
  by (rule ndivmod_cert [where r = 3]) simp_all

lemma dg_f32 [simp]: "ndigits 70711 = 5"
  by (rule ndigits_cert [where j = 4]) simp_all

lemma dg_f33 [simp]: "ndigits 4 = 1"
  by (rule ndigits_small) simp

lemma nm_f34 [simp]: "nmul 250000 4 = 1000000"
  by (simp only: nmul_def arith_simps rel_simps numeral_times_numeral numeral_plus_numeral)

lemma nd_f35 [simp]: "ndiv 1000000 4 = 250000 \<and> nmod 1000000 4 = 0"
  by (rule ndivmod_cert [where r = 0]) simp_all

lemma nm_f36 [simp]: "nmul 25 10000 = 250000"
  by (simp only: nmul_def arith_simps rel_simps numeral_times_numeral numeral_plus_numeral)

lemma nm_f37 [simp]: "nmul 2 10 = 20"
  by (simp only: nmul_def arith_simps rel_simps numeral_times_numeral numeral_plus_numeral)

lemma nd_f38 [simp]: "ndiv 25 10 = 2 \<and> nmod 25 10 = 5"
  by (rule ndivmod_cert [where r = 5]) simp_all

lemma sz_f39 [simp]: "strip_zeros 250000 (- 6) 0 = (25, (- 2))"
  by (rule strip_zeros_cert [where j = 4]) simp_all

lemma dg_f40 [simp]: "ndigits 25 = 2"
  by (rule ndigits_cert [where j = 1]) simp_all

lemma init_n0: "gl_init 5 = Inr \<lparr>a_n = \<lparr>coeff = 1, expo = 0\<rparr>, b_n = \<lparr>coeff = 70711, expo = (- 5)\<rparr>, t_n = \<lparr>coeff = 25, expo = (- 2)\<rparr>, p_n = \<lparr>coeff = 1, expo = 0\<rparr>\<rparr>"
  by (simp add: ev cong: let_weak_cong)

lemma ip10_f41 [simp]: "ipow10 5 = 100000"
  by (rule ipow10_of [OF p10_f7]) simp

lemma ip10_f42 [simp]: "ipow10 0 = 1"
  by (rule ipow10_of [OF p10_f2]) simp

lemma dg_f43 [simp]: "ndigits 170711 = 6"
  by (rule ndigits_cert [where j = 5]) simp_all

lemma nm_f44 [simp]: "nmul 17071 10 = 170710"
  by (simp only: nmul_def arith_simps rel_simps numeral_times_numeral numeral_plus_numeral)

lemma nd_f45 [simp]: "ndiv 170711 10 = 17071 \<and> nmod 170711 10 = 1"
  by (rule ndivmod_cert [where r = 1]) simp_all

lemma dg_f46 [simp]: "ndigits 17071 = 5"
  by (rule ndigits_cert [where j = 4]) simp_all

lemma nm_f47 [simp]: "nmul 17071 100 = 1707100"
  by (simp only: nmul_def arith_simps rel_simps numeral_times_numeral numeral_plus_numeral)

lemma nm_f48 [simp]: "nmul 853550 2 = 1707100"
  by (simp only: nmul_def arith_simps rel_simps numeral_times_numeral numeral_plus_numeral)

lemma nd_f49 [simp]: "ndiv 1707100 2 = 853550 \<and> nmod 1707100 2 = 0"
  by (rule ndivmod_cert [where r = 0]) simp_all

lemma nm_f50 [simp]: "nmul 85355 10 = 853550"
  by (simp only: nmul_def arith_simps rel_simps numeral_times_numeral numeral_plus_numeral)

lemma nm_f51 [simp]: "nmul 8535 10 = 85350"
  by (simp only: nmul_def arith_simps rel_simps numeral_times_numeral numeral_plus_numeral)

lemma nd_f52 [simp]: "ndiv 85355 10 = 8535 \<and> nmod 85355 10 = 5"
  by (rule ndivmod_cert [where r = 5]) simp_all

lemma sz_f53 [simp]: "strip_zeros 853550 (- 6) (- 4) = (85355, (- 5))"
  by (rule strip_zeros_cert [where j = 1]) simp_all

lemma dg_f54 [simp]: "ndigits 85355 = 5"
  by (rule ndigits_cert [where j = 4]) simp_all

lemma nm_f55 [simp]: "nmul 707110 1000000 = 707110000000"
  by (simp only: nmul_def arith_simps rel_simps numeral_times_numeral numeral_plus_numeral)

lemma nm_f56 [simp]: "nmul 840898 840898 = 707109446404"
  by (simp only: nmul_def arith_simps rel_simps numeral_times_numeral numeral_plus_numeral)

lemma nm_f57 [simp]: "nmul 840899 840899 = 707111128201"
  by (simp only: nmul_def arith_simps rel_simps numeral_times_numeral numeral_plus_numeral)

lemma sq_f58 [simp]: "sqrt_newton 707110000000 1000000 = 840898"
  by (rule sqrt_newton_cert' [where ?r1.0 = 840899]) simp_all

lemma nm_f59 [simp]: "nmul 168179 5 = 840895"
  by (simp only: nmul_def arith_simps rel_simps numeral_times_numeral numeral_plus_numeral)

lemma nd_f60 [simp]: "ndiv 840898 5 = 168179 \<and> nmod 840898 5 = 3"
  by (rule ndivmod_cert [where r = 3]) simp_all

lemma dg_f61 [simp]: "ndigits 840898 = 6"
  by (rule ndigits_cert [where j = 5]) simp_all

lemma nm_f62 [simp]: "nmul 84089 10 = 840890"
  by (simp only: nmul_def arith_simps rel_simps numeral_times_numeral numeral_plus_numeral)

lemma nd_f63 [simp]: "ndiv 840898 10 = 84089 \<and> nmod 840898 10 = 8"
  by (rule ndivmod_cert [where r = 8]) simp_all

lemma dg_f64 [simp]: "ndigits 84090 = 5"
  by (rule ndigits_cert [where j = 4]) simp_all

lemma dg_f65 [simp]: "ndigits 14645 = 5"
  by (rule ndigits_cert [where j = 4]) simp_all

lemma im_f66 [simp]: "imul 14645 14645 = 214476025"
  by (simp only: imul_def arith_simps rel_simps numeral_times_numeral numeral_plus_numeral)

lemma dg_f67 [simp]: "ndigits 214476025 = 9"
  by (rule ndigits_cert [where j = 8]) simp_all

lemma nm_f68 [simp]: "nmul 21447602 10 = 214476020"
  by (simp only: nmul_def arith_simps rel_simps numeral_times_numeral numeral_plus_numeral)

lemma nd_f69 [simp]: "ndiv 214476025 10 = 21447602 \<and> nmod 214476025 10 = 5"
  by (rule ndivmod_cert [where r = 5]) simp_all

lemma dg_f70 [simp]: "ndigits 21447602 = 8"
  by (rule ndigits_cert [where j = 7]) simp_all

lemma nm_f71 [simp]: "nmul 21447 1000 = 21447000"
  by (simp only: nmul_def arith_simps rel_simps numeral_times_numeral numeral_plus_numeral)

lemma nd_f72 [simp]: "ndiv 21447602 1000 = 21447 \<and> nmod 21447602 1000 = 602"
  by (rule ndivmod_cert [where r = 602]) simp_all

lemma dg_f73 [simp]: "ndigits 21448 = 5"
  by (rule ndigits_cert [where j = 4]) simp_all

lemma ip10_f74 [simp]: "ipow10 4 = 10000"
  by (rule ipow10_of [OF p10_f6]) simp

lemma im_f75 [simp]: "imul 25 10000 = 250000"
  by (simp only: imul_def arith_simps rel_simps numeral_times_numeral numeral_plus_numeral)

lemma dg_f76 [simp]: "ndigits 228552 = 6"
  by (rule ndigits_cert [where j = 5]) simp_all

lemma nm_f77 [simp]: "nmul 22855 10 = 228550"
  by (simp only: nmul_def arith_simps rel_simps numeral_times_numeral numeral_plus_numeral)

lemma nd_f78 [simp]: "ndiv 228552 10 = 22855 \<and> nmod 228552 10 = 2"
  by (rule ndivmod_cert [where r = 2]) simp_all

lemma dg_f79 [simp]: "ndigits 22855 = 5"
  by (rule ndigits_cert [where j = 4]) simp_all

lemma next_n0_0: "gl_next 5 \<lparr>a_n = \<lparr>coeff = 1, expo = 0\<rparr>, b_n = \<lparr>coeff = 70711, expo = (- 5)\<rparr>, t_n = \<lparr>coeff = 25, expo = (- 2)\<rparr>, p_n = \<lparr>coeff = 1, expo = 0\<rparr>\<rparr> = Inr \<lparr>a_n = \<lparr>coeff = 85355, expo = (- 5)\<rparr>, b_n = \<lparr>coeff = 84090, expo = (- 5)\<rparr>, t_n = \<lparr>coeff = 22855, expo = (- 5)\<rparr>, p_n = \<lparr>coeff = 2, expo = 0\<rparr>\<rparr>"
  by (simp add: ev cong: let_weak_cong)

lemma conv_n0_0: "converged \<lparr>a_n = \<lparr>coeff = 1, expo = 0\<rparr>, b_n = \<lparr>coeff = 70711, expo = (- 5)\<rparr>, t_n = \<lparr>coeff = 25, expo = (- 2)\<rparr>, p_n = \<lparr>coeff = 1, expo = 0\<rparr>\<rparr> \<lparr>a_n = \<lparr>coeff = 85355, expo = (- 5)\<rparr>, b_n = \<lparr>coeff = 84090, expo = (- 5)\<rparr>, t_n = \<lparr>coeff = 22855, expo = (- 5)\<rparr>, p_n = \<lparr>coeff = 2, expo = 0\<rparr>\<rparr> = False"
  by (simp add: ev cong: let_weak_cong)

lemma dg_f80 [simp]: "ndigits 169445 = 6"
  by (rule ndigits_cert [where j = 5]) simp_all

lemma nm_f81 [simp]: "nmul 16944 10 = 169440"
  by (simp only: nmul_def arith_simps rel_simps numeral_times_numeral numeral_plus_numeral)

lemma nd_f82 [simp]: "ndiv 169445 10 = 16944 \<and> nmod 169445 10 = 5"
  by (rule ndivmod_cert [where r = 5]) simp_all

lemma dg_f83 [simp]: "ndigits 16944 = 5"
  by (rule ndigits_cert [where j = 4]) simp_all

lemma nm_f84 [simp]: "nmul 16944 100 = 1694400"
  by (simp only: nmul_def arith_simps rel_simps numeral_times_numeral numeral_plus_numeral)

lemma nm_f85 [simp]: "nmul 847200 2 = 1694400"
  by (simp only: nmul_def arith_simps rel_simps numeral_times_numeral numeral_plus_numeral)

lemma nd_f86 [simp]: "ndiv 1694400 2 = 847200 \<and> nmod 1694400 2 = 0"
  by (rule ndivmod_cert [where r = 0]) simp_all

lemma nm_f87 [simp]: "nmul 8472 100 = 847200"
  by (simp only: nmul_def arith_simps rel_simps numeral_times_numeral numeral_plus_numeral)

lemma sz_f88 [simp]: "strip_zeros 847200 (- 6) (- 4) = (8472, (- 4))"
  by (rule strip_zeros_cert [where j = 2]) simp_all

lemma dg_f89 [simp]: "ndigits 8472 = 4"
  by (rule ndigits_cert [where j = 3]) simp_all

lemma im_f90 [simp]: "imul 85355 84090 = 7177501950"
  by (simp only: imul_def arith_simps rel_simps numeral_times_numeral numeral_plus_numeral)

lemma dg_f91 [simp]: "ndigits 7177501950 = 10"
  by (rule ndigits_cert [where j = 9]) simp_all

lemma nm_f92 [simp]: "nmul 71775 100000 = 7177500000"
  by (simp only: nmul_def arith_simps rel_simps numeral_times_numeral numeral_plus_numeral)

lemma nd_f93 [simp]: "ndiv 7177501950 100000 = 71775 \<and> nmod 7177501950 100000 = 1950"
  by (rule ndivmod_cert [where r = 1950]) simp_all

lemma dg_f94 [simp]: "ndigits 71775 = 5"
  by (rule ndigits_cert [where j = 4]) simp_all

lemma nm_f95 [simp]: "nmul 717750 1000000 = 717750000000"
  by (simp only: nmul_def arith_simps rel_simps numeral_times_numeral numeral_plus_numeral)

lemma nm_f96 [simp]: "nmul 847201 847201 = 717749534401"
  by (simp only: nmul_def arith_simps rel_simps numeral_times_numeral numeral_plus_numeral)

lemma nm_f97 [simp]: "nmul 847202 847202 = 717751228804"
  by (simp only: nmul_def arith_simps rel_simps numeral_times_numeral numeral_plus_numeral)

lemma sq_f98 [simp]: "sqrt_newton 717750000000 1000000 = 847201"
  by (rule sqrt_newton_cert' [where ?r1.0 = 847202]) simp_all

lemma nm_f99 [simp]: "nmul 169440 5 = 847200"
  by (simp only: nmul_def arith_simps rel_simps numeral_times_numeral numeral_plus_numeral)

lemma nd_f100 [simp]: "ndiv 847201 5 = 169440 \<and> nmod 847201 5 = 1"
  by (rule ndivmod_cert [where r = 1]) simp_all

lemma dg_f101 [simp]: "ndigits 847201 = 6"
  by (rule ndigits_cert [where j = 5]) simp_all

lemma nm_f102 [simp]: "nmul 84720 10 = 847200"
  by (simp only: nmul_def arith_simps rel_simps numeral_times_numeral numeral_plus_numeral)

lemma nd_f103 [simp]: "ndiv 847201 10 = 84720 \<and> nmod 847201 10 = 1"
  by (rule ndivmod_cert [where r = 1]) simp_all

lemma dg_f104 [simp]: "ndigits 84720 = 5"
  by (rule ndigits_cert [where j = 4]) simp_all

lemma ip10_f105 [simp]: "ipow10 1 = 10"
  by (rule ipow10_of [OF p10_f3]) simp

lemma im_f106 [simp]: "imul 8472 10 = 84720"
  by (simp only: imul_def arith_simps rel_simps numeral_times_numeral numeral_plus_numeral)

lemma dg_f107 [simp]: "ndigits 635 = 3"
  by (rule ndigits_cert [where j = 2]) simp_all

lemma im_f108 [simp]: "imul 635 635 = 403225"
  by (simp only: imul_def arith_simps rel_simps numeral_times_numeral numeral_plus_numeral)

lemma dg_f109 [simp]: "ndigits 403225 = 6"
  by (rule ndigits_cert [where j = 5]) simp_all

lemma nm_f110 [simp]: "nmul 40322 10 = 403220"
  by (simp only: nmul_def arith_simps rel_simps numeral_times_numeral numeral_plus_numeral)

lemma nd_f111 [simp]: "ndiv 403225 10 = 40322 \<and> nmod 403225 10 = 5"
  by (rule ndivmod_cert [where r = 5]) simp_all

lemma dg_f112 [simp]: "ndigits 40322 = 5"
  by (rule ndigits_cert [where j = 4]) simp_all

lemma im_f113 [simp]: "imul 2 40322 = 80644"
  by (simp only: imul_def arith_simps rel_simps numeral_times_numeral numeral_plus_numeral)

lemma dg_f114 [simp]: "ndigits 80644 = 5"
  by (rule ndigits_cert [where j = 4]) simp_all

lemma im_f115 [simp]: "imul 22855 10000 = 228550000"
  by (simp only: imul_def arith_simps rel_simps numeral_times_numeral numeral_plus_numeral)

lemma dg_f116 [simp]: "ndigits 228469356 = 9"
  by (rule ndigits_cert [where j = 8]) simp_all

lemma nm_f117 [simp]: "nmul 22846 10000 = 228460000"
  by (simp only: nmul_def arith_simps rel_simps numeral_times_numeral numeral_plus_numeral)

lemma nd_f118 [simp]: "ndiv 228469356 10000 = 22846 \<and> nmod 228469356 10000 = 9356"
  by (rule ndivmod_cert [where r = 9356]) simp_all

lemma dg_f119 [simp]: "ndigits 22847 = 5"
  by (rule ndigits_cert [where j = 4]) simp_all

lemma im_f120 [simp]: "imul 2 2 = 4"
  by (simp only: imul_def arith_simps rel_simps numeral_times_numeral numeral_plus_numeral)

lemma next_n0_1: "gl_next 5 \<lparr>a_n = \<lparr>coeff = 85355, expo = (- 5)\<rparr>, b_n = \<lparr>coeff = 84090, expo = (- 5)\<rparr>, t_n = \<lparr>coeff = 22855, expo = (- 5)\<rparr>, p_n = \<lparr>coeff = 2, expo = 0\<rparr>\<rparr> = Inr \<lparr>a_n = \<lparr>coeff = 8472, expo = (- 4)\<rparr>, b_n = \<lparr>coeff = 84720, expo = (- 5)\<rparr>, t_n = \<lparr>coeff = 22847, expo = (- 5)\<rparr>, p_n = \<lparr>coeff = 4, expo = 0\<rparr>\<rparr>"
  by (simp add: ev cong: let_weak_cong)

lemma conv_n0_1: "converged \<lparr>a_n = \<lparr>coeff = 85355, expo = (- 5)\<rparr>, b_n = \<lparr>coeff = 84090, expo = (- 5)\<rparr>, t_n = \<lparr>coeff = 22855, expo = (- 5)\<rparr>, p_n = \<lparr>coeff = 2, expo = 0\<rparr>\<rparr> \<lparr>a_n = \<lparr>coeff = 8472, expo = (- 4)\<rparr>, b_n = \<lparr>coeff = 84720, expo = (- 5)\<rparr>, t_n = \<lparr>coeff = 22847, expo = (- 5)\<rparr>, p_n = \<lparr>coeff = 4, expo = 0\<rparr>\<rparr> = False"
  by (simp add: ev cong: let_weak_cong)

lemma dg_f121 [simp]: "ndigits 169440 = 6"
  by (rule ndigits_cert [where j = 5]) simp_all

lemma nd_f122 [simp]: "ndiv 169440 10 = 16944 \<and> nmod 169440 10 = 0"
  by (rule ndivmod_cert [where r = 0]) simp_all

lemma im_f123 [simp]: "imul 8472 84720 = 717747840"
  by (simp only: imul_def arith_simps rel_simps numeral_times_numeral numeral_plus_numeral)

lemma dg_f124 [simp]: "ndigits 717747840 = 9"
  by (rule ndigits_cert [where j = 8]) simp_all

lemma nm_f125 [simp]: "nmul 71774 10000 = 717740000"
  by (simp only: nmul_def arith_simps rel_simps numeral_times_numeral numeral_plus_numeral)

lemma nd_f126 [simp]: "ndiv 717747840 10000 = 71774 \<and> nmod 717747840 10000 = 7840"
  by (rule ndivmod_cert [where r = 7840]) simp_all

lemma im_f127 [simp]: "imul 2 4 = 8"
  by (simp only: imul_def arith_simps rel_simps numeral_times_numeral numeral_plus_numeral)

lemma dg_f128 [simp]: "ndigits 8 = 1"
  by (rule ndigits_small) simp

lemma next_n0_2: "gl_next 5 \<lparr>a_n = \<lparr>coeff = 8472, expo = (- 4)\<rparr>, b_n = \<lparr>coeff = 84720, expo = (- 5)\<rparr>, t_n = \<lparr>coeff = 22847, expo = (- 5)\<rparr>, p_n = \<lparr>coeff = 4, expo = 0\<rparr>\<rparr> = Inr \<lparr>a_n = \<lparr>coeff = 8472, expo = (- 4)\<rparr>, b_n = \<lparr>coeff = 84720, expo = (- 5)\<rparr>, t_n = \<lparr>coeff = 22847, expo = (- 5)\<rparr>, p_n = \<lparr>coeff = 8, expo = 0\<rparr>\<rparr>"
  by (simp add: ev cong: let_weak_cong)

lemma conv_n0_2: "converged \<lparr>a_n = \<lparr>coeff = 8472, expo = (- 4)\<rparr>, b_n = \<lparr>coeff = 84720, expo = (- 5)\<rparr>, t_n = \<lparr>coeff = 22847, expo = (- 5)\<rparr>, p_n = \<lparr>coeff = 4, expo = 0\<rparr>\<rparr> \<lparr>a_n = \<lparr>coeff = 8472, expo = (- 4)\<rparr>, b_n = \<lparr>coeff = 84720, expo = (- 5)\<rparr>, t_n = \<lparr>coeff = 22847, expo = (- 5)\<rparr>, p_n = \<lparr>coeff = 8, expo = 0\<rparr>\<rparr> = True"
  by (simp add: ev cong: let_weak_cong)

lemma loop_n0: "gl_loop 5 \<lparr>a_n = \<lparr>coeff = 1, expo = 0\<rparr>, b_n = \<lparr>coeff = 70711, expo = (- 5)\<rparr>, t_n = \<lparr>coeff = 25, expo = (- 2)\<rparr>, p_n = \<lparr>coeff = 1, expo = 0\<rparr>\<rparr> = Some (Inr \<lparr>a_n = \<lparr>coeff = 8472, expo = (- 4)\<rparr>, b_n = \<lparr>coeff = 84720, expo = (- 5)\<rparr>, t_n = \<lparr>coeff = 22847, expo = (- 5)\<rparr>, p_n = \<lparr>coeff = 4, expo = 0\<rparr>\<rparr>)"
  apply (subst gl_loop.simps, simp add: next_n0_0 conv_n0_0)
  apply (subst gl_loop.simps, simp add: next_n0_1 conv_n0_1)
  apply (subst gl_loop.simps, simp add: next_n0_2 conv_n0_2)
  done

lemma im_f129 [simp]: "imul 16944 16944 = 287099136"
  by (simp only: imul_def arith_simps rel_simps numeral_times_numeral numeral_plus_numeral)

lemma dg_f130 [simp]: "ndigits 287099136 = 9"
  by (rule ndigits_cert [where j = 8]) simp_all

lemma nm_f131 [simp]: "nmul 28709913 10 = 287099130"
  by (simp only: nmul_def arith_simps rel_simps numeral_times_numeral numeral_plus_numeral)

lemma nd_f132 [simp]: "ndiv 287099136 10 = 28709913 \<and> nmod 287099136 10 = 6"
  by (rule ndivmod_cert [where r = 6]) simp_all

lemma dg_f133 [simp]: "ndigits 28709914 = 8"
  by (rule ndigits_cert [where j = 7]) simp_all

lemma nm_f134 [simp]: "nmul 28709 1000 = 28709000"
  by (simp only: nmul_def arith_simps rel_simps numeral_times_numeral numeral_plus_numeral)

lemma nd_f135 [simp]: "ndiv 28709914 1000 = 28709 \<and> nmod 28709914 1000 = 914"
  by (rule ndivmod_cert [where r = 914]) simp_all

lemma dg_f136 [simp]: "ndigits 28710 = 5"
  by (rule ndigits_cert [where j = 4]) simp_all

lemma im_f137 [simp]: "imul 4 22847 = 91388"
  by (simp only: imul_def arith_simps rel_simps numeral_times_numeral numeral_plus_numeral)

lemma dg_f138 [simp]: "ndigits 91388 = 5"
  by (rule ndigits_cert [where j = 4]) simp_all

lemma nm_f139 [simp]: "nmul 28710 1000000 = 28710000000"
  by (simp only: nmul_def arith_simps rel_simps numeral_times_numeral numeral_plus_numeral)

lemma nm_f140 [simp]: "nmul 314155 91388 = 28709997140"
  by (simp only: nmul_def arith_simps rel_simps numeral_times_numeral numeral_plus_numeral)

lemma nd_f141 [simp]: "ndiv 28710000000 91388 = 314155 \<and> nmod 28710000000 91388 = 2860"
  by (rule ndivmod_cert [where r = 2860]) simp_all

lemma nm_f142 [simp]: "nmul 62831 5 = 314155"
  by (simp only: nmul_def arith_simps rel_simps numeral_times_numeral numeral_plus_numeral)

lemma nd_f143 [simp]: "ndiv 314155 5 = 62831 \<and> nmod 314155 5 = 0"
  by (rule ndivmod_cert [where r = 0]) simp_all

lemma dg_f144 [simp]: "ndigits 314156 = 6"
  by (rule ndigits_cert [where j = 5]) simp_all

lemma nm_f145 [simp]: "nmul 31415 10 = 314150"
  by (simp only: nmul_def arith_simps rel_simps numeral_times_numeral numeral_plus_numeral)

lemma nd_f146 [simp]: "ndiv 314156 10 = 31415 \<and> nmod 314156 10 = 6"
  by (rule ndivmod_cert [where r = 6]) simp_all

lemma dg_f147 [simp]: "ndigits 31416 = 5"
  by (rule ndigits_cert [where j = 4]) simp_all

lemma value_n0: "pi_value 5 \<lparr>a_n = \<lparr>coeff = 8472, expo = (- 4)\<rparr>, b_n = \<lparr>coeff = 84720, expo = (- 5)\<rparr>, t_n = \<lparr>coeff = 22847, expo = (- 5)\<rparr>, p_n = \<lparr>coeff = 4, expo = 0\<rparr>\<rparr> = Inr \<lparr>coeff = 31416, expo = (- 4)\<rparr>"
  by (simp add: ev cong: let_weak_cong)

lemma nm_f148 [simp]: "nmul 3 10000 = 30000"
  by (simp only: nmul_def arith_simps rel_simps numeral_times_numeral numeral_plus_numeral)

lemma nd_f149 [simp]: "ndiv 31416 10000 = 3 \<and> nmod 31416 10000 = 1416"
  by (rule ndivmod_cert [where r = 1416]) simp_all

lemma dg_f150 [simp]: "ndigits 3 = 1"
  by (rule ndigits_small) simp

lemma quant_n0: "quantize_down 5 \<lparr>coeff = 31416, expo = (- 4)\<rparr> 0 = Inr \<lparr>coeff = 3, expo = 0\<rparr>"
  by (simp add: ev cong: let_weak_cong)

lemma compute_n0: "compute_pi 5 0 = Some (Inr \<lparr>coeff = 3, expo = 0\<rparr>)"
  by (simp add: compute_pi_def init_n0 loop_n0 value_n0 quant_n0)

lemma calc_n0: "calculate_pi (PyInt 0) c = Some (Inr \<lparr>coeff = 3, expo = 0\<rparr>, c\<lparr>prec := 5\<rparr>)"
  by (simp add: calculate_pi_def py_int_def MAX_DIGITS_def compute_n0)

lemma strnat_n0: "str_nat 3 = ''3''"
  by (rule str_nat_cert) (simp_all add: digits_val_def digit_val_def is_digit_def)

lemma str_n0: "str_decimal \<lparr>coeff = 3, expo = 0\<rparr> = ''3''"
  by (simp add: str_decimal_def Let_def strnat_n0)

lemma printed_n0: "printed (calculate_pi (PyInt 0) c) = Some (Inr ''3'')"
  by (simp add: printed_def calc_n0 str_n0)

lemma p10_f151 [simp]: "npow10 11 = 100000000000"
  by (rule npow10_next [OF p10_f12]) simp_all

lemma p10_f152 [simp]: "npow10 12 = 1000000000000"
  by (rule npow10_next [OF p10_f151]) simp_all

lemma p10_f153 [simp]: "npow10 13 = 10000000000000"
  by (rule npow10_next [OF p10_f152]) simp_all

lemma p10_f154 [simp]: "npow10 14 = 100000000000000"
  by (rule npow10_next [OF p10_f153]) simp_all

lemma nm_f155 [simp]: "nmul 2 100000000000000 = 200000000000000"
  by (simp only: nmul_def arith_simps rel_simps numeral_times_numeral numeral_plus_numeral)

lemma nm_f156 [simp]: "nmul 14142135 14142135 = 199999982358225"
  by (simp only: nmul_def arith_simps rel_simps numeral_times_numeral numeral_plus_numeral)

lemma nm_f157 [simp]: "nmul 14142136 14142136 = 200000010642496"
  by (simp only: nmul_def arith_simps rel_simps numeral_times_numeral numeral_plus_numeral)

lemma sq_f158 [simp]: "sqrt_newton 200000000000000 100000000 = 14142135"
  by (rule sqrt_newton_cert' [where ?r1.0 = 14142136]) simp_all

lemma nm_f159 [simp]: "nmul 2828427 5 = 14142135"
  by (simp only: nmul_def arith_simps rel_simps numeral_times_numeral numeral_plus_numeral)

lemma nd_f160 [simp]: "ndiv 14142135 5 = 2828427 \<and> nmod 14142135 5 = 0"
  by (rule ndivmod_cert [where r = 0]) simp_all

lemma dg_f161 [simp]: "ndigits 14142136 = 8"
  by (rule ndigits_cert [where j = 7]) simp_all

lemma nm_f162 [simp]: "nmul 1414213 10 = 14142130"
  by (simp only: nmul_def arith_simps rel_simps numeral_times_numeral numeral_plus_numeral)

lemma nd_f163 [simp]: "ndiv 14142136 10 = 1414213 \<and> nmod 14142136 10 = 6"
  by (rule ndivmod_cert [where r = 6]) simp_all

lemma dg_f164 [simp]: "ndigits 1414214 = 7"
  by (rule ndigits_cert [where j = 6]) simp_all

lemma nm_f165 [simp]: "nmul 70710656 1414214 = 99999999664384"
  by (simp only: nmul_def arith_simps rel_simps numeral_times_numeral numeral_plus_numeral)

lemma nd_f166 [simp]: "ndiv 100000000000000 1414214 = 70710656 \<and> nmod 100000000000000 1414214 = 335616"
  by (rule ndivmod_cert [where r = 335616]) simp_all

lemma nm_f167 [simp]: "nmul 14142131 5 = 70710655"
  by (simp only: nmul_def arith_simps rel_simps numeral_times_numeral numeral_plus_numeral)

lemma nd_f168 [simp]: "ndiv 70710656 5 = 14142131 \<and> nmod 70710656 5 = 1"
  by (rule ndivmod_cert [where r = 1]) simp_all

lemma dg_f169 [simp]: "ndigits 70710656 = 8"
  by (rule ndigits_cert [where j = 7]) simp_all

lemma nm_f170 [simp]: "nmul 7071065 10 = 70710650"
  by (simp only: nmul_def arith_simps rel_simps numeral_times_numeral numeral_plus_numeral)

lemma nd_f171 [simp]: "ndiv 70710656 10 = 7071065 \<and> nmod 70710656 10 = 6"
  by (rule ndivmod_cert [where r = 6]) simp_all

lemma dg_f172 [simp]: "ndigits 7071066 = 7"
  by (rule ndigits_cert [where j = 6]) simp_all

lemma nm_f173 [simp]: "nmul 25000000 4 = 100000000"
  by (simp only: nmul_def arith_simps rel_simps numeral_times_numeral numeral_plus_numeral)

lemma nd_f174 [simp]: "ndiv 100000000 4 = 25000000 \<and> nmod 100000000 4 = 0"
  by (rule ndivmod_cert [where r = 0]) simp_all

lemma nm_f175 [simp]: "nmul 25 1000000 = 25000000"
  by (simp only: nmul_def arith_simps rel_simps numeral_times_numeral numeral_plus_numeral)

lemma sz_f176 [simp]: "strip_zeros 25000000 (- 8) 0 = (25, (- 2))"
  by (rule strip_zeros_cert [where j = 6]) simp_all

lemma init_n2: "gl_init 7 = Inr \<lparr>a_n = \<lparr>coeff = 1, expo = 0\<rparr>, b_n = \<lparr>coeff = 7071066, expo = (- 7)\<rparr>, t_n = \<lparr>coeff = 25, expo = (- 2)\<rparr>, p_n = \<lparr>coeff = 1, expo = 0\<rparr>\<rparr>"
  by (simp add: ev cong: let_weak_cong)

lemma ip10_f177 [simp]: "ipow10 7 = 10000000"
  by (rule ipow10_of [OF p10_f9]) simp

lemma dg_f178 [simp]: "ndigits 17071066 = 8"
  by (rule ndigits_cert [where j = 7]) simp_all

lemma nm_f179 [simp]: "nmul 1707106 10 = 17071060"
  by (simp only: nmul_def arith_simps rel_simps numeral_times_numeral numeral_plus_numeral)

lemma nd_f180 [simp]: "ndiv 17071066 10 = 1707106 \<and> nmod 17071066 10 = 6"
  by (rule ndivmod_cert [where r = 6]) simp_all

lemma dg_f181 [simp]: "ndigits 1707107 = 7"
  by (rule ndigits_cert [where j = 6]) simp_all

lemma nm_f182 [simp]: "nmul 1707107 100 = 170710700"
  by (simp only: nmul_def arith_simps rel_simps numeral_times_numeral numeral_plus_numeral)

lemma nm_f183 [simp]: "nmul 85355350 2 = 170710700"
  by (simp only: nmul_def arith_simps rel_simps numeral_times_numeral numeral_plus_numeral)

lemma nd_f184 [simp]: "ndiv 170710700 2 = 85355350 \<and> nmod 170710700 2 = 0"
  by (rule ndivmod_cert [where r = 0]) simp_all

lemma nm_f185 [simp]: "nmul 8535535 10 = 85355350"
  by (simp only: nmul_def arith_simps rel_simps numeral_times_numeral numeral_plus_numeral)

lemma nm_f186 [simp]: "nmul 853553 10 = 8535530"
  by (simp only: nmul_def arith_simps rel_simps numeral_times_numeral numeral_plus_numeral)

lemma nd_f187 [simp]: "ndiv 8535535 10 = 853553 \<and> nmod 8535535 10 = 5"
  by (rule ndivmod_cert [where r = 5]) simp_all

lemma sz_f188 [simp]: "strip_zeros 85355350 (- 8) (- 6) = (8535535, (- 7))"
  by (rule strip_zeros_cert [where j = 1]) simp_all

lemma dg_f189 [simp]: "ndigits 8535535 = 7"
  by (rule ndigits_cert [where j = 6]) simp_all

lemma nm_f190 [simp]: "nmul 70710660 100000000 = 7071066000000000"
  by (simp only: nmul_def arith_simps rel_simps numeral_times_numeral numeral_plus_numeral)

lemma nm_f191 [simp]: "nmul 84089630 84089630 = 7071065873536900"
  by (simp only: nmul_def arith_simps rel_simps numeral_times_numeral numeral_plus_numeral)

lemma nm_f192 [simp]: "nmul 84089631 84089631 = 7071066041716161"
  by (simp only: nmul_def arith_simps rel_simps numeral_times_numeral numeral_plus_numeral)

lemma sq_f193 [simp]: "sqrt_newton 7071066000000000 100000000 = 84089630"
  by (rule sqrt_newton_cert' [where ?r1.0 = 84089631]) simp_all

lemma nm_f194 [simp]: "nmul 16817926 5 = 84089630"
  by (simp only: nmul_def arith_simps rel_simps numeral_times_numeral numeral_plus_numeral)

lemma nd_f195 [simp]: "ndiv 84089630 5 = 16817926 \<and> nmod 84089630 5 = 0"
  by (rule ndivmod_cert [where r = 0]) simp_all

lemma dg_f196 [simp]: "ndigits 84089631 = 8"
  by (rule ndigits_cert [where j = 7]) simp_all

lemma nm_f197 [simp]: "nmul 8408963 10 = 84089630"
  by (simp only: nmul_def arith_simps rel_simps numeral_times_numeral numeral_plus_numeral)

lemma nd_f198 [simp]: "ndiv 84089631 10 = 8408963 \<and> nmod 84089631 10 = 1"
  by (rule ndivmod_cert [where r = 1]) simp_all

lemma dg_f199 [simp]: "ndigits 8408963 = 7"
  by (rule ndigits_cert [where j = 6]) simp_all

lemma dg_f200 [simp]: "ndigits 1464465 = 7"
  by (rule ndigits_cert [where j = 6]) simp_all

lemma im_f201 [simp]: "imul 1464465 1464465 = 2144657736225"
  by (simp only: imul_def arith_simps rel_simps numeral_times_numeral numeral_plus_numeral)

lemma dg_f202 [simp]: "ndigits 2144657736225 = 13"
  by (rule ndigits_cert [where j = 12]) simp_all

lemma nm_f203 [simp]: "nmul 2144657736 1000 = 2144657736000"
  by (simp only: nmul_def arith_simps rel_simps numeral_times_numeral numeral_plus_numeral)

lemma nd_f204 [simp]: "ndiv 2144657736225 1000 = 2144657736 \<and> nmod 2144657736225 1000 = 225"
  by (rule ndivmod_cert [where r = 225]) simp_all

lemma dg_f205 [simp]: "ndigits 2144657736 = 10"
  by (rule ndigits_cert [where j = 9]) simp_all

lemma nm_f206 [simp]: "nmul 2144657 1000 = 2144657000"
  by (simp only: nmul_def arith_simps rel_simps numeral_times_numeral numeral_plus_numeral)

lemma nd_f207 [simp]: "ndiv 2144657736 1000 = 2144657 \<and> nmod 2144657736 1000 = 736"
  by (rule ndivmod_cert [where r = 736]) simp_all

lemma dg_f208 [simp]: "ndigits 2144658 = 7"
  by (rule ndigits_cert [where j = 6]) simp_all

lemma ip10_f209 [simp]: "ipow10 6 = 1000000"
  by (rule ipow10_of [OF p10_f8]) simp

lemma im_f210 [simp]: "imul 25 1000000 = 25000000"
  by (simp only: imul_def arith_simps rel_simps numeral_times_numeral numeral_plus_numeral)

lemma dg_f211 [simp]: "ndigits 22855342 = 8"
  by (rule ndigits_cert [where j = 7]) simp_all

lemma nm_f212 [simp]: "nmul 2285534 10 = 22855340"
  by (simp only: nmul_def arith_simps rel_simps numeral_times_numeral numeral_plus_numeral)

lemma nd_f213 [simp]: "ndiv 22855342 10 = 2285534 \<and> nmod 22855342 10 = 2"
  by (rule ndivmod_cert [where r = 2]) simp_all

lemma dg_f214 [simp]: "ndigits 2285534 = 7"
  by (rule ndigits_cert [where j = 6]) simp_all

lemma next_n2_0: "gl_next 7 \<lparr>a_n = \<lparr>coeff = 1, expo = 0\<rparr>, b_n = \<lparr>coeff = 7071066, expo = (- 7)\<rparr>, t_n = \<lparr>coeff = 25, expo = (- 2)\<rparr>, p_n = \<lparr>coeff = 1, expo = 0\<rparr>\<rparr> = Inr \<lparr>a_n = \<lparr>coeff = 8535535, expo = (- 7)\<rparr>, b_n = \<lparr>coeff = 8408963, expo = (- 7)\<rparr>, t_n = \<lparr>coeff = 2285534, expo = (- 7)\<rparr>, p_n = \<lparr>coeff = 2, expo = 0\<rparr>\<rparr>"
  by (simp add: ev cong: let_weak_cong)

lemma conv_n2_0: "converged \<lparr>a_n = \<lparr>coeff = 1, expo = 0\<rparr>, b_n = \<lparr>coeff = 7071066, expo = (- 7)\<rparr>, t_n = \<lparr>coeff = 25, expo = (- 2)\<rparr>, p_n = \<lparr>coeff = 1, expo = 0\<rparr>\<rparr> \<lparr>a_n = \<lparr>coeff = 8535535, expo = (- 7)\<rparr>, b_n = \<lparr>coeff = 8408963, expo = (- 7)\<rparr>, t_n = \<lparr>coeff = 2285534, expo = (- 7)\<rparr>, p_n = \<lparr>coeff = 2, expo = 0\<rparr>\<rparr> = False"
  by (simp add: ev cong: let_weak_cong)

lemma dg_f215 [simp]: "ndigits 16944498 = 8"
  by (rule ndigits_cert [where j = 7]) simp_all

lemma nm_f216 [simp]: "nmul 1694449 10 = 16944490"
  by (simp only: nmul_def arith_simps rel_simps numeral_times_numeral numeral_plus_numeral)

lemma nd_f217 [simp]: "ndiv 16944498 10 = 1694449 \<and> nmod 16944498 10 = 8"
  by (rule ndivmod_cert [where r = 8]) simp_all

lemma dg_f218 [simp]: "ndigits 1694450 = 7"
  by (rule ndigits_cert [where j = 6]) simp_all

lemma nm_f219 [simp]: "nmul 1694450 100 = 169445000"
  by (simp only: nmul_def arith_simps rel_simps numeral_times_numeral numeral_plus_numeral)

lemma nm_f220 [simp]: "nmul 84722500 2 = 169445000"
  by (simp only: nmul_def arith_simps rel_simps numeral_times_numeral numeral_plus_numeral)

lemma nd_f221 [simp]: "ndiv 169445000 2 = 84722500 \<and> nmod 169445000 2 = 0"
  by (rule ndivmod_cert [where r = 0]) simp_all

lemma nm_f222 [simp]: "nmul 847225 100 = 84722500"
  by (simp only: nmul_def arith_simps rel_simps numeral_times_numeral numeral_plus_numeral)

lemma sz_f223 [simp]: "strip_zeros 84722500 (- 8) (- 6) = (847225, (- 6))"
  by (rule strip_zeros_cert [where j = 2]) simp_all

lemma dg_f224 [simp]: "ndigits 847225 = 6"
  by (rule ndigits_cert [where j = 5]) simp_all

lemma im_f225 [simp]: "imul 8535535 8408963 = 71774998000205"
  by (simp only: imul_def arith_simps rel_simps numeral_times_numeral numeral_plus_numeral)

lemma dg_f226 [simp]: "ndigits 71774998000205 = 14"
  by (rule ndigits_cert [where j = 13]) simp_all

lemma nm_f227 [simp]: "nmul 7177499 10000000 = 71774990000000"
  by (simp only: nmul_def arith_simps rel_simps numeral_times_numeral numeral_plus_numeral)

lemma nd_f228 [simp]: "ndiv 71774998000205 10000000 = 7177499 \<and> nmod 71774998000205 10000000 = 8000205"
  by (rule ndivmod_cert [where r = 8000205]) simp_all

lemma dg_f229 [simp]: "ndigits 7177500 = 7"
  by (rule ndigits_cert [where j = 6]) simp_all

lemma nm_f230 [simp]: "nmul 71775000 100000000 = 7177500000000000"
  by (simp only: nmul_def arith_simps rel_simps numeral_times_numeral numeral_plus_numeral)

lemma nm_f231 [simp]: "nmul 84720127 84720127 = 7177499918896129"
  by (simp only: nmul_def arith_simps rel_simps numeral_times_numeral numeral_plus_numeral)

lemma nm_f232 [simp]: "nmul 84720128 84720128 = 7177500088336384"
  by (simp only: nmul_def arith_simps rel_simps numeral_times_numeral numeral_plus_numeral)

lemma sq_f233 [simp]: "sqrt_newton 7177500000000000 100000000 = 84720127"
  by (rule sqrt_newton_cert' [where ?r1.0 = 84720128]) simp_all

lemma nm_f234 [simp]: "nmul 16944025 5 = 84720125"
  by (simp only: nmul_def arith_simps rel_simps numeral_times_numeral numeral_plus_numeral)

lemma nd_f235 [simp]: "ndiv 84720127 5 = 16944025 \<and> nmod 84720127 5 = 2"
  by (rule ndivmod_cert [where r = 2]) simp_all

lemma dg_f236 [simp]: "ndigits 84720127 = 8"
  by (rule ndigits_cert [where j = 7]) simp_all

lemma nm_f237 [simp]: "nmul 8472012 10 = 84720120"
  by (simp only: nmul_def arith_simps rel_simps numeral_times_numeral numeral_plus_numeral)

lemma nd_f238 [simp]: "ndiv 84720127 10 = 8472012 \<and> nmod 84720127 10 = 7"
  by (rule ndivmod_cert [where r = 7]) simp_all

lemma dg_f239 [simp]: "ndigits 8472013 = 7"
  by (rule ndigits_cert [where j = 6]) simp_all

lemma im_f240 [simp]: "imul 847225 10 = 8472250"
  by (simp only: imul_def arith_simps rel_simps numeral_times_numeral numeral_plus_numeral)

lemma dg_f241 [simp]: "ndigits 63285 = 5"
  by (rule ndigits_cert [where j = 4]) simp_all

lemma im_f242 [simp]: "imul 63285 63285 = 4004991225"
  by (simp only: imul_def arith_simps rel_simps numeral_times_numeral numeral_plus_numeral)

lemma dg_f243 [simp]: "ndigits 4004991225 = 10"
  by (rule ndigits_cert [where j = 9]) simp_all

lemma nm_f244 [simp]: "nmul 4004991 1000 = 4004991000"
  by (simp only: nmul_def arith_simps rel_simps numeral_times_numeral numeral_plus_numeral)

lemma nd_f245 [simp]: "ndiv 4004991225 1000 = 4004991 \<and> nmod 4004991225 1000 = 225"
  by (rule ndivmod_cert [where r = 225]) simp_all

lemma dg_f246 [simp]: "ndigits 4004991 = 7"
  by (rule ndigits_cert [where j = 6]) simp_all

lemma im_f247 [simp]: "imul 2 4004991 = 8009982"
  by (simp only: imul_def arith_simps rel_simps numeral_times_numeral numeral_plus_numeral)

lemma dg_f248 [simp]: "ndigits 8009982 = 7"
  by (rule ndigits_cert [where j = 6]) simp_all

lemma im_f249 [simp]: "imul 2285534 10000 = 22855340000"
  by (simp only: imul_def arith_simps rel_simps numeral_times_numeral numeral_plus_numeral)

lemma dg_f250 [simp]: "ndigits 22847330018 = 11"
  by (rule ndigits_cert [where j = 10]) simp_all

lemma nm_f251 [simp]: "nmul 2284733 10000 = 22847330000"
  by (simp only: nmul_def arith_simps rel_simps numeral_times_numeral numeral_plus_numeral)

lemma nd_f252 [simp]: "ndiv 22847330018 10000 = 2284733 \<and> nmod 22847330018 10000 = 18"
  by (rule ndivmod_cert [where r = 18]) simp_all

lemma dg_f253 [simp]: "ndigits 2284733 = 7"
  by (rule ndigits_cert [where j = 6]) simp_all

lemma next_n2_1: "gl_next 7 \<lparr>a_n = \<lparr>coeff = 8535535, expo = (- 7)\<rparr>, b_n = \<lparr>coeff = 8408963, expo = (- 7)\<rparr>, t_n = \<lparr>coeff = 2285534, expo = (- 7)\<rparr>, p_n = \<lparr>coeff = 2, expo = 0\<rparr>\<rparr> = Inr \<lparr>a_n = \<lparr>coeff = 847225, expo = (- 6)\<rparr>, b_n = \<lparr>coeff = 8472013, expo = (- 7)\<rparr>, t_n = \<lparr>coeff = 2284733, expo = (- 7)\<rparr>, p_n = \<lparr>coeff = 4, expo = 0\<rparr>\<rparr>"
  by (simp add: ev cong: let_weak_cong)

lemma conv_n2_1: "converged \<lparr>a_n = \<lparr>coeff = 8535535, expo = (- 7)\<rparr>, b_n = \<lparr>coeff = 8408963, expo = (- 7)\<rparr>, t_n = \<lparr>coeff = 2285534, expo = (- 7)\<rparr>, p_n = \<lparr>coeff = 2, expo = 0\<rparr>\<rparr> \<lparr>a_n = \<lparr>coeff = 847225, expo = (- 6)\<rparr>, b_n = \<lparr>coeff = 8472013, expo = (- 7)\<rparr>, t_n = \<lparr>coeff = 2284733, expo = (- 7)\<rparr>, p_n = \<lparr>coeff = 4, expo = 0\<rparr>\<rparr> = False"
  by (simp add: ev cong: let_weak_cong)

lemma dg_f254 [simp]: "ndigits 16944263 = 8"
  by (rule ndigits_cert [where j = 7]) simp_all

lemma nm_f255 [simp]: "nmul 1694426 10 = 16944260"
  by (simp only: nmul_def arith_simps rel_simps numeral_times_numeral numeral_plus_numeral)

lemma nd_f256 [simp]: "ndiv 16944263 10 = 1694426 \<and> nmod 16944263 10 = 3"
  by (rule ndivmod_cert [where r = 3]) simp_all

lemma dg_f257 [simp]: "ndigits 1694426 = 7"
  by (rule ndigits_cert [where j = 6]) simp_all

lemma nm_f258 [simp]: "nmul 1694426 100 = 169442600"
  by (simp only: nmul_def arith_simps rel_simps numeral_times_numeral numeral_plus_numeral)

lemma nm_f259 [simp]: "nmul 84721300 2 = 169442600"
  by (simp only: nmul_def arith_simps rel_simps numeral_times_numeral numeral_plus_numeral)

lemma nd_f260 [simp]: "ndiv 169442600 2 = 84721300 \<and> nmod 169442600 2 = 0"
  by (rule ndivmod_cert [where r = 0]) simp_all

lemma nm_f261 [simp]: "nmul 847213 100 = 84721300"
  by (simp only: nmul_def arith_simps rel_simps numeral_times_numeral numeral_plus_numeral)

lemma sz_f262 [simp]: "strip_zeros 84721300 (- 8) (- 6) = (847213, (- 6))"
  by (rule strip_zeros_cert [where j = 2]) simp_all

lemma dg_f263 [simp]: "ndigits 847213 = 6"
  by (rule ndigits_cert [where j = 5]) simp_all

lemma im_f264 [simp]: "imul 847225 8472013 = 7177701213925"
  by (simp only: imul_def arith_simps rel_simps numeral_times_numeral numeral_plus_numeral)

lemma dg_f265 [simp]: "ndigits 7177701213925 = 13"
  by (rule ndigits_cert [where j = 12]) simp_all

lemma nm_f266 [simp]: "nmul 7177701 1000000 = 7177701000000"
  by (simp only: nmul_def arith_simps rel_simps numeral_times_numeral numeral_plus_numeral)

lemma nd_f267 [simp]: "ndiv 7177701213925 1000000 = 7177701 \<and> nmod 7177701213925 1000000 = 213925"
  by (rule ndivmod_cert [where r = 213925]) simp_all

lemma dg_f268 [simp]: "ndigits 7177701 = 7"
  by (rule ndigits_cert [where j = 6]) simp_all

lemma nm_f269 [simp]: "nmul 71777010 100000000 = 7177701000000000"
  by (simp only: nmul_def arith_simps rel_simps numeral_times_numeral numeral_plus_numeral)

lemma nm_f270 [simp]: "nmul 84721313 84721313 = 7177700876443969"
  by (simp only: nmul_def arith_simps rel_simps numeral_times_numeral numeral_plus_numeral)

lemma nm_f271 [simp]: "nmul 84721314 84721314 = 7177701045886596"
  by (simp only: nmul_def arith_simps rel_simps numeral_times_numeral numeral_plus_numeral)

lemma sq_f272 [simp]: "sqrt_newton 7177701000000000 100000000 = 84721313"
  by (rule sqrt_newton_cert' [where ?r1.0 = 84721314]) simp_all

lemma nm_f273 [simp]: "nmul 16944262 5 = 84721310"
  by (simp only: nmul_def arith_simps rel_simps numeral_times_numeral numeral_plus_numeral)

lemma nd_f274 [simp]: "ndiv 84721313 5 = 16944262 \<and> nmod 84721313 5 = 3"
  by (rule ndivmod_cert [where r = 3]) simp_all

lemma dg_f275 [simp]: "ndigits 84721313 = 8"
  by (rule ndigits_cert [where j = 7]) simp_all

lemma nm_f276 [simp]: "nmul 8472131 10 = 84721310"
  by (simp only: nmul_def arith_simps rel_simps numeral_times_numeral numeral_plus_numeral)

lemma nd_f277 [simp]: "ndiv 84721313 10 = 8472131 \<and> nmod 84721313 10 = 3"
  by (rule ndivmod_cert [where r = 3]) simp_all

lemma dg_f278 [simp]: "ndigits 8472131 = 7"
  by (rule ndigits_cert [where j = 6]) simp_all

lemma dg_f279 [simp]: "ndigits 12 = 2"
  by (rule ndigits_cert [where j = 1]) simp_all

lemma im_f280 [simp]: "imul 12 12 = 144"
  by (simp only: imul_def arith_simps rel_simps numeral_times_numeral numeral_plus_numeral)

lemma dg_f281 [simp]: "ndigits 144 = 3"
  by (rule ndigits_cert [where j = 2]) simp_all

lemma im_f282 [simp]: "imul 4 144 = 576"
  by (simp only: imul_def arith_simps rel_simps numeral_times_numeral numeral_plus_numeral)

lemma dg_f283 [simp]: "ndigits 576 = 3"
  by (rule ndigits_cert [where j = 2]) simp_all

lemma im_f284 [simp]: "imul 2284733 100000 = 228473300000"
  by (simp only: imul_def arith_simps rel_simps numeral_times_numeral numeral_plus_numeral)

lemma dg_f285 [simp]: "ndigits 228473299424 = 12"
  by (rule ndigits_cert [where j = 11]) simp_all

lemma nm_f286 [simp]: "nmul 2284732 100000 = 228473200000"
  by (simp only: nmul_def arith_simps rel_simps numeral_times_numeral numeral_plus_numeral)

lemma nd_f287 [simp]: "ndiv 228473299424 100000 = 2284732 \<and> nmod 228473299424 100000 = 99424"
  by (rule ndivmod_cert [where r = 99424]) simp_all

lemma next_n2_2: "gl_next 7 \<lparr>a_n = \<lparr>coeff = 847225, expo = (- 6)\<rparr>, b_n = \<lparr>coeff = 8472013, expo = (- 7)\<rparr>, t_n = \<lparr>coeff = 2284733, expo = (- 7)\<rparr>, p_n = \<lparr>coeff = 4, expo = 0\<rparr>\<rparr> = Inr \<lparr>a_n = \<lparr>coeff = 847213, expo = (- 6)\<rparr>, b_n = \<lparr>coeff = 8472131, expo = (- 7)\<rparr>, t_n = \<lparr>coeff = 2284733, expo = (- 7)\<rparr>, p_n = \<lparr>coeff = 8, expo = 0\<rparr>\<rparr>"
  by (simp add: ev cong: let_weak_cong)

lemma conv_n2_2: "converged \<lparr>a_n = \<lparr>coeff = 847225, expo = (- 6)\<rparr>, b_n = \<lparr>coeff = 8472013, expo = (- 7)\<rparr>, t_n = \<lparr>coeff = 2284733, expo = (- 7)\<rparr>, p_n = \<lparr>coeff = 4, expo = 0\<rparr>\<rparr> \<lparr>a_n = \<lparr>coeff = 847213, expo = (- 6)\<rparr>, b_n = \<lparr>coeff = 8472131, expo = (- 7)\<rparr>, t_n = \<lparr>coeff = 2284733, expo = (- 7)\<rparr>, p_n = \<lparr>coeff = 8, expo = 0\<rparr>\<rparr> = False"
  by (simp add: ev cong: let_weak_cong)

lemma im_f288 [simp]: "imul 847213 10 = 8472130"
  by (simp only: imul_def arith_simps rel_simps numeral_times_numeral numeral_plus_numeral)

lemma dg_f289 [simp]: "ndigits 16944261 = 8"
  by (rule ndigits_cert [where j = 7]) simp_all

lemma nd_f290 [simp]: "ndiv 16944261 10 = 1694426 \<and> nmod 16944261 10 = 1"
  by (rule ndivmod_cert [where r = 1]) simp_all

lemma im_f291 [simp]: "imul 847213 8472131 = 7177699520903"
  by (simp only: imul_def arith_simps rel_simps numeral_times_numeral numeral_plus_numeral)

lemma dg_f292 [simp]: "ndigits 7177699520903 = 13"
  by (rule ndigits_cert [where j = 12]) simp_all

lemma nm_f293 [simp]: "nmul 7177699 1000000 = 7177699000000"
  by (simp only: nmul_def arith_simps rel_simps numeral_times_numeral numeral_plus_numeral)

lemma nd_f294 [simp]: "ndiv 7177699520903 1000000 = 7177699 \<and> nmod 7177699520903 1000000 = 520903"
  by (rule ndivmod_cert [where r = 520903]) simp_all

lemma dg_f295 [simp]: "ndigits 7177700 = 7"
  by (rule ndigits_cert [where j = 6]) simp_all

lemma nm_f296 [simp]: "nmul 71777000 100000000 = 7177700000000000"
  by (simp only: nmul_def arith_simps rel_simps numeral_times_numeral numeral_plus_numeral)

lemma nm_f297 [simp]: "nmul 84721307 84721307 = 7177699859788249"
  by (simp only: nmul_def arith_simps rel_simps numeral_times_numeral numeral_plus_numeral)

lemma nm_f298 [simp]: "nmul 84721308 84721308 = 7177700029230864"
  by (simp only: nmul_def arith_simps rel_simps numeral_times_numeral numeral_plus_numeral)

lemma sq_f299 [simp]: "sqrt_newton 7177700000000000 100000000 = 84721307"
  by (rule sqrt_newton_cert' [where ?r1.0 = 84721308]) simp_all

lemma nm_f300 [simp]: "nmul 16944261 5 = 84721305"
  by (simp only: nmul_def arith_simps rel_simps numeral_times_numeral numeral_plus_numeral)

lemma nd_f301 [simp]: "ndiv 84721307 5 = 16944261 \<and> nmod 84721307 5 = 2"
  by (rule ndivmod_cert [where r = 2]) simp_all

lemma dg_f302 [simp]: "ndigits 84721307 = 8"
  by (rule ndigits_cert [where j = 7]) simp_all

lemma nm_f303 [simp]: "nmul 8472130 10 = 84721300"
  by (simp only: nmul_def arith_simps rel_simps numeral_times_numeral numeral_plus_numeral)

lemma nd_f304 [simp]: "ndiv 84721307 10 = 8472130 \<and> nmod 84721307 10 = 7"
  by (rule ndivmod_cert [where r = 7]) simp_all

lemma im_f305 [simp]: "imul 2 8 = 16"
  by (simp only: imul_def arith_simps rel_simps numeral_times_numeral numeral_plus_numeral)

lemma dg_f306 [simp]: "ndigits 16 = 2"
  by (rule ndigits_cert [where j = 1]) simp_all

lemma next_n2_3: "gl_next 7 \<lparr>a_n = \<lparr>coeff = 847213, expo = (- 6)\<rparr>, b_n = \<lparr>coeff = 8472131, expo = (- 7)\<rparr>, t_n = \<lparr>coeff = 2284733, expo = (- 7)\<rparr>, p_n = \<lparr>coeff = 8, expo = 0\<rparr>\<rparr> = Inr \<lparr>a_n = \<lparr>coeff = 847213, expo = (- 6)\<rparr>, b_n = \<lparr>coeff = 8472131, expo = (- 7)\<rparr>, t_n = \<lparr>coeff = 2284733, expo = (- 7)\<rparr>, p_n = \<lparr>coeff = 16, expo = 0\<rparr>\<rparr>"
  by (simp add: ev cong: let_weak_cong)

lemma conv_n2_3: "converged \<lparr>a_n = \<lparr>coeff = 847213, expo = (- 6)\<rparr>, b_n = \<lparr>coeff = 8472131, expo = (- 7)\<rparr>, t_n = \<lparr>coeff = 2284733, expo = (- 7)\<rparr>, p_n = \<lparr>coeff = 8, expo = 0\<rparr>\<rparr> \<lparr>a_n = \<lparr>coeff = 847213, expo = (- 6)\<rparr>, b_n = \<lparr>coeff = 8472131, expo = (- 7)\<rparr>, t_n = \<lparr>coeff = 2284733, expo = (- 7)\<rparr>, p_n = \<lparr>coeff = 16, expo = 0\<rparr>\<rparr> = True"
  by (simp add: ev cong: let_weak_cong)

lemma loop_n2: "gl_loop 7 \<lparr>a_n = \<lparr>coeff = 1, expo = 0\<rparr>, b_n = \<lparr>coeff = 7071066, expo = (- 7)\<rparr>, t_n = \<lparr>coeff = 25, expo = (- 2)\<rparr>, p_n = \<lparr>coeff = 1, expo = 0\<rparr>\<rparr> = Some (Inr \<lparr>a_n = \<lparr>coeff = 847213, expo = (- 6)\<rparr>, b_n = \<lparr>coeff = 8472131, expo = (- 7)\<rparr>, t_n = \<lparr>coeff = 2284733, expo = (- 7)\<rparr>, p_n = \<lparr>coeff = 8, expo = 0\<rparr>\<rparr>)"
  apply (subst gl_loop.simps, simp add: next_n2_0 conv_n2_0)
  apply (subst gl_loop.simps, simp add: next_n2_1 conv_n2_1)
  apply (subst gl_loop.simps, simp add: next_n2_2 conv_n2_2)
  apply (subst gl_loop.simps, simp add: next_n2_3 conv_n2_3)
  done

lemma im_f307 [simp]: "imul 1694426 1694426 = 2871079469476"
  by (simp only: imul_def arith_simps rel_simps numeral_times_numeral numeral_plus_numeral)

lemma dg_f308 [simp]: "ndigits 2871079469476 = 13"
  by (rule ndigits_cert [where j = 12]) simp_all

lemma nm_f309 [simp]: "nmul 2871079469 1000 = 2871079469000"
  by (simp only: nmul_def arith_simps rel_simps numeral_times_numeral numeral_plus_numeral)

lemma nd_f310 [simp]: "ndiv 2871079469476 1000 = 2871079469 \<and> nmod 2871079469476 1000 = 476"
  by (rule ndivmod_cert [where r = 476]) simp_all

lemma dg_f311 [simp]: "ndigits 2871079469 = 10"
  by (rule ndigits_cert [where j = 9]) simp_all

lemma nm_f312 [simp]: "nmul 2871079 1000 = 2871079000"
  by (simp only: nmul_def arith_simps rel_simps numeral_times_numeral numeral_plus_numeral)

lemma nd_f313 [simp]: "ndiv 2871079469 1000 = 2871079 \<and> nmod 2871079469 1000 = 469"
  by (rule ndivmod_cert [where r = 469]) simp_all

lemma dg_f314 [simp]: "ndigits 2871079 = 7"
  by (rule ndigits_cert [where j = 6]) simp_all

lemma im_f315 [simp]: "imul 4 2284733 = 9138932"
  by (simp only: imul_def arith_simps rel_simps numeral_times_numeral numeral_plus_numeral)

lemma dg_f316 [simp]: "ndigits 9138932 = 7"
  by (rule ndigits_cert [where j = 6]) simp_all

lemma nm_f317 [simp]: "nmul 2871079 100000000 = 287107900000000"
  by (simp only: nmul_def arith_simps rel_simps numeral_times_numeral numeral_plus_numeral)

lemma nm_f318 [simp]: "nmul 31415913 9138932 = 287107892624916"
  by (simp only: nmul_def arith_simps rel_simps numeral_times_numeral numeral_plus_numeral)

lemma nd_f319 [simp]: "ndiv 287107900000000 9138932 = 31415913 \<and> nmod 287107900000000 9138932 = 7375084"
  by (rule ndivmod_cert [where r = 7375084]) simp_all

lemma nm_f320 [simp]: "nmul 6283182 5 = 31415910"
  by (simp only: nmul_def arith_simps rel_simps numeral_times_numeral numeral_plus_numeral)

lemma nd_f321 [simp]: "ndiv 31415913 5 = 6283182 \<and> nmod 31415913 5 = 3"
  by (rule ndivmod_cert [where r = 3]) simp_all

lemma dg_f322 [simp]: "ndigits 31415913 = 8"
  by (rule ndigits_cert [where j = 7]) simp_all

lemma nm_f323 [simp]: "nmul 3141591 10 = 31415910"
  by (simp only: nmul_def arith_simps rel_simps numeral_times_numeral numeral_plus_numeral)

lemma nd_f324 [simp]: "ndiv 31415913 10 = 3141591 \<and> nmod 31415913 10 = 3"
  by (rule ndivmod_cert [where r = 3]) simp_all

lemma dg_f325 [simp]: "ndigits 3141591 = 7"
  by (rule ndigits_cert [where j = 6]) simp_all

lemma value_n2: "pi_value 7 \<lparr>a_n = \<lparr>coeff = 847213, expo = (- 6)\<rparr>, b_n = \<lparr>coeff = 8472131, expo = (- 7)\<rparr>, t_n = \<lparr>coeff = 2284733, expo = (- 7)\<rparr>, p_n = \<lparr>coeff = 8, expo = 0\<rparr>\<rparr> = Inr \<lparr>coeff = 3141591, expo = (- 6)\<rparr>"
  by (simp add: ev cong: let_weak_cong)

lemma nm_f326 [simp]: "nmul 314 10000 = 3140000"
  by (simp only: nmul_def arith_simps rel_simps numeral_times_numeral numeral_plus_numeral)

lemma nd_f327 [simp]: "ndiv 3141591 10000 = 314 \<and> nmod 3141591 10000 = 1591"
  by (rule ndivmod_cert [where r = 1591]) simp_all

lemma dg_f328 [simp]: "ndigits 314 = 3"
  by (rule ndigits_cert [where j = 2]) simp_all

lemma quant_n2: "quantize_down 7 \<lparr>coeff = 3141591, expo = (- 6)\<rparr> (- 2) = Inr \<lparr>coeff = 314, expo = (- 2)\<rparr>"
  by (simp add: ev cong: let_weak_cong)

lemma compute_n2: "compute_pi 7 2 = Some (Inr \<lparr>coeff = 314, expo = (- 2)\<rparr>)"
  by (simp add: compute_pi_def init_n2 loop_n2 value_n2 quant_n2)

lemma calc_n2: "calculate_pi (PyInt 2) c = Some (Inr \<lparr>coeff = 314, expo = (- 2)\<rparr>, c\<lparr>prec := 7\<rparr>)"
  by (simp add: calculate_pi_def py_int_def MAX_DIGITS_def compute_n2)

lemma strnat_n2: "str_nat 314 = ''314''"
  by (rule str_nat_cert) (simp_all add: digits_val_def digit_val_def is_digit_def)

lemma str_n2: "str_decimal \<lparr>coeff = 314, expo = (- 2)\<rparr> = ''3.14''"
  by (simp add: str_decimal_def Let_def strnat_n2)

lemma printed_n2: "printed (calculate_pi (PyInt 2) c) = Some (Inr ''3.14'')"
  by (simp add: printed_def calc_n2 str_n2)

lemma p10_f329 [simp]: "npow10 15 = 1000000000000000"
  by (rule npow10_next [OF p10_f154]) simp_all

lemma p10_f330 [simp]: "npow10 16 = 10000000000000000"
  by (rule npow10_next [OF p10_f329]) simp_all

lemma nm_f331 [simp]: "nmul 2 10000000000000000 = 20000000000000000"
  by (simp only: nmul_def arith_simps rel_simps numeral_times_numeral numeral_plus_numeral)

lemma nm_f332 [simp]: "nmul 141421356 141421356 = 19999999932878736"
  by (simp only: nmul_def arith_simps rel_simps numeral_times_numeral numeral_plus_numeral)

lemma nm_f333 [simp]: "nmul 141421357 141421357 = 20000000215721449"
  by (simp only: nmul_def arith_simps rel_simps numeral_times_numeral numeral_plus_numeral)

lemma sq_f334 [simp]: "sqrt_newton 20000000000000000 1000000000 = 141421356"
  by (rule sqrt_newton_cert' [where ?r1.0 = 141421357]) simp_all

lemma nm_f335 [simp]: "nmul 28284271 5 = 141421355"
  by (simp only: nmul_def arith_simps rel_simps numeral_times_numeral numeral_plus_numeral)

lemma nd_f336 [simp]: "ndiv 141421356 5 = 28284271 \<and> nmod 141421356 5 = 1"
  by (rule ndivmod_cert [where r = 1]) simp_all

lemma dg_f337 [simp]: "ndigits 141421356 = 9"
  by (rule ndigits_cert [where j = 8]) simp_all

lemma nm_f338 [simp]: "nmul 14142135 10 = 141421350"
  by (simp only: nmul_def arith_simps rel_simps numeral_times_numeral numeral_plus_numeral)

lemma nd_f339 [simp]: "ndiv 141421356 10 = 14142135 \<and> nmod 141421356 10 = 6"
  by (rule ndivmod_cert [where r = 6]) simp_all

lemma nm_f340 [simp]: "nmul 707106762 14142136 = 9999999994723632"
  by (simp only: nmul_def arith_simps rel_simps numeral_times_numeral numeral_plus_numeral)

lemma nd_f341 [simp]: "ndiv 10000000000000000 14142136 = 707106762 \<and> nmod 10000000000000000 14142136 = 5276368"
  by (rule ndivmod_cert [where r = 5276368]) simp_all

lemma nm_f342 [simp]: "nmul 141421352 5 = 707106760"
  by (simp only: nmul_def arith_simps rel_simps numeral_times_numeral numeral_plus_numeral)

lemma nd_f343 [simp]: "ndiv 707106762 5 = 141421352 \<and> nmod 707106762 5 = 2"
  by (rule ndivmod_cert [where r = 2]) simp_all

lemma dg_f344 [simp]: "ndigits 707106762 = 9"
  by (rule ndigits_cert [where j = 8]) simp_all

lemma nm_f345 [simp]: "nmul 70710676 10 = 707106760"
  by (simp only: nmul_def arith_simps rel_simps numeral_times_numeral numeral_plus_numeral)

lemma nd_f346 [simp]: "ndiv 707106762 10 = 70710676 \<and> nmod 707106762 10 = 2"
  by (rule ndivmod_cert [where r = 2]) simp_all

lemma dg_f347 [simp]: "ndigits 70710676 = 8"
  by (rule ndigits_cert [where j = 7]) simp_all

lemma nm_f348 [simp]: "nmul 250000000 4 = 1000000000"
  by (simp only: nmul_def arith_simps rel_simps numeral_times_numeral numeral_plus_numeral)

lemma nd_f349 [simp]: "ndiv 1000000000 4 = 250000000 \<and> nmod 1000000000 4 = 0"
  by (rule ndivmod_cert [where r = 0]) simp_all

lemma nm_f350 [simp]: "nmul 25 10000000 = 250000000"
  by (simp only: nmul_def arith_simps rel_simps numeral_times_numeral numeral_plus_numeral)

lemma sz_f351 [simp]: "strip_zeros 250000000 (- 9) 0 = (25, (- 2))"
  by (rule strip_zeros_cert [where j = 7]) simp_all

lemma init_n3: "gl_init 8 = Inr \<lparr>a_n = \<lparr>coeff = 1, expo = 0\<rparr>, b_n = \<lparr>coeff = 70710676, expo = (- 8)\<rparr>, t_n = \<lparr>coeff = 25, expo = (- 2)\<rparr>, p_n = \<lparr>coeff = 1, expo = 0\<rparr>\<rparr>"
  by (simp add: ev cong: let_weak_cong)

lemma ip10_f352 [simp]: "ipow10 8 = 100000000"
  by (rule ipow10_of [OF p10_f10]) simp

lemma dg_f353 [simp]: "ndigits 170710676 = 9"
  by (rule ndigits_cert [where j = 8]) simp_all

lemma nm_f354 [simp]: "nmul 17071067 10 = 170710670"
  by (simp only: nmul_def arith_simps rel_simps numeral_times_numeral numeral_plus_numeral)

lemma nd_f355 [simp]: "ndiv 170710676 10 = 17071067 \<and> nmod 170710676 10 = 6"
  by (rule ndivmod_cert [where r = 6]) simp_all

lemma dg_f356 [simp]: "ndigits 17071068 = 8"
  by (rule ndigits_cert [where j = 7]) simp_all

lemma nm_f357 [simp]: "nmul 17071068 100 = 1707106800"
  by (simp only: nmul_def arith_simps rel_simps numeral_times_numeral numeral_plus_numeral)

lemma nm_f358 [simp]: "nmul 853553400 2 = 1707106800"
  by (simp only: nmul_def arith_simps rel_simps numeral_times_numeral numeral_plus_numeral)

lemma nd_f359 [simp]: "ndiv 1707106800 2 = 853553400 \<and> nmod 1707106800 2 = 0"
  by (rule ndivmod_cert [where r = 0]) simp_all

lemma nm_f360 [simp]: "nmul 8535534 100 = 853553400"
  by (simp only: nmul_def arith_simps rel_simps numeral_times_numeral numeral_plus_numeral)

lemma sz_f361 [simp]: "strip_zeros 853553400 (- 9) (- 7) = (8535534, (- 7))"
  by (rule strip_zeros_cert [where j = 2]) simp_all

lemma dg_f362 [simp]: "ndigits 8535534 = 7"
  by (rule ndigits_cert [where j = 6]) simp_all

lemma nm_f363 [simp]: "nmul 70710676 10000000000 = 707106760000000000"
  by (simp only: nmul_def arith_simps rel_simps numeral_times_numeral numeral_plus_numeral)

lemma nm_f364 [simp]: "nmul 840896402 840896402 = 707106758896545604"
  by (simp only: nmul_def arith_simps rel_simps numeral_times_numeral numeral_plus_numeral)

lemma nm_f365 [simp]: "nmul 840896403 840896403 = 707106760578338409"
  by (simp only: nmul_def arith_simps rel_simps numeral_times_numeral numeral_plus_numeral)

lemma sq_f366 [simp]: "sqrt_newton 707106760000000000 1000000000 = 840896402"
  by (rule sqrt_newton_cert' [where ?r1.0 = 840896403]) simp_all

lemma nm_f367 [simp]: "nmul 168179280 5 = 840896400"
  by (simp only: nmul_def arith_simps rel_simps numeral_times_numeral numeral_plus_numeral)

lemma nd_f368 [simp]: "ndiv 840896402 5 = 168179280 \<and> nmod 840896402 5 = 2"
  by (rule ndivmod_cert [where r = 2]) simp_all

lemma dg_f369 [simp]: "ndigits 840896402 = 9"
  by (rule ndigits_cert [where j = 8]) simp_all

lemma nm_f370 [simp]: "nmul 84089640 10 = 840896400"
  by (simp only: nmul_def arith_simps rel_simps numeral_times_numeral numeral_plus_numeral)

lemma nd_f371 [simp]: "ndiv 840896402 10 = 84089640 \<and> nmod 840896402 10 = 2"
  by (rule ndivmod_cert [where r = 2]) simp_all

lemma dg_f372 [simp]: "ndigits 84089640 = 8"
  by (rule ndigits_cert [where j = 7]) simp_all

lemma dg_f373 [simp]: "ndigits 1464466 = 7"
  by (rule ndigits_cert [where j = 6]) simp_all

lemma im_f374 [simp]: "imul 1464466 1464466 = 2144660665156"
  by (simp only: imul_def arith_simps rel_simps numeral_times_numeral numeral_plus_numeral)

lemma dg_f375 [simp]: "ndigits 2144660665156 = 13"
  by (rule ndigits_cert [where j = 12]) simp_all

lemma nm_f376 [simp]: "nmul 21446606651 100 = 2144660665100"
  by (simp only: nmul_def arith_simps rel_simps numeral_times_numeral numeral_plus_numeral)

lemma nd_f377 [simp]: "ndiv 2144660665156 100 = 21446606651 \<and> nmod 2144660665156 100 = 56"
  by (rule ndivmod_cert [where r = 56]) simp_all

lemma dg_f378 [simp]: "ndigits 21446606652 = 11"
  by (rule ndigits_cert [where j = 10]) simp_all

lemma nm_f379 [simp]: "nmul 21446606 1000 = 21446606000"
  by (simp only: nmul_def arith_simps rel_simps numeral_times_numeral numeral_plus_numeral)

lemma nd_f380 [simp]: "ndiv 21446606652 1000 = 21446606 \<and> nmod 21446606652 1000 = 652"
  by (rule ndivmod_cert [where r = 652]) simp_all

lemma dg_f381 [simp]: "ndigits 21446607 = 8"
  by (rule ndigits_cert [where j = 7]) simp_all

lemma im_f382 [simp]: "imul 25 10000000 = 250000000"
  by (simp only: imul_def arith_simps rel_simps numeral_times_numeral numeral_plus_numeral)

lemma dg_f383 [simp]: "ndigits 228553393 = 9"
  by (rule ndigits_cert [where j = 8]) simp_all

lemma nm_f384 [simp]: "nmul 22855339 10 = 228553390"
  by (simp only: nmul_def arith_simps rel_simps numeral_times_numeral numeral_plus_numeral)

lemma nd_f385 [simp]: "ndiv 228553393 10 = 22855339 \<and> nmod 228553393 10 = 3"
  by (rule ndivmod_cert [where r = 3]) simp_all

lemma dg_f386 [simp]: "ndigits 22855339 = 8"
  by (rule ndigits_cert [where j = 7]) simp_all

lemma next_n3_0: "gl_next 8 \<lparr>a_n = \<lparr>coeff = 1, expo = 0\<rparr>, b_n = \<lparr>coeff = 70710676, expo = (- 8)\<rparr>, t_n = \<lparr>coeff = 25, expo = (- 2)\<rparr>, p_n = \<lparr>coeff = 1, expo = 0\<rparr>\<rparr> = Inr \<lparr>a_n = \<lparr>coeff = 8535534, expo = (- 7)\<rparr>, b_n = \<lparr>coeff = 84089640, expo = (- 8)\<rparr>, t_n = \<lparr>coeff = 22855339, expo = (- 8)\<rparr>, p_n = \<lparr>coeff = 2, expo = 0\<rparr>\<rparr>"
  by (simp add: ev cong: let_weak_cong)

lemma conv_n3_0: "converged \<lparr>a_n = \<lparr>coeff = 1, expo = 0\<rparr>, b_n = \<lparr>coeff = 70710676, expo = (- 8)\<rparr>, t_n = \<lparr>coeff = 25, expo = (- 2)\<rparr>, p_n = \<lparr>coeff = 1, expo = 0\<rparr>\<rparr> \<lparr>a_n = \<lparr>coeff = 8535534, expo = (- 7)\<rparr>, b_n = \<lparr>coeff = 84089640, expo = (- 8)\<rparr>, t_n = \<lparr>coeff = 22855339, expo = (- 8)\<rparr>, p_n = \<lparr>coeff = 2, expo = 0\<rparr>\<rparr> = False"
  by (simp add: ev cong: let_weak_cong)

lemma im_f387 [simp]: "imul 8535534 10 = 85355340"
  by (simp only: imul_def arith_simps rel_simps numeral_times_numeral numeral_plus_numeral)

lemma dg_f388 [simp]: "ndigits 169444980 = 9"
  by (rule ndigits_cert [where j = 8]) simp_all

lemma nm_f389 [simp]: "nmul 16944498 10 = 169444980"
  by (simp only: nmul_def arith_simps rel_simps numeral_times_numeral numeral_plus_numeral)

lemma nd_f390 [simp]: "ndiv 169444980 10 = 16944498 \<and> nmod 169444980 10 = 0"
  by (rule ndivmod_cert [where r = 0]) simp_all

lemma nm_f391 [simp]: "nmul 16944498 100 = 1694449800"
  by (simp only: nmul_def arith_simps rel_simps numeral_times_numeral numeral_plus_numeral)

lemma nm_f392 [simp]: "nmul 847224900 2 = 1694449800"
  by (simp only: nmul_def arith_simps rel_simps numeral_times_numeral numeral_plus_numeral)

lemma nd_f393 [simp]: "ndiv 1694449800 2 = 847224900 \<and> nmod 1694449800 2 = 0"
  by (rule ndivmod_cert [where r = 0]) simp_all

lemma nm_f394 [simp]: "nmul 8472249 100 = 847224900"
  by (simp only: nmul_def arith_simps rel_simps numeral_times_numeral numeral_plus_numeral)

lemma sz_f395 [simp]: "strip_zeros 847224900 (- 9) (- 7) = (8472249, (- 7))"
  by (rule strip_zeros_cert [where j = 2]) simp_all

lemma dg_f396 [simp]: "ndigits 8472249 = 7"
  by (rule ndigits_cert [where j = 6]) simp_all

lemma im_f397 [simp]: "imul 8535534 84089640 = 717749981267760"
  by (simp only: imul_def arith_simps rel_simps numeral_times_numeral numeral_plus_numeral)

lemma dg_f398 [simp]: "ndigits 717749981267760 = 15"
  by (rule ndigits_cert [where j = 14]) simp_all

lemma nm_f399 [simp]: "nmul 71774998 10000000 = 717749980000000"
  by (simp only: nmul_def arith_simps rel_simps numeral_times_numeral numeral_plus_numeral)

lemma nd_f400 [simp]: "ndiv 717749981267760 10000000 = 71774998 \<and> nmod 717749981267760 10000000 = 1267760"
  by (rule ndivmod_cert [where r = 1267760]) simp_all

lemma dg_f401 [simp]: "ndigits 71774998 = 8"
  by (rule ndigits_cert [where j = 7]) simp_all

lemma nm_f402 [simp]: "nmul 71774998 10000000000 = 717749980000000000"
  by (simp only: nmul_def arith_simps rel_simps numeral_times_numeral numeral_plus_numeral)

lemma nm_f403 [simp]: "nmul 847201262 847201262 = 717749978334392644"
  by (simp only: nmul_def arith_simps rel_simps numeral_times_numeral numeral_plus_numeral)

lemma nm_f404 [simp]: "nmul 847201263 847201263 = 717749980028795169"
  by (simp only: nmul_def arith_simps rel_simps numeral_times_numeral numeral_plus_numeral)

lemma sq_f405 [simp]: "sqrt_newton 717749980000000000 1000000000 = 847201262"
  by (rule sqrt_newton_cert' [where ?r1.0 = 847201263]) simp_all

lemma nm_f406 [simp]: "nmul 169440252 5 = 847201260"
  by (simp only: nmul_def arith_simps rel_simps numeral_times_numeral numeral_plus_numeral)

lemma nd_f407 [simp]: "ndiv 847201262 5 = 169440252 \<and> nmod 847201262 5 = 2"
  by (rule ndivmod_cert [where r = 2]) simp_all

lemma dg_f408 [simp]: "ndigits 847201262 = 9"
  by (rule ndigits_cert [where j = 8]) simp_all

lemma nm_f409 [simp]: "nmul 84720126 10 = 847201260"
  by (simp only: nmul_def arith_simps rel_simps numeral_times_numeral numeral_plus_numeral)

lemma nd_f410 [simp]: "ndiv 847201262 10 = 84720126 \<and> nmod 847201262 10 = 2"
  by (rule ndivmod_cert [where r = 2]) simp_all

lemma dg_f411 [simp]: "ndigits 84720126 = 8"
  by (rule ndigits_cert [where j = 7]) simp_all

lemma nm_f412 [simp]: "nmul 40049912 100 = 4004991200"
  by (simp only: nmul_def arith_simps rel_simps numeral_times_numeral numeral_plus_numeral)

lemma nd_f413 [simp]: "ndiv 4004991225 100 = 40049912 \<and> nmod 4004991225 100 = 25"
  by (rule ndivmod_cert [where r = 25]) simp_all

lemma dg_f414 [simp]: "ndigits 40049912 = 8"
  by (rule ndigits_cert [where j = 7]) simp_all

lemma im_f415 [simp]: "imul 2 40049912 = 80099824"
  by (simp only: imul_def arith_simps rel_simps numeral_times_numeral numeral_plus_numeral)

lemma dg_f416 [simp]: "ndigits 80099824 = 8"
  by (rule ndigits_cert [where j = 7]) simp_all

lemma im_f417 [simp]: "imul 22855339 10000 = 228553390000"
  by (simp only: imul_def arith_simps rel_simps numeral_times_numeral numeral_plus_numeral)

lemma dg_f418 [simp]: "ndigits 228473290176 = 12"
  by (rule ndigits_cert [where j = 11]) simp_all

lemma nm_f419 [simp]: "nmul 22847329 10000 = 228473290000"
  by (simp only: nmul_def arith_simps rel_simps numeral_times_numeral numeral_plus_numeral)

lemma nd_f420 [simp]: "ndiv 228473290176 10000 = 22847329 \<and> nmod 228473290176 10000 = 176"
  by (rule ndivmod_cert [where r = 176]) simp_all

lemma dg_f421 [simp]: "ndigits 22847329 = 8"
  by (rule ndigits_cert [where j = 7]) simp_all

lemma next_n3_1: "gl_next 8 \<lparr>a_n = \<lparr>coeff = 8535534, expo = (- 7)\<rparr>, b_n = \<lparr>coeff = 84089640, expo = (- 8)\<rparr>, t_n = \<lparr>coeff = 22855339, expo = (- 8)\<rparr>, p_n = \<lparr>coeff = 2, expo = 0\<rparr>\<rparr> = Inr \<lparr>a_n = \<lparr>coeff = 8472249, expo = (- 7)\<rparr>, b_n = \<lparr>coeff = 84720126, expo = (- 8)\<rparr>, t_n = \<lparr>coeff = 22847329, expo = (- 8)\<rparr>, p_n = \<lparr>coeff = 4, expo = 0\<rparr>\<rparr>"
  by (simp add: ev cong: let_weak_cong)

lemma conv_n3_1: "converged \<lparr>a_n = \<lparr>coeff = 8535534, expo = (- 7)\<rparr>, b_n = \<lparr>coeff = 84089640, expo = (- 8)\<rparr>, t_n = \<lparr>coeff = 22855339, expo = (- 8)\<rparr>, p_n = \<lparr>coeff = 2, expo = 0\<rparr>\<rparr> \<lparr>a_n = \<lparr>coeff = 8472249, expo = (- 7)\<rparr>, b_n = \<lparr>coeff = 84720126, expo = (- 8)\<rparr>, t_n = \<lparr>coeff = 22847329, expo = (- 8)\<rparr>, p_n = \<lparr>coeff = 4, expo = 0\<rparr>\<rparr> = False"
  by (simp add: ev cong: let_weak_cong)

lemma im_f422 [simp]: "imul 8472249 10 = 84722490"
  by (simp only: imul_def arith_simps rel_simps numeral_times_numeral numeral_plus_numeral)

lemma dg_f423 [simp]: "ndigits 169442616 = 9"
  by (rule ndigits_cert [where j = 8]) simp_all

lemma nm_f424 [simp]: "nmul 16944261 10 = 169442610"
  by (simp only: nmul_def arith_simps rel_simps numeral_times_numeral numeral_plus_numeral)

lemma nd_f425 [simp]: "ndiv 169442616 10 = 16944261 \<and> nmod 169442616 10 = 6"
  by (rule ndivmod_cert [where r = 6]) simp_all

lemma dg_f426 [simp]: "ndigits 16944262 = 8"
  by (rule ndigits_cert [where j = 7]) simp_all

lemma nm_f427 [simp]: "nmul 16944262 100 = 1694426200"
  by (simp only: nmul_def arith_simps rel_simps numeral_times_numeral numeral_plus_numeral)

lemma nm_f428 [simp]: "nmul 847213100 2 = 1694426200"
  by (simp only: nmul_def arith_simps rel_simps numeral_times_numeral numeral_plus_numeral)

lemma nd_f429 [simp]: "ndiv 1694426200 2 = 847213100 \<and> nmod 1694426200 2 = 0"
  by (rule ndivmod_cert [where r = 0]) simp_all

lemma nm_f430 [simp]: "nmul 8472131 100 = 847213100"
  by (simp only: nmul_def arith_simps rel_simps numeral_times_numeral numeral_plus_numeral)

lemma sz_f431 [simp]: "strip_zeros 847213100 (- 9) (- 7) = (8472131, (- 7))"
  by (rule strip_zeros_cert [where j = 2]) simp_all

lemma im_f432 [simp]: "imul 8472249 84720126 = 717770002783374"
  by (simp only: imul_def arith_simps rel_simps numeral_times_numeral numeral_plus_numeral)

lemma dg_f433 [simp]: "ndigits 717770002783374 = 15"
  by (rule ndigits_cert [where j = 14]) simp_all

lemma nm_f434 [simp]: "nmul 71777000 10000000 = 717770000000000"
  by (simp only: nmul_def arith_simps rel_simps numeral_times_numeral numeral_plus_numeral)

lemma nd_f435 [simp]: "ndiv 717770002783374 10000000 = 71777000 \<and> nmod 717770002783374 10000000 = 2783374"
  by (rule ndivmod_cert [where r = 2783374]) simp_all

lemma dg_f436 [simp]: "ndigits 71777000 = 8"
  by (rule ndigits_cert [where j = 7]) simp_all

lemma nm_f437 [simp]: "nmul 71777000 10000000000 = 717770000000000000"
  by (simp only: nmul_def arith_simps rel_simps numeral_times_numeral numeral_plus_numeral)

lemma nm_f438 [simp]: "nmul 847213078 847213078 = 717769999534234084"
  by (simp only: nmul_def arith_simps rel_simps numeral_times_numeral numeral_plus_numeral)

lemma nm_f439 [simp]: "nmul 847213079 847213079 = 717770001228660241"
  by (simp only: nmul_def arith_simps rel_simps numeral_times_numeral numeral_plus_numeral)

lemma sq_f440 [simp]: "sqrt_newton 717770000000000000 1000000000 = 847213078"
  by (rule sqrt_newton_cert' [where ?r1.0 = 847213079]) simp_all

lemma nm_f441 [simp]: "nmul 169442615 5 = 847213075"
  by (simp only: nmul_def arith_simps rel_simps numeral_times_numeral numeral_plus_numeral)

lemma nd_f442 [simp]: "ndiv 847213078 5 = 169442615 \<and> nmod 847213078 5 = 3"
  by (rule ndivmod_cert [where r = 3]) simp_all

lemma dg_f443 [simp]: "ndigits 847213078 = 9"
  by (rule ndigits_cert [where j = 8]) simp_all

lemma nm_f444 [simp]: "nmul 84721307 10 = 847213070"
  by (simp only: nmul_def arith_simps rel_simps numeral_times_numeral numeral_plus_numeral)

lemma nd_f445 [simp]: "ndiv 847213078 10 = 84721307 \<and> nmod 847213078 10 = 8"
  by (rule ndivmod_cert [where r = 8]) simp_all

lemma dg_f446 [simp]: "ndigits 84721308 = 8"
  by (rule ndigits_cert [where j = 7]) simp_all

lemma dg_f447 [simp]: "ndigits 118 = 3"
  by (rule ndigits_cert [where j = 2]) simp_all

lemma im_f448 [simp]: "imul 118 118 = 13924"
  by (simp only: imul_def arith_simps rel_simps numeral_times_numeral numeral_plus_numeral)

lemma dg_f449 [simp]: "ndigits 13924 = 5"
  by (rule ndigits_cert [where j = 4]) simp_all

lemma im_f450 [simp]: "imul 4 13924 = 55696"
  by (simp only: imul_def arith_simps rel_simps numeral_times_numeral numeral_plus_numeral)

lemma dg_f451 [simp]: "ndigits 55696 = 5"
  by (rule ndigits_cert [where j = 4]) simp_all

lemma im_f452 [simp]: "imul 22847329 1000000 = 22847329000000"
  by (simp only: imul_def arith_simps rel_simps numeral_times_numeral numeral_plus_numeral)

lemma dg_f453 [simp]: "ndigits 22847328944304 = 14"
  by (rule ndigits_cert [where j = 13]) simp_all

lemma nm_f454 [simp]: "nmul 22847328 1000000 = 22847328000000"
  by (simp only: nmul_def arith_simps rel_simps numeral_times_numeral numeral_plus_numeral)

lemma nd_f455 [simp]: "ndiv 22847328944304 1000000 = 22847328 \<and> nmod 22847328944304 1000000 = 944304"
  by (rule ndivmod_cert [where r = 944304]) simp_all

lemma next_n3_2: "gl_next 8 \<lparr>a_n = \<lparr>coeff = 8472249, expo = (- 7)\<rparr>, b_n = \<lparr>coeff = 84720126, expo = (- 8)\<rparr>, t_n = \<lparr>coeff = 22847329, expo = (- 8)\<rparr>, p_n = \<lparr>coeff = 4, expo = 0\<rparr>\<rparr> = Inr \<lparr>a_n = \<lparr>coeff = 8472131, expo = (- 7)\<rparr>, b_n = \<lparr>coeff = 84721308, expo = (- 8)\<rparr>, t_n = \<lparr>coeff = 22847329, expo = (- 8)\<rparr>, p_n = \<lparr>coeff = 8, expo = 0\<rparr>\<rparr>"
  by (simp add: ev cong: let_weak_cong)

lemma conv_n3_2: "converged \<lparr>a_n = \<lparr>coeff = 8472249, expo = (- 7)\<rparr>, b_n = \<lparr>coeff = 84720126, expo = (- 8)\<rparr>, t_n = \<lparr>coeff = 22847329, expo = (- 8)\<rparr>, p_n = \<lparr>coeff = 4, expo = 0\<rparr>\<rparr> \<lparr>a_n = \<lparr>coeff = 8472131, expo = (- 7)\<rparr>, b_n = \<lparr>coeff = 84721308, expo = (- 8)\<rparr>, t_n = \<lparr>coeff = 22847329, expo = (- 8)\<rparr>, p_n = \<lparr>coeff = 8, expo = 0\<rparr>\<rparr> = False"
  by (simp add: ev cong: let_weak_cong)

lemma im_f456 [simp]: "imul 8472131 10 = 84721310"
  by (simp only: imul_def arith_simps rel_simps numeral_times_numeral numeral_plus_numeral)

lemma dg_f457 [simp]: "ndigits 169442618 = 9"
  by (rule ndigits_cert [where j = 8]) simp_all

lemma nd_f458 [simp]: "ndiv 169442618 10 = 16944261 \<and> nmod 169442618 10 = 8"
  by (rule ndivmod_cert [where r = 8]) simp_all

lemma im_f459 [simp]: "imul 8472131 84721308 = 717770019867348"
  by (simp only: imul_def arith_simps rel_simps numeral_times_numeral numeral_plus_numeral)

lemma dg_f460 [simp]: "ndigits 717770019867348 = 15"
  by (rule ndigits_cert [where j = 14]) simp_all

lemma nm_f461 [simp]: "nmul 71777001 10000000 = 717770010000000"
  by (simp only: nmul_def arith_simps rel_simps numeral_times_numeral numeral_plus_numeral)

lemma nd_f462 [simp]: "ndiv 717770019867348 10000000 = 71777001 \<and> nmod 717770019867348 10000000 = 9867348"
  by (rule ndivmod_cert [where r = 9867348]) simp_all

lemma dg_f463 [simp]: "ndigits 71777002 = 8"
  by (rule ndigits_cert [where j = 7]) simp_all

lemma nm_f464 [simp]: "nmul 71777002 10000000000 = 717770020000000000"
  by (simp only: nmul_def arith_simps rel_simps numeral_times_numeral numeral_plus_numeral)

lemma nm_f465 [simp]: "nmul 847213090 847213090 = 717770019867348100"
  by (simp only: nmul_def arith_simps rel_simps numeral_times_numeral numeral_plus_numeral)

lemma nm_f466 [simp]: "nmul 847213091 847213091 = 717770021561774281"
  by (simp only: nmul_def arith_simps rel_simps numeral_times_numeral numeral_plus_numeral)

lemma sq_f467 [simp]: "sqrt_newton 717770020000000000 1000000000 = 847213090"
  by (rule sqrt_newton_cert' [where ?r1.0 = 847213091]) simp_all

lemma nm_f468 [simp]: "nmul 169442618 5 = 847213090"
  by (simp only: nmul_def arith_simps rel_simps numeral_times_numeral numeral_plus_numeral)

lemma nd_f469 [simp]: "ndiv 847213090 5 = 169442618 \<and> nmod 847213090 5 = 0"
  by (rule ndivmod_cert [where r = 0]) simp_all

lemma dg_f470 [simp]: "ndigits 847213091 = 9"
  by (rule ndigits_cert [where j = 8]) simp_all

lemma nm_f471 [simp]: "nmul 84721309 10 = 847213090"
  by (simp only: nmul_def arith_simps rel_simps numeral_times_numeral numeral_plus_numeral)

lemma nd_f472 [simp]: "ndiv 847213091 10 = 84721309 \<and> nmod 847213091 10 = 1"
  by (rule ndivmod_cert [where r = 1]) simp_all

lemma dg_f473 [simp]: "ndigits 84721309 = 8"
  by (rule ndigits_cert [where j = 7]) simp_all

lemma next_n3_3: "gl_next 8 \<lparr>a_n = \<lparr>coeff = 8472131, expo = (- 7)\<rparr>, b_n = \<lparr>coeff = 84721308, expo = (- 8)\<rparr>, t_n = \<lparr>coeff = 22847329, expo = (- 8)\<rparr>, p_n = \<lparr>coeff = 8, expo = 0\<rparr>\<rparr> = Inr \<lparr>a_n = \<lparr>coeff = 8472131, expo = (- 7)\<rparr>, b_n = \<lparr>coeff = 84721309, expo = (- 8)\<rparr>, t_n = \<lparr>coeff = 22847329, expo = (- 8)\<rparr>, p_n = \<lparr>coeff = 16, expo = 0\<rparr>\<rparr>"
  by (simp add: ev cong: let_weak_cong)

lemma conv_n3_3: "converged \<lparr>a_n = \<lparr>coeff = 8472131, expo = (- 7)\<rparr>, b_n = \<lparr>coeff = 84721308, expo = (- 8)\<rparr>, t_n = \<lparr>coeff = 22847329, expo = (- 8)\<rparr>, p_n = \<lparr>coeff = 8, expo = 0\<rparr>\<rparr> \<lparr>a_n = \<lparr>coeff = 8472131, expo = (- 7)\<rparr>, b_n = \<lparr>coeff = 84721309, expo = (- 8)\<rparr>, t_n = \<lparr>coeff = 22847329, expo = (- 8)\<rparr>, p_n = \<lparr>coeff = 16, expo = 0\<rparr>\<rparr> = True"
  by (simp add: ev cong: let_weak_cong)

lemma loop_n3: "gl_loop 8 \<lparr>a_n = \<lparr>coeff = 1, expo = 0\<rparr>, b_n = \<lparr>coeff = 70710676, expo = (- 8)\<rparr>, t_n = \<lparr>coeff = 25, expo = (- 2)\<rparr>, p_n = \<lparr>coeff = 1, expo = 0\<rparr>\<rparr> = Some (Inr \<lparr>a_n = \<lparr>coeff = 8472131, expo = (- 7)\<rparr>, b_n = \<lparr>coeff = 84721308, expo = (- 8)\<rparr>, t_n = \<lparr>coeff = 22847329, expo = (- 8)\<rparr>, p_n = \<lparr>coeff = 8, expo = 0\<rparr>\<rparr>)"
  apply (subst gl_loop.simps, simp add: next_n3_0 conv_n3_0)
  apply (subst gl_loop.simps, simp add: next_n3_1 conv_n3_1)
  apply (subst gl_loop.simps, simp add: next_n3_2 conv_n3_2)
  apply (subst gl_loop.simps, simp add: next_n3_3 conv_n3_3)
  done

lemma im_f474 [simp]: "imul 16944262 16944262 = 287108014724644"
  by (simp only: imul_def arith_simps rel_simps numeral_times_numeral numeral_plus_numeral)

lemma dg_f475 [simp]: "ndigits 287108014724644 = 15"
  by (rule ndigits_cert [where j = 14]) simp_all

lemma nm_f476 [simp]: "nmul 28710801472 10000 = 287108014720000"
  by (simp only: nmul_def arith_simps rel_simps numeral_times_numeral numeral_plus_numeral)

lemma nd_f477 [simp]: "ndiv 287108014724644 10000 = 28710801472 \<and> nmod 287108014724644 10000 = 4644"
  by (rule ndivmod_cert [where r = 4644]) simp_all

lemma dg_f478 [simp]: "ndigits 28710801472 = 11"
  by (rule ndigits_cert [where j = 10]) simp_all

lemma nm_f479 [simp]: "nmul 28710801 1000 = 28710801000"
  by (simp only: nmul_def arith_simps rel_simps numeral_times_numeral numeral_plus_numeral)

lemma nd_f480 [simp]: "ndiv 28710801472 1000 = 28710801 \<and> nmod 28710801472 1000 = 472"
  by (rule ndivmod_cert [where r = 472]) simp_all

lemma dg_f481 [simp]: "ndigits 28710801 = 8"
  by (rule ndigits_cert [where j = 7]) simp_all

lemma im_f482 [simp]: "imul 4 22847329 = 91389316"
  by (simp only: imul_def arith_simps rel_simps numeral_times_numeral numeral_plus_numeral)

lemma dg_f483 [simp]: "ndigits 91389316 = 8"
  by (rule ndigits_cert [where j = 7]) simp_all

lemma nm_f484 [simp]: "nmul 28710801 1000000000 = 28710801000000000"
  by (simp only: nmul_def arith_simps rel_simps numeral_times_numeral numeral_plus_numeral)

lemma nm_f485 [simp]: "nmul 314159272 91389316 = 28710800983137952"
  by (simp only: nmul_def arith_simps rel_simps numeral_times_numeral numeral_plus_numeral)

lemma nd_f486 [simp]: "ndiv 28710801000000000 91389316 = 314159272 \<and> nmod 28710801000000000 91389316 = 16862048"
  by (rule ndivmod_cert [where r = 16862048]) simp_all

lemma nm_f487 [simp]: "nmul 62831854 5 = 314159270"
  by (simp only: nmul_def arith_simps rel_simps numeral_times_numeral numeral_plus_numeral)

lemma nd_f488 [simp]: "ndiv 314159272 5 = 62831854 \<and> nmod 314159272 5 = 2"
  by (rule ndivmod_cert [where r = 2]) simp_all

lemma dg_f489 [simp]: "ndigits 314159272 = 9"
  by (rule ndigits_cert [where j = 8]) simp_all

lemma nm_f490 [simp]: "nmul 31415927 10 = 314159270"
  by (simp only: nmul_def arith_simps rel_simps numeral_times_numeral numeral_plus_numeral)

lemma nd_f491 [simp]: "ndiv 314159272 10 = 31415927 \<and> nmod 314159272 10 = 2"
  by (rule ndivmod_cert [where r = 2]) simp_all

lemma dg_f492 [simp]: "ndigits 31415927 = 8"
  by (rule ndigits_cert [where j = 7]) simp_all

lemma value_n3: "pi_value 8 \<lparr>a_n = \<lparr>coeff = 8472131, expo = (- 7)\<rparr>, b_n = \<lparr>coeff = 84721308, expo = (- 8)\<rparr>, t_n = \<lparr>coeff = 22847329, expo = (- 8)\<rparr>, p_n = \<lparr>coeff = 8, expo = 0\<rparr>\<rparr> = Inr \<lparr>coeff = 31415927, expo = (- 7)\<rparr>"
  by (simp add: ev cong: let_weak_cong)

lemma nm_f493 [simp]: "nmul 3141 10000 = 31410000"
  by (simp only: nmul_def arith_simps rel_simps numeral_times_numeral numeral_plus_numeral)

lemma nd_f494 [simp]: "ndiv 31415927 10000 = 3141 \<and> nmod 31415927 10000 = 5927"
  by (rule ndivmod_cert [where r = 5927]) simp_all

lemma dg_f495 [simp]: "ndigits 3141 = 4"
  by (rule ndigits_cert [where j = 3]) simp_all

lemma quant_n3: "quantize_down 8 \<lparr>coeff = 31415927, expo = (- 7)\<rparr> (- 3) = Inr \<lparr>coeff = 3141, expo = (- 3)\<rparr>"
  by (simp add: ev cong: let_weak_cong)

lemma compute_n3: "compute_pi 8 3 = Some (Inr \<lparr>coeff = 3141, expo = (- 3)\<rparr>)"
  by (simp add: compute_pi_def init_n3 loop_n3 value_n3 quant_n3)

lemma calc_n3: "calculate_pi (PyInt 3) c = Some (Inr \<lparr>coeff = 3141, expo = (- 3)\<rparr>, c\<lparr>prec := 8\<rparr>)"
  by (simp add: calculate_pi_def py_int_def MAX_DIGITS_def compute_n3)

lemma strnat_n3: "str_nat 3141 = ''3141''"
  by (rule str_nat_cert) (simp_all add: digits_val_def digit_val_def is_digit_def)

lemma str_n3: "str_decimal \<lparr>coeff = 3141, expo = (- 3)\<rparr> = ''3.141''"
  by (simp add: str_decimal_def Let_def strnat_n3)

lemma printed_n3: "printed (calculate_pi (PyInt 3) c) = Some (Inr ''3.141'')"
  by (simp add: printed_def calc_n3 str_n3)

lemma p10_f496 [simp]: "npow10 17 = 100000000000000000"
  by (rule npow10_next [OF p10_f330]) simp_all

lemma p10_f497 [simp]: "npow10 18 = 1000000000000000000"
  by (rule npow10_next [OF p10_f496]) simp_all

lemma p10_f498 [simp]: "npow10 19 = 10000000000000000000"
  by (rule npow10_next [OF p10_f497]) simp_all

lemma p10_f499 [simp]: "npow10 20 = 100000000000000000000"
  by (rule npow10_next [OF p10_f498]) simp_all

lemma p10_f500 [simp]: "npow10 21 = 1000000000000000000000"
  by (rule npow10_next [OF p10_f499]) simp_all

lemma p10_f501 [simp]: "npow10 22 = 10000000000000000000000"
  by (rule npow10_next [OF p10_f500]) simp_all

lemma p10_f502 [simp]: "npow10 23 = 100000000000000000000000"
  by (rule npow10_next [OF p10_f501]) simp_all

lemma p10_f503 [simp]: "npow10 24 = 1000000000000000000000000"
  by (rule npow10_next [OF p10_f502]) simp_all

lemma p10_f504 [simp]: "npow10 25 = 10000000000000000000000000"
  by (rule npow10_next [OF p10_f503]) simp_all

lemma p10_f505 [simp]: "npow10 26 = 100000000000000000000000000"
  by (rule npow10_next [OF p10_f504]) simp_all

lemma p10_f506 [simp]: "npow10 27 = 1000000000000000000000000000"
  by (rule npow10_next [OF p10_f505]) simp_all

lemma p10_f507 [simp]: "npow10 28 = 10000000000000000000000000000"
  by (rule npow10_next [OF p10_f506]) simp_all

lemma p10_f508 [simp]: "npow10 29 = 100000000000000000000000000000"
  by (rule npow10_next [OF p10_f507]) simp_all

lemma p10_f509 [simp]: "npow10 30 = 1000000000000000000000000000000"
  by (rule npow10_next [OF p10_f508]) simp_all

lemma nm_f510 [simp]: "nmul 2 1000000000000000000000000000000 = 2000000000000000000000000000000"
  by (simp only: nmul_def arith_simps rel_simps numeral_times_numeral numeral_plus_numeral)

lemma nm_f511 [simp]: "nmul 1414213562373095 1414213562373095 = 1999999999999999861967979879025"
  by (simp only: nmul_def arith_simps rel_simps numeral_times_numeral numeral_plus_numeral)

lemma nm_f512 [simp]: "nmul 1414213562373096 1414213562373096 = 2000000000000002690395104625216"
  by (simp only: nmul_def arith_simps rel_simps numeral_times_numeral numeral_plus_numeral)

lemma sq_f513 [simp]: "sqrt_newton 2000000000000000000000000000000 10000000000000000 = 1414213562373095"
  by (rule sqrt_newton_cert' [where ?r1.0 = 1414213562373096]) simp_all

lemma nm_f514 [simp]: "nmul 282842712474619 5 = 1414213562373095"
  by (simp only: nmul_def arith_simps rel_simps numeral_times_numeral numeral_plus_numeral)

lemma nd_f515 [simp]: "ndiv 1414213562373095 5 = 282842712474619 \<and> nmod 1414213562373095 5 = 0"
  by (rule ndivmod_cert [where r = 0]) simp_all

lemma dg_f516 [simp]: "ndigits 1414213562373096 = 16"
  by (rule ndigits_cert [where j = 15]) simp_all

lemma nm_f517 [simp]: "nmul 141421356237309 10 = 1414213562373090"
  by (simp only: nmul_def arith_simps rel_simps numeral_times_numeral numeral_plus_numeral)

lemma nd_f518 [simp]: "ndiv 1414213562373096 10 = 141421356237309 \<and> nmod 1414213562373096 10 = 6"
  by (rule ndivmod_cert [where r = 6]) simp_all

lemma dg_f519 [simp]: "ndigits 141421356237310 = 15"
  by (rule ndigits_cert [where j = 14]) simp_all

lemma nm_f520 [simp]: "nmul 7071067811865450 141421356237310 = 999999999999999930983989939500"
  by (simp only: nmul_def arith_simps rel_simps numeral_times_numeral numeral_plus_numeral)

lemma nd_f521 [simp]: "ndiv 1000000000000000000000000000000 141421356237310 = 7071067811865450 \<and> nmod 1000000000000000000000000000000 141421356237310 = 69016010060500"
  by (rule ndivmod_cert [where r = 69016010060500]) simp_all

lemma nm_f522 [simp]: "nmul 1414213562373090 5 = 7071067811865450"
  by (simp only: nmul_def arith_simps rel_simps numeral_times_numeral numeral_plus_numeral)

lemma nd_f523 [simp]: "ndiv 7071067811865450 5 = 1414213562373090 \<and> nmod 7071067811865450 5 = 0"
  by (rule ndivmod_cert [where r = 0]) simp_all

lemma dg_f524 [simp]: "ndigits 7071067811865451 = 16"
  by (rule ndigits_cert [where j = 15]) simp_all

lemma nm_f525 [simp]: "nmul 707106781186545 10 = 7071067811865450"
  by (simp only: nmul_def arith_simps rel_simps numeral_times_numeral numeral_plus_numeral)

lemma nd_f526 [simp]: "ndiv 7071067811865451 10 = 707106781186545 \<and> nmod 7071067811865451 10 = 1"
  by (rule ndivmod_cert [where r = 1]) simp_all

lemma dg_f527 [simp]: "ndigits 707106781186545 = 15"
  by (rule ndigits_cert [where j = 14]) simp_all

lemma nm_f528 [simp]: "nmul 2500000000000000 4 = 10000000000000000"
  by (simp only: nmul_def arith_simps rel_simps numeral_times_numeral numeral_plus_numeral)

lemma nd_f529 [simp]: "ndiv 10000000000000000 4 = 2500000000000000 \<and> nmod 10000000000000000 4 = 0"
  by (rule ndivmod_cert [where r = 0]) simp_all

lemma nm_f530 [simp]: "nmul 25 100000000000000 = 2500000000000000"
  by (simp only: nmul_def arith_simps rel_simps numeral_times_numeral numeral_plus_numeral)

lemma sz_f531 [simp]: "strip_zeros 2500000000000000 (- 16) 0 = (25, (- 2))"
  by (rule strip_zeros_cert [where j = 14]) simp_all

lemma init_n10: "gl_init 15 = Inr \<lparr>a_n = \<lparr>coeff = 1, expo = 0\<rparr>, b_n = \<lparr>coeff = 707106781186545, expo = (- 15)\<rparr>, t_n = \<lparr>coeff = 25, expo = (- 2)\<rparr>, p_n = \<lparr>coeff = 1, expo = 0\<rparr>\<rparr>"
  by (simp add: ev cong: let_weak_cong)

lemma ip10_f532 [simp]: "ipow10 15 = 1000000000000000"
  by (rule ipow10_of [OF p10_f329]) simp

lemma dg_f533 [simp]: "ndigits 1707106781186545 = 16"
  by (rule ndigits_cert [where j = 15]) simp_all

lemma nm_f534 [simp]: "nmul 170710678118654 10 = 1707106781186540"
  by (simp only: nmul_def arith_simps rel_simps numeral_times_numeral numeral_plus_numeral)

lemma nd_f535 [simp]: "ndiv 1707106781186545 10 = 170710678118654 \<and> nmod 1707106781186545 10 = 5"
  by (rule ndivmod_cert [where r = 5]) simp_all

lemma dg_f536 [simp]: "ndigits 170710678118654 = 15"
  by (rule ndigits_cert [where j = 14]) simp_all

lemma nm_f537 [simp]: "nmul 170710678118654 100 = 17071067811865400"
  by (simp only: nmul_def arith_simps rel_simps numeral_times_numeral numeral_plus_numeral)

lemma nm_f538 [simp]: "nmul 8535533905932700 2 = 17071067811865400"
  by (simp only: nmul_def arith_simps rel_simps numeral_times_numeral numeral_plus_numeral)

lemma nd_f539 [simp]: "ndiv 17071067811865400 2 = 8535533905932700 \<and> nmod 17071067811865400 2 = 0"
  by (rule ndivmod_cert [where r = 0]) simp_all

lemma nm_f540 [simp]: "nmul 85355339059327 100 = 8535533905932700"
  by (simp only: nmul_def arith_simps rel_simps numeral_times_numeral numeral_plus_numeral)

lemma sz_f541 [simp]: "strip_zeros 8535533905932700 (- 16) (- 14) = (85355339059327, (- 14))"
  by (rule strip_zeros_cert [where j = 2]) simp_all

lemma dg_f542 [simp]: "ndigits 85355339059327 = 14"
  by (rule ndigits_cert [where j = 13]) simp_all

lemma nm_f543 [simp]: "nmul 7071067811865450 10000000000000000 = 70710678118654500000000000000000"
  by (simp only: nmul_def arith_simps rel_simps numeral_times_numeral numeral_plus_numeral)

lemma nm_f544 [simp]: "nmul 8408964152537130 8408964152537130 = 70710678118654492934216028636900"
  by (simp only: nmul_def arith_simps rel_simps numeral_times_numeral numeral_plus_numeral)

lemma nm_f545 [simp]: "nmul 8408964152537131 8408964152537131 = 70710678118654509752144333711161"
  by (simp only: nmul_def arith_simps rel_simps numeral_times_numeral numeral_plus_numeral)

lemma sq_f546 [simp]: "sqrt_newton 70710678118654500000000000000000 10000000000000000 = 8408964152537130"
  by (rule sqrt_newton_cert' [where ?r1.0 = 8408964152537131]) simp_all

lemma nm_f547 [simp]: "nmul 1681792830507426 5 = 8408964152537130"
  by (simp only: nmul_def arith_simps rel_simps numeral_times_numeral numeral_plus_numeral)

lemma nd_f548 [simp]: "ndiv 8408964152537130 5 = 1681792830507426 \<and> nmod 8408964152537130 5 = 0"
  by (rule ndivmod_cert [where r = 0]) simp_all

lemma dg_f549 [simp]: "ndigits 8408964152537131 = 16"
  by (rule ndigits_cert [where j = 15]) simp_all

lemma nm_f550 [simp]: "nmul 840896415253713 10 = 8408964152537130"
  by (simp only: nmul_def arith_simps rel_simps numeral_times_numeral numeral_plus_numeral)

lemma nd_f551 [simp]: "ndiv 8408964152537131 10 = 840896415253713 \<and> nmod 8408964152537131 10 = 1"
  by (rule ndivmod_cert [where r = 1]) simp_all

lemma dg_f552 [simp]: "ndigits 840896415253713 = 15"
  by (rule ndigits_cert [where j = 14]) simp_all

lemma ip10_f553 [simp]: "ipow10 14 = 100000000000000"
  by (rule ipow10_of [OF p10_f154]) simp

lemma dg_f554 [simp]: "ndigits 14644660940673 = 14"
  by (rule ndigits_cert [where j = 13]) simp_all

lemma im_f555 [simp]: "imul 14644660940673 14644660940673 = 214466094067273397225692929"
  by (simp only: imul_def arith_simps rel_simps numeral_times_numeral numeral_plus_numeral)

lemma dg_f556 [simp]: "ndigits 214466094067273397225692929 = 27"
  by (rule ndigits_cert [where j = 26]) simp_all

lemma nm_f557 [simp]: "nmul 214466094067273397 1000000000 = 214466094067273397000000000"
  by (simp only: nmul_def arith_simps rel_simps numeral_times_numeral numeral_plus_numeral)

lemma nd_f558 [simp]: "ndiv 214466094067273397225692929 1000000000 = 214466094067273397 \<and> nmod 214466094067273397225692929 1000000000 = 225692929"
  by (rule ndivmod_cert [where r = 225692929]) simp_all

lemma dg_f559 [simp]: "ndigits 214466094067273397 = 18"
  by (rule ndigits_cert [where j = 17]) simp_all

lemma nm_f560 [simp]: "nmul 214466094067273 1000 = 214466094067273000"
  by (simp only: nmul_def arith_simps rel_simps numeral_times_numeral numeral_plus_numeral)

lemma nd_f561 [simp]: "ndiv 214466094067273397 1000 = 214466094067273 \<and> nmod 214466094067273397 1000 = 397"
  by (rule ndivmod_cert [where r = 397]) simp_all

lemma dg_f562 [simp]: "ndigits 214466094067273 = 15"
  by (rule ndigits_cert [where j = 14]) simp_all

lemma im_f563 [simp]: "imul 25 100000000000000 = 2500000000000000"
  by (simp only: imul_def arith_simps rel_simps numeral_times_numeral numeral_plus_numeral)

lemma dg_f564 [simp]: "ndigits 2285533905932727 = 16"
  by (rule ndigits_cert [where j = 15]) simp_all

lemma nm_f565 [simp]: "nmul 228553390593272 10 = 2285533905932720"
  by (simp only: nmul_def arith_simps rel_simps numeral_times_numeral numeral_plus_numeral)

lemma nd_f566 [simp]: "ndiv 2285533905932727 10 = 228553390593272 \<and> nmod 2285533905932727 10 = 7"
  by (rule ndivmod_cert [where r = 7]) simp_all

lemma dg_f567 [simp]: "ndigits 228553390593273 = 15"
  by (rule ndigits_cert [where j = 14]) simp_all

lemma next_n10_0: "gl_next 15 \<lparr>a_n = \<lparr>coeff = 1, expo = 0\<rparr>, b_n = \<lparr>coeff = 707106781186545, expo = (- 15)\<rparr>, t_n = \<lparr>coeff = 25, expo = (- 2)\<rparr>, p_n = \<lparr>coeff = 1, expo = 0\<rparr>\<rparr> = Inr \<lparr>a_n = \<lparr>coeff = 85355339059327, expo = (- 14)\<rparr>, b_n = \<lparr>coeff = 840896415253713, expo = (- 15)\<rparr>, t_n = \<lparr>coeff = 228553390593273, expo = (- 15)\<rparr>, p_n = \<lparr>coeff = 2, expo = 0\<rparr>\<rparr>"
  by (simp add: ev cong: let_weak_cong)

lemma conv_n10_0: "converged \<lparr>a_n = \<lparr>coeff = 1, expo = 0\<rparr>, b_n = \<lparr>coeff = 707106781186545, expo = (- 15)\<rparr>, t_n = \<lparr>coeff = 25, expo = (- 2)\<rparr>, p_n = \<lparr>coeff = 1, expo = 0\<rparr>\<rparr> \<lparr>a_n = \<lparr>coeff = 85355339059327, expo = (- 14)\<rparr>, b_n = \<lparr>coeff = 840896415253713, expo = (- 15)\<rparr>, t_n = \<lparr>coeff = 228553390593273, expo = (- 15)\<rparr>, p_n = \<lparr>coeff = 2, expo = 0\<rparr>\<rparr> = False"
  by (simp add: ev cong: let_weak_cong)

lemma im_f568 [simp]: "imul 85355339059327 10 = 853553390593270"
  by (simp only: imul_def arith_simps rel_simps numeral_times_numeral numeral_plus_numeral)

lemma dg_f569 [simp]: "ndigits 1694449805846983 = 16"
  by (rule ndigits_cert [where j = 15]) simp_all

lemma nm_f570 [simp]: "nmul 169444980584698 10 = 1694449805846980"
  by (simp only: nmul_def arith_simps rel_simps numeral_times_numeral numeral_plus_numeral)

lemma nd_f571 [simp]: "ndiv 1694449805846983 10 = 169444980584698 \<and> nmod 1694449805846983 10 = 3"
  by (rule ndivmod_cert [where r = 3]) simp_all

lemma dg_f572 [simp]: "ndigits 169444980584698 = 15"
  by (rule ndigits_cert [where j = 14]) simp_all

lemma nm_f573 [simp]: "nmul 169444980584698 100 = 16944498058469800"
  by (simp only: nmul_def arith_simps rel_simps numeral_times_numeral numeral_plus_numeral)

lemma nm_f574 [simp]: "nmul 8472249029234900 2 = 16944498058469800"
  by (simp only: nmul_def arith_simps rel_simps numeral_times_numeral numeral_plus_numeral)

lemma nd_f575 [simp]: "ndiv 16944498058469800 2 = 8472249029234900 \<and> nmod 16944498058469800 2 = 0"
  by (rule ndivmod_cert [where r = 0]) simp_all

lemma nm_f576 [simp]: "nmul 84722490292349 100 = 8472249029234900"
  by (simp only: nmul_def arith_simps rel_simps numeral_times_numeral numeral_plus_numeral)

lemma sz_f577 [simp]: "strip_zeros 8472249029234900 (- 16) (- 14) = (84722490292349, (- 14))"
  by (rule strip_zeros_cert [where j = 2]) simp_all

lemma dg_f578 [simp]: "ndigits 84722490292349 = 14"
  by (rule ndigits_cert [where j = 13]) simp_all

lemma im_f579 [simp]: "imul 85355339059327 840896415253713 = 71774998637753305751464031151"
  by (simp only: imul_def arith_simps rel_simps numeral_times_numeral numeral_plus_numeral)

lemma dg_f580 [simp]: "ndigits 71774998637753305751464031151 = 29"
  by (rule ndigits_cert [where j = 28]) simp_all

lemma nm_f581 [simp]: "nmul 717749986377533 100000000000000 = 71774998637753300000000000000"
  by (simp only: nmul_def arith_simps rel_simps numeral_times_numeral numeral_plus_numeral)

lemma nd_f582 [simp]: "ndiv 71774998637753305751464031151 100000000000000 = 717749986377533 \<and> nmod 71774998637753305751464031151 100000000000000 = 5751464031151"
  by (rule ndivmod_cert [where r = 5751464031151]) simp_all

lemma dg_f583 [simp]: "ndigits 717749986377533 = 15"
  by (rule ndigits_cert [where j = 14]) simp_all

lemma nm_f584 [simp]: "nmul 7177499863775330 10000000000000000 = 71774998637753300000000000000000"
  by (simp only: nmul_def arith_simps rel_simps numeral_times_numeral numeral_plus_numeral)

lemma nm_f585 [simp]: "nmul 8472012667468887 8472012667468887 = 71774998637753286096003113018769"
  by (simp only: nmul_def arith_simps rel_simps numeral_times_numeral numeral_plus_numeral)

lemma nm_f586 [simp]: "nmul 8472012667468888 8472012667468888 = 71774998637753303040028447956544"
  by (simp only: nmul_def arith_simps rel_simps numeral_times_numeral numeral_plus_numeral)

lemma sq_f587 [simp]: "sqrt_newton 71774998637753300000000000000000 10000000000000000 = 8472012667468887"
  by (rule sqrt_newton_cert' [where ?r1.0 = 8472012667468888]) simp_all

lemma nm_f588 [simp]: "nmul 1694402533493777 5 = 8472012667468885"
  by (simp only: nmul_def arith_simps rel_simps numeral_times_numeral numeral_plus_numeral)

lemma nd_f589 [simp]: "ndiv 8472012667468887 5 = 1694402533493777 \<and> nmod 8472012667468887 5 = 2"
  by (rule ndivmod_cert [where r = 2]) simp_all

lemma dg_f590 [simp]: "ndigits 8472012667468887 = 16"
  by (rule ndigits_cert [where j = 15]) simp_all

lemma nm_f591 [simp]: "nmul 847201266746888 10 = 8472012667468880"
  by (simp only: nmul_def arith_simps rel_simps numeral_times_numeral numeral_plus_numeral)

lemma nd_f592 [simp]: "ndiv 8472012667468887 10 = 847201266746888 \<and> nmod 8472012667468887 10 = 7"
  by (rule ndivmod_cert [where r = 7]) simp_all

lemma dg_f593 [simp]: "ndigits 847201266746889 = 15"
  by (rule ndigits_cert [where j = 14]) simp_all

lemma dg_f594 [simp]: "ndigits 632848766978 = 12"
  by (rule ndigits_cert [where j = 11]) simp_all

lemma im_f595 [simp]: "imul 632848766978 632848766978 = 400497561865574943252484"
  by (simp only: imul_def arith_simps rel_simps numeral_times_numeral numeral_plus_numeral)

lemma dg_f596 [simp]: "ndigits 400497561865574943252484 = 24"
  by (rule ndigits_cert [where j = 23]) simp_all

lemma nm_f597 [simp]: "nmul 400497561865574943 1000000 = 400497561865574943000000"
  by (simp only: nmul_def arith_simps rel_simps numeral_times_numeral numeral_plus_numeral)

lemma nd_f598 [simp]: "ndiv 400497561865574943252484 1000000 = 400497561865574943 \<and> nmod 400497561865574943252484 1000000 = 252484"
  by (rule ndivmod_cert [where r = 252484]) simp_all

lemma dg_f599 [simp]: "ndigits 400497561865574943 = 18"
  by (rule ndigits_cert [where j = 17]) simp_all

lemma nm_f600 [simp]: "nmul 400497561865574 1000 = 400497561865574000"
  by (simp only: nmul_def arith_simps rel_simps numeral_times_numeral numeral_plus_numeral)

lemma nd_f601 [simp]: "ndiv 400497561865574943 1000 = 400497561865574 \<and> nmod 400497561865574943 1000 = 943"
  by (rule ndivmod_cert [where r = 943]) simp_all

lemma dg_f602 [simp]: "ndigits 400497561865575 = 15"
  by (rule ndigits_cert [where j = 14]) simp_all

lemma im_f603 [simp]: "imul 2 400497561865575 = 800995123731150"
  by (simp only: imul_def arith_simps rel_simps numeral_times_numeral numeral_plus_numeral)

lemma dg_f604 [simp]: "ndigits 800995123731150 = 15"
  by (rule ndigits_cert [where j = 14]) simp_all

lemma im_f605 [simp]: "imul 228553390593273 10000 = 2285533905932730000"
  by (simp only: imul_def arith_simps rel_simps numeral_times_numeral numeral_plus_numeral)

lemma dg_f606 [simp]: "ndigits 2284732910808998850 = 19"
  by (rule ndigits_cert [where j = 18]) simp_all

lemma nm_f607 [simp]: "nmul 228473291080899 10000 = 2284732910808990000"
  by (simp only: nmul_def arith_simps rel_simps numeral_times_numeral numeral_plus_numeral)

lemma nd_f608 [simp]: "ndiv 2284732910808998850 10000 = 228473291080899 \<and> nmod 2284732910808998850 10000 = 8850"
  by (rule ndivmod_cert [where r = 8850]) simp_all

lemma dg_f609 [simp]: "ndigits 228473291080900 = 15"
  by (rule ndigits_cert [where j = 14]) simp_all

lemma next_n10_1: "gl_next 15 \<lparr>a_n = \<lparr>coeff = 85355339059327, expo = (- 14)\<rparr>, b_n = \<lparr>coeff = 840896415253713, expo = (- 15)\<rparr>, t_n = \<lparr>coeff = 228553390593273, expo = (- 15)\<rparr>, p_n = \<lparr>coeff = 2, expo = 0\<rparr>\<rparr> = Inr \<lparr>a_n = \<lparr>coeff = 84722490292349, expo = (- 14)\<rparr>, b_n = \<lparr>coeff = 847201266746889, expo = (- 15)\<rparr>, t_n = \<lparr>coeff = 228473291080900, expo = (- 15)\<rparr>, p_n = \<lparr>coeff = 4, expo = 0\<rparr>\<rparr>"
  by (simp add: ev cong: let_weak_cong)

lemma conv_n10_1: "converged \<lparr>a_n = \<lparr>coeff = 85355339059327, expo = (- 14)\<rparr>, b_n = \<lparr>coeff = 840896415253713, expo = (- 15)\<rparr>, t_n = \<lparr>coeff = 228553390593273, expo = (- 15)\<rparr>, p_n = \<lparr>coeff = 2, expo = 0\<rparr>\<rparr> \<lparr>a_n = \<lparr>coeff = 84722490292349, expo = (- 14)\<rparr>, b_n = \<lparr>coeff = 847201266746889, expo = (- 15)\<rparr>, t_n = \<lparr>coeff = 228473291080900, expo = (- 15)\<rparr>, p_n = \<lparr>coeff = 4, expo = 0\<rparr>\<rparr> = False"
  by (simp add: ev cong: let_weak_cong)

lemma im_f610 [simp]: "imul 84722490292349 10 = 847224902923490"
  by (simp only: imul_def arith_simps rel_simps numeral_times_numeral numeral_plus_numeral)

lemma dg_f611 [simp]: "ndigits 1694426169670379 = 16"
  by (rule ndigits_cert [where j = 15]) simp_all

lemma nm_f612 [simp]: "nmul 169442616967037 10 = 1694426169670370"
  by (simp only: nmul_def arith_simps rel_simps numeral_times_numeral numeral_plus_numeral)

lemma nd_f613 [simp]: "ndiv 1694426169670379 10 = 169442616967037 \<and> nmod 1694426169670379 10 = 9"
  by (rule ndivmod_cert [where r = 9]) simp_all

lemma dg_f614 [simp]: "ndigits 169442616967038 = 15"
  by (rule ndigits_cert [where j = 14]) simp_all

lemma nm_f615 [simp]: "nmul 169442616967038 100 = 16944261696703800"
  by (simp only: nmul_def arith_simps rel_simps numeral_times_numeral numeral_plus_numeral)

lemma nm_f616 [simp]: "nmul 8472130848351900 2 = 16944261696703800"
  by (simp only: nmul_def arith_simps rel_simps numeral_times_numeral numeral_plus_numeral)

lemma nd_f617 [simp]: "ndiv 16944261696703800 2 = 8472130848351900 \<and> nmod 16944261696703800 2 = 0"
  by (rule ndivmod_cert [where r = 0]) simp_all

lemma nm_f618 [simp]: "nmul 84721308483519 100 = 8472130848351900"
  by (simp only: nmul_def arith_simps rel_simps numeral_times_numeral numeral_plus_numeral)

lemma sz_f619 [simp]: "strip_zeros 8472130848351900 (- 16) (- 14) = (84721308483519, (- 14))"
  by (rule strip_zeros_cert [where j = 2]) simp_all

lemma dg_f620 [simp]: "ndigits 84721308483519 = 14"
  by (rule ndigits_cert [where j = 13]) simp_all

lemma im_f621 [simp]: "imul 84722490292349 847201266746889 = 71777001097629078965796252261"
  by (simp only: imul_def arith_simps rel_simps numeral_times_numeral numeral_plus_numeral)

lemma dg_f622 [simp]: "ndigits 71777001097629078965796252261 = 29"
  by (rule ndigits_cert [where j = 28]) simp_all

lemma nm_f623 [simp]: "nmul 717770010976290 100000000000000 = 71777001097629000000000000000"
  by (simp only: nmul_def arith_simps rel_simps numeral_times_numeral numeral_plus_numeral)

lemma nd_f624 [simp]: "ndiv 71777001097629078965796252261 100000000000000 = 717770010976290 \<and> nmod 71777001097629078965796252261 100000000000000 = 78965796252261"
  by (rule ndivmod_cert [where r = 78965796252261]) simp_all

lemma dg_f625 [simp]: "ndigits 717770010976291 = 15"
  by (rule ndigits_cert [where j = 14]) simp_all

lemma nm_f626 [simp]: "nmul 7177700109762910 10000000000000000 = 71777001097629100000000000000000"
  by (simp only: nmul_def arith_simps rel_simps numeral_times_numeral numeral_plus_numeral)

lemma nm_f627 [simp]: "nmul 8472130847527621 8472130847527621 = 71777001097629085708528357919641"
  by (simp only: nmul_def arith_simps rel_simps numeral_times_numeral numeral_plus_numeral)

lemma nm_f628 [simp]: "nmul 8472130847527622 8472130847527622 = 71777001097629102652790052974884"
  by (simp only: nmul_def arith_simps rel_simps numeral_times_numeral numeral_plus_numeral)

lemma sq_f629 [simp]: "sqrt_newton 71777001097629100000000000000000 10000000000000000 = 8472130847527621"
  by (rule sqrt_newton_cert' [where ?r1.0 = 8472130847527622]) simp_all

lemma nm_f630 [simp]: "nmul 1694426169505524 5 = 8472130847527620"
  by (simp only: nmul_def arith_simps rel_simps numeral_times_numeral numeral_plus_numeral)

lemma nd_f631 [simp]: "ndiv 8472130847527621 5 = 1694426169505524 \<and> nmod 8472130847527621 5 = 1"
  by (rule ndivmod_cert [where r = 1]) simp_all

lemma dg_f632 [simp]: "ndigits 8472130847527621 = 16"
  by (rule ndigits_cert [where j = 15]) simp_all

lemma nm_f633 [simp]: "nmul 847213084752762 10 = 8472130847527620"
  by (simp only: nmul_def arith_simps rel_simps numeral_times_numeral numeral_plus_numeral)

lemma nd_f634 [simp]: "ndiv 8472130847527621 10 = 847213084752762 \<and> nmod 8472130847527621 10 = 1"
  by (rule ndivmod_cert [where r = 1]) simp_all

lemma dg_f635 [simp]: "ndigits 847213084752762 = 15"
  by (rule ndigits_cert [where j = 14]) simp_all

lemma dg_f636 [simp]: "ndigits 1181808830 = 10"
  by (rule ndigits_cert [where j = 9]) simp_all

lemma im_f637 [simp]: "imul 1181808830 1181808830 = 1396672110665968900"
  by (simp only: imul_def arith_simps rel_simps numeral_times_numeral numeral_plus_numeral)

lemma dg_f638 [simp]: "ndigits 1396672110665968900 = 19"
  by (rule ndigits_cert [where j = 18]) simp_all

lemma nm_f639 [simp]: "nmul 139667211066596890 10 = 1396672110665968900"
  by (simp only: nmul_def arith_simps rel_simps numeral_times_numeral numeral_plus_numeral)

lemma nd_f640 [simp]: "ndiv 1396672110665968900 10 = 139667211066596890 \<and> nmod 1396672110665968900 10 = 0"
  by (rule ndivmod_cert [where r = 0]) simp_all

lemma dg_f641 [simp]: "ndigits 139667211066596890 = 18"
  by (rule ndigits_cert [where j = 17]) simp_all

lemma nm_f642 [simp]: "nmul 139667211066596 1000 = 139667211066596000"
  by (simp only: nmul_def arith_simps rel_simps numeral_times_numeral numeral_plus_numeral)

lemma nd_f643 [simp]: "ndiv 139667211066596890 1000 = 139667211066596 \<and> nmod 139667211066596890 1000 = 890"
  by (rule ndivmod_cert [where r = 890]) simp_all

lemma dg_f644 [simp]: "ndigits 139667211066597 = 15"
  by (rule ndigits_cert [where j = 14]) simp_all

lemma im_f645 [simp]: "imul 4 139667211066597 = 558668844266388"
  by (simp only: imul_def arith_simps rel_simps numeral_times_numeral numeral_plus_numeral)

lemma dg_f646 [simp]: "ndigits 558668844266388 = 15"
  by (rule ndigits_cert [where j = 14]) simp_all

lemma ip10_f647 [simp]: "ipow10 9 = 1000000000"
  by (rule ipow10_of [OF p10_f11]) simp

lemma im_f648 [simp]: "imul 228473291080900 1000000000 = 228473291080900000000000"
  by (simp only: imul_def arith_simps rel_simps numeral_times_numeral numeral_plus_numeral)

lemma dg_f649 [simp]: "ndigits 228473290522231155733612 = 24"
  by (rule ndigits_cert [where j = 23]) simp_all

lemma nm_f650 [simp]: "nmul 228473290522231 1000000000 = 228473290522231000000000"
  by (simp only: nmul_def arith_simps rel_simps numeral_times_numeral numeral_plus_numeral)

lemma nd_f651 [simp]: "ndiv 228473290522231155733612 1000000000 = 228473290522231 \<and> nmod 228473290522231155733612 1000000000 = 155733612"
  by (rule ndivmod_cert [where r = 155733612]) simp_all

lemma dg_f652 [simp]: "ndigits 228473290522231 = 15"
  by (rule ndigits_cert [where j = 14]) simp_all

lemma next_n10_2: "gl_next 15 \<lparr>a_n = \<lparr>coeff = 84722490292349, expo = (- 14)\<rparr>, b_n = \<lparr>coeff = 847201266746889, expo = (- 15)\<rparr>, t_n = \<lparr>coeff = 228473291080900, expo = (- 15)\<rparr>, p_n = \<lparr>coeff = 4, expo = 0\<rparr>\<rparr> = Inr \<lparr>a_n = \<lparr>coeff = 84721308483519, expo = (- 14)\<rparr>, b_n = \<lparr>coeff = 847213084752762, expo = (- 15)\<rparr>, t_n = \<lparr>coeff = 228473290522231, expo = (- 15)\<rparr>, p_n = \<lparr>coeff = 8, expo = 0\<rparr>\<rparr>"
  by (simp add: ev cong: let_weak_cong)

lemma conv_n10_2: "converged \<lparr>a_n = \<lparr>coeff = 84722490292349, expo = (- 14)\<rparr>, b_n = \<lparr>coeff = 847201266746889, expo = (- 15)\<rparr>, t_n = \<lparr>coeff = 228473291080900, expo = (- 15)\<rparr>, p_n = \<lparr>coeff = 4, expo = 0\<rparr>\<rparr> \<lparr>a_n = \<lparr>coeff = 84721308483519, expo = (- 14)\<rparr>, b_n = \<lparr>coeff = 847213084752762, expo = (- 15)\<rparr>, t_n = \<lparr>coeff = 228473290522231, expo = (- 15)\<rparr>, p_n = \<lparr>coeff = 8, expo = 0\<rparr>\<rparr> = False"
  by (simp add: ev cong: let_weak_cong)

lemma im_f653 [simp]: "imul 84721308483519 10 = 847213084835190"
  by (simp only: imul_def arith_simps rel_simps numeral_times_numeral numeral_plus_numeral)

lemma dg_f654 [simp]: "ndigits 1694426169587952 = 16"
  by (rule ndigits_cert [where j = 15]) simp_all

lemma nm_f655 [simp]: "nmul 169442616958795 10 = 1694426169587950"
  by (simp only: nmul_def arith_simps rel_simps numeral_times_numeral numeral_plus_numeral)

lemma nd_f656 [simp]: "ndiv 1694426169587952 10 = 169442616958795 \<and> nmod 1694426169587952 10 = 2"
  by (rule ndivmod_cert [where r = 2]) simp_all

lemma dg_f657 [simp]: "ndigits 169442616958795 = 15"
  by (rule ndigits_cert [where j = 14]) simp_all

lemma nm_f658 [simp]: "nmul 169442616958795 100 = 16944261695879500"
  by (simp only: nmul_def arith_simps rel_simps numeral_times_numeral numeral_plus_numeral)

lemma nm_f659 [simp]: "nmul 8472130847939750 2 = 16944261695879500"
  by (simp only: nmul_def arith_simps rel_simps numeral_times_numeral numeral_plus_numeral)

lemma nd_f660 [simp]: "ndiv 16944261695879500 2 = 8472130847939750 \<and> nmod 16944261695879500 2 = 0"
  by (rule ndivmod_cert [where r = 0]) simp_all

lemma nm_f661 [simp]: "nmul 847213084793975 10 = 8472130847939750"
  by (simp only: nmul_def arith_simps rel_simps numeral_times_numeral numeral_plus_numeral)

lemma nm_f662 [simp]: "nmul 84721308479397 10 = 847213084793970"
  by (simp only: nmul_def arith_simps rel_simps numeral_times_numeral numeral_plus_numeral)

lemma nd_f663 [simp]: "ndiv 847213084793975 10 = 84721308479397 \<and> nmod 847213084793975 10 = 5"
  by (rule ndivmod_cert [where r = 5]) simp_all

lemma sz_f664 [simp]: "strip_zeros 8472130847939750 (- 16) (- 14) = (847213084793975, (- 15))"
  by (rule strip_zeros_cert [where j = 1]) simp_all

lemma dg_f665 [simp]: "ndigits 847213084793975 = 15"
  by (rule ndigits_cert [where j = 14]) simp_all

lemma im_f666 [simp]: "imul 84721308483519 847213084752762 = 71777001104612476779266729478"
  by (simp only: imul_def arith_simps rel_simps numeral_times_numeral numeral_plus_numeral)

lemma dg_f667 [simp]: "ndigits 71777001104612476779266729478 = 29"
  by (rule ndigits_cert [where j = 28]) simp_all

lemma nm_f668 [simp]: "nmul 717770011046124 100000000000000 = 71777001104612400000000000000"
  by (simp only: nmul_def arith_simps rel_simps numeral_times_numeral numeral_plus_numeral)

lemma nd_f669 [simp]: "ndiv 71777001104612476779266729478 100000000000000 = 717770011046124 \<and> nmod 71777001104612476779266729478 100000000000000 = 76779266729478"
  by (rule ndivmod_cert [where r = 76779266729478]) simp_all

lemma dg_f670 [simp]: "ndigits 717770011046125 = 15"
  by (rule ndigits_cert [where j = 14]) simp_all

lemma nm_f671 [simp]: "nmul 7177700110461250 10000000000000000 = 71777001104612500000000000000000"
  by (simp only: nmul_def arith_simps rel_simps numeral_times_numeral numeral_plus_numeral)

lemma nm_f672 [simp]: "nmul 8472130847939761 8472130847939761 = 71777001104612493723698284737121"
  by (simp only: nmul_def arith_simps rel_simps numeral_times_numeral numeral_plus_numeral)

lemma nm_f673 [simp]: "nmul 8472130847939762 8472130847939762 = 71777001104612510667959980616644"
  by (simp only: nmul_def arith_simps rel_simps numeral_times_numeral numeral_plus_numeral)

lemma sq_f674 [simp]: "sqrt_newton 71777001104612500000000000000000 10000000000000000 = 8472130847939761"
  by (rule sqrt_newton_cert' [where ?r1.0 = 8472130847939762]) simp_all

lemma nm_f675 [simp]: "nmul 1694426169587952 5 = 8472130847939760"
  by (simp only: nmul_def arith_simps rel_simps numeral_times_numeral numeral_plus_numeral)

lemma nd_f676 [simp]: "ndiv 8472130847939761 5 = 1694426169587952 \<and> nmod 8472130847939761 5 = 1"
  by (rule ndivmod_cert [where r = 1]) simp_all

lemma dg_f677 [simp]: "ndigits 8472130847939761 = 16"
  by (rule ndigits_cert [where j = 15]) simp_all

lemma nm_f678 [simp]: "nmul 847213084793976 10 = 8472130847939760"
  by (simp only: nmul_def arith_simps rel_simps numeral_times_numeral numeral_plus_numeral)

lemma nd_f679 [simp]: "ndiv 8472130847939761 10 = 847213084793976 \<and> nmod 8472130847939761 10 = 1"
  by (rule ndivmod_cert [where r = 1]) simp_all

lemma dg_f680 [simp]: "ndigits 847213084793976 = 15"
  by (rule ndigits_cert [where j = 14]) simp_all

lemma dg_f681 [simp]: "ndigits 41215 = 5"
  by (rule ndigits_cert [where j = 4]) simp_all

lemma im_f682 [simp]: "imul 41215 41215 = 1698676225"
  by (simp only: imul_def arith_simps rel_simps numeral_times_numeral numeral_plus_numeral)

lemma dg_f683 [simp]: "ndigits 1698676225 = 10"
  by (rule ndigits_cert [where j = 9]) simp_all

lemma im_f684 [simp]: "imul 8 1698676225 = 13589409800"
  by (simp only: imul_def arith_simps rel_simps numeral_times_numeral numeral_plus_numeral)

lemma dg_f685 [simp]: "ndigits 13589409800 = 11"
  by (rule ndigits_cert [where j = 10]) simp_all

lemma im_f686 [simp]: "imul 228473290522231 1000000000000000 = 228473290522231000000000000000"
  by (simp only: imul_def arith_simps rel_simps numeral_times_numeral numeral_plus_numeral)

lemma dg_f687 [simp]: "ndigits 228473290522230999986410590200 = 30"
  by (rule ndigits_cert [where j = 29]) simp_all

lemma nm_f688 [simp]: "nmul 228473290522230 1000000000000000 = 228473290522230000000000000000"
  by (simp only: nmul_def arith_simps rel_simps numeral_times_numeral numeral_plus_numeral)

lemma nd_f689 [simp]: "ndiv 228473290522230999986410590200 1000000000000000 = 228473290522230 \<and> nmod 228473290522230999986410590200 1000000000000000 = 999986410590200"
  by (rule ndivmod_cert [where r = 999986410590200]) simp_all

lemma next_n10_3: "gl_next 15 \<lparr>a_n = \<lparr>coeff = 84721308483519, expo = (- 14)\<rparr>, b_n = \<lparr>coeff = 847213084752762, expo = (- 15)\<rparr>, t_n = \<lparr>coeff = 228473290522231, expo = (- 15)\<rparr>, p_n = \<lparr>coeff = 8, expo = 0\<rparr>\<rparr> = Inr \<lparr>a_n = \<lparr>coeff = 847213084793975, expo = (- 15)\<rparr>, b_n = \<lparr>coeff = 847213084793976, expo = (- 15)\<rparr>, t_n = \<lparr>coeff = 228473290522231, expo = (- 15)\<rparr>, p_n = \<lparr>coeff = 16, expo = 0\<rparr>\<rparr>"
  by (simp add: ev cong: let_weak_cong)

lemma conv_n10_3: "converged \<lparr>a_n = \<lparr>coeff = 84721308483519, expo = (- 14)\<rparr>, b_n = \<lparr>coeff = 847213084752762, expo = (- 15)\<rparr>, t_n = \<lparr>coeff = 228473290522231, expo = (- 15)\<rparr>, p_n = \<lparr>coeff = 8, expo = 0\<rparr>\<rparr> \<lparr>a_n = \<lparr>coeff = 847213084793975, expo = (- 15)\<rparr>, b_n = \<lparr>coeff = 847213084793976, expo = (- 15)\<rparr>, t_n = \<lparr>coeff = 228473290522231, expo = (- 15)\<rparr>, p_n = \<lparr>coeff = 16, expo = 0\<rparr>\<rparr> = False"
  by (simp add: ev cong: let_weak_cong)

lemma dg_f690 [simp]: "ndigits 1694426169587951 = 16"
  by (rule ndigits_cert [where j = 15]) simp_all

lemma nd_f691 [simp]: "ndiv 1694426169587951 10 = 169442616958795 \<and> nmod 1694426169587951 10 = 1"
  by (rule ndivmod_cert [where r = 1]) simp_all

lemma im_f692 [simp]: "imul 847213084793975 847213084793976 = 717770011046123920581281094600"
  by (simp only: imul_def arith_simps rel_simps numeral_times_numeral numeral_plus_numeral)

lemma dg_f693 [simp]: "ndigits 717770011046123920581281094600 = 30"
  by (rule ndigits_cert [where j = 29]) simp_all

lemma nm_f694 [simp]: "nmul 717770011046123 1000000000000000 = 717770011046123000000000000000"
  by (simp only: nmul_def arith_simps rel_simps numeral_times_numeral numeral_plus_numeral)

lemma nd_f695 [simp]: "ndiv 717770011046123920581281094600 1000000000000000 = 717770011046123 \<and> nmod 717770011046123920581281094600 1000000000000000 = 920581281094600"
  by (rule ndivmod_cert [where r = 920581281094600]) simp_all

lemma dg_f696 [simp]: "ndigits 717770011046124 = 15"
  by (rule ndigits_cert [where j = 14]) simp_all

lemma nm_f697 [simp]: "nmul 7177700110461240 10000000000000000 = 71777001104612400000000000000000"
  by (simp only: nmul_def arith_simps rel_simps numeral_times_numeral numeral_plus_numeral)

lemma nm_f698 [simp]: "nmul 8472130847939755 8472130847939755 = 71777001104612392058128109460025"
  by (simp only: nmul_def arith_simps rel_simps numeral_times_numeral numeral_plus_numeral)

lemma nm_f699 [simp]: "nmul 8472130847939756 8472130847939756 = 71777001104612409002389805339536"
  by (simp only: nmul_def arith_simps rel_simps numeral_times_numeral numeral_plus_numeral)

lemma sq_f700 [simp]: "sqrt_newton 71777001104612400000000000000000 10000000000000000 = 8472130847939755"
  by (rule sqrt_newton_cert' [where ?r1.0 = 8472130847939756]) simp_all

lemma nm_f701 [simp]: "nmul 1694426169587951 5 = 8472130847939755"
  by (simp only: nmul_def arith_simps rel_simps numeral_times_numeral numeral_plus_numeral)

lemma nd_f702 [simp]: "ndiv 8472130847939755 5 = 1694426169587951 \<and> nmod 8472130847939755 5 = 0"
  by (rule ndivmod_cert [where r = 0]) simp_all

lemma dg_f703 [simp]: "ndigits 8472130847939756 = 16"
  by (rule ndigits_cert [where j = 15]) simp_all

lemma nd_f704 [simp]: "ndiv 8472130847939756 10 = 847213084793975 \<and> nmod 8472130847939756 10 = 6"
  by (rule ndivmod_cert [where r = 6]) simp_all

lemma im_f705 [simp]: "imul 2 16 = 32"
  by (simp only: imul_def arith_simps rel_simps numeral_times_numeral numeral_plus_numeral)

lemma dg_f706 [simp]: "ndigits 32 = 2"
  by (rule ndigits_cert [where j = 1]) simp_all

lemma next_n10_4: "gl_next 15 \<lparr>a_n = \<lparr>coeff = 847213084793975, expo = (- 15)\<rparr>, b_n = \<lparr>coeff = 847213084793976, expo = (- 15)\<rparr>, t_n = \<lparr>coeff = 228473290522231, expo = (- 15)\<rparr>, p_n = \<lparr>coeff = 16, expo = 0\<rparr>\<rparr> = Inr \<lparr>a_n = \<lparr>coeff = 847213084793975, expo = (- 15)\<rparr>, b_n = \<lparr>coeff = 847213084793976, expo = (- 15)\<rparr>, t_n = \<lparr>coeff = 228473290522231, expo = (- 15)\<rparr>, p_n = \<lparr>coeff = 32, expo = 0\<rparr>\<rparr>"
  by (simp add: ev cong: let_weak_cong)

lemma conv_n10_4: "converged \<lparr>a_n = \<lparr>coeff = 847213084793975, expo = (- 15)\<rparr>, b_n = \<lparr>coeff = 847213084793976, expo = (- 15)\<rparr>, t_n = \<lparr>coeff = 228473290522231, expo = (- 15)\<rparr>, p_n = \<lparr>coeff = 16, expo = 0\<rparr>\<rparr> \<lparr>a_n = \<lparr>coeff = 847213084793975, expo = (- 15)\<rparr>, b_n = \<lparr>coeff = 847213084793976, expo = (- 15)\<rparr>, t_n = \<lparr>coeff = 228473290522231, expo = (- 15)\<rparr>, p_n = \<lparr>coeff = 32, expo = 0\<rparr>\<rparr> = True"
  by (simp add: ev cong: let_weak_cong)

lemma loop_n10: "gl_loop 15 \<lparr>a_n = \<lparr>coeff = 1, expo = 0\<rparr>, b_n = \<lparr>coeff = 707106781186545, expo = (- 15)\<rparr>, t_n = \<lparr>coeff = 25, expo = (- 2)\<rparr>, p_n = \<lparr>coeff = 1, expo = 0\<rparr>\<rparr> = Some (Inr \<lparr>a_n = \<lparr>coeff = 847213084793975, expo = (- 15)\<rparr>, b_n = \<lparr>coeff = 847213084793976, expo = (- 15)\<rparr>, t_n = \<lparr>coeff = 228473290522231, expo = (- 15)\<rparr>, p_n = \<lparr>coeff = 16, expo = 0\<rparr>\<rparr>)"
  apply (subst gl_loop.simps, simp add: next_n10_0 conv_n10_0)
  apply (subst gl_loop.simps, simp add: next_n10_1 conv_n10_1)
  apply (subst gl_loop.simps, simp add: next_n10_2 conv_n10_2)
  apply (subst gl_loop.simps, simp add: next_n10_3 conv_n10_3)
  apply (subst gl_loop.simps, simp add: next_n10_4 conv_n10_4)
  done

lemma im_f707 [simp]: "imul 169442616958795 169442616958795 = 28710800441844922934727852025"
  by (simp only: imul_def arith_simps rel_simps numeral_times_numeral numeral_plus_numeral)

lemma dg_f708 [simp]: "ndigits 28710800441844922934727852025 = 29"
  by (rule ndigits_cert [where j = 28]) simp_all

lemma nm_f709 [simp]: "nmul 287108004418449229 100000000000 = 28710800441844922900000000000"
  by (simp only: nmul_def arith_simps rel_simps numeral_times_numeral numeral_plus_numeral)

lemma nd_f710 [simp]: "ndiv 28710800441844922934727852025 100000000000 = 287108004418449229 \<and> nmod 28710800441844922934727852025 100000000000 = 34727852025"
  by (rule ndivmod_cert [where r = 34727852025]) simp_all

lemma dg_f711 [simp]: "ndigits 287108004418449229 = 18"
  by (rule ndigits_cert [where j = 17]) simp_all

lemma nm_f712 [simp]: "nmul 287108004418449 1000 = 287108004418449000"
  by (simp only: nmul_def arith_simps rel_simps numeral_times_numeral numeral_plus_numeral)

lemma nd_f713 [simp]: "ndiv 287108004418449229 1000 = 287108004418449 \<and> nmod 287108004418449229 1000 = 229"
  by (rule ndivmod_cert [where r = 229]) simp_all

lemma dg_f714 [simp]: "ndigits 287108004418449 = 15"
  by (rule ndigits_cert [where j = 14]) simp_all

lemma im_f715 [simp]: "imul 4 228473290522231 = 913893162088924"
  by (simp only: imul_def arith_simps rel_simps numeral_times_numeral numeral_plus_numeral)

lemma dg_f716 [simp]: "ndigits 913893162088924 = 15"
  by (rule ndigits_cert [where j = 14]) simp_all

lemma nm_f717 [simp]: "nmul 287108004418449 10000000000000000 = 2871080044184490000000000000000"
  by (simp only: nmul_def arith_simps rel_simps numeral_times_numeral numeral_plus_numeral)

lemma nm_f718 [simp]: "nmul 3141592653589771 913893162088924 = 2871080044184489455173718796404"
  by (simp only: nmul_def arith_simps rel_simps numeral_times_numeral numeral_plus_numeral)

lemma nd_f719 [simp]: "ndiv 2871080044184490000000000000000 913893162088924 = 3141592653589771 \<and> nmod 2871080044184490000000000000000 913893162088924 = 544826281203596"
  by (rule ndivmod_cert [where r = 544826281203596]) simp_all

lemma nm_f720 [simp]: "nmul 628318530717954 5 = 3141592653589770"
  by (simp only: nmul_def arith_simps rel_simps numeral_times_numeral numeral_plus_numeral)

lemma nd_f721 [simp]: "ndiv 3141592653589771 5 = 628318530717954 \<and> nmod 3141592653589771 5 = 1"
  by (rule ndivmod_cert [where r = 1]) simp_all

lemma dg_f722 [simp]: "ndigits 3141592653589771 = 16"
  by (rule ndigits_cert [where j = 15]) simp_all

lemma nm_f723 [simp]: "nmul 314159265358977 10 = 3141592653589770"
  by (simp only: nmul_def arith_simps rel_simps numeral_times_numeral numeral_plus_numeral)

lemma nd_f724 [simp]: "ndiv 3141592653589771 10 = 314159265358977 \<and> nmod 3141592653589771 10 = 1"
  by (rule ndivmod_cert [where r = 1]) simp_all

lemma dg_f725 [simp]: "ndigits 314159265358977 = 15"
  by (rule ndigits_cert [where j = 14]) simp_all

lemma value_n10: "pi_value 15 \<lparr>a_n = \<lparr>coeff = 847213084793975, expo = (- 15)\<rparr>, b_n = \<lparr>coeff = 847213084793976, expo = (- 15)\<rparr>, t_n = \<lparr>coeff = 228473290522231, expo = (- 15)\<rparr>, p_n = \<lparr>coeff = 16, expo = 0\<rparr>\<rparr> = Inr \<lparr>coeff = 314159265358977, expo = (- 14)\<rparr>"
  by (simp add: ev cong: let_weak_cong)

lemma nm_f726 [simp]: "nmul 31415926535 10000 = 314159265350000"
  by (simp only: nmul_def arith_simps rel_simps numeral_times_numeral numeral_plus_numeral)

lemma nd_f727 [simp]: "ndiv 314159265358977 10000 = 31415926535 \<and> nmod 314159265358977 10000 = 8977"
  by (rule ndivmod_cert [where r = 8977]) simp_all

lemma dg_f728 [simp]: "ndigits 31415926535 = 11"
  by (rule ndigits_cert [where j = 10]) simp_all

lemma quant_n10: "quantize_down 15 \<lparr>coeff = 314159265358977, expo = (- 14)\<rparr> (- 10) = Inr \<lparr>coeff = 31415926535, expo = (- 10)\<rparr>"
  by (simp add: ev cong: let_weak_cong)

lemma compute_n10: "compute_pi 15 10 = Some (Inr \<lparr>coeff = 31415926535, expo = (- 10)\<rparr>)"
  by (simp add: compute_pi_def init_n10 loop_n10 value_n10 quant_n10)

lemma calc_n10: "calculate_pi (PyInt 10) c = Some (Inr \<lparr>coeff = 31415926535, expo = (- 10)\<rparr>, c\<lparr>prec := 15\<rparr>)"
  by (simp add: calculate_pi_def py_int_def MAX_DIGITS_def compute_n10)

lemma strnat_n10: "str_nat 31415926535 = ''31415926535''"
  by (rule str_nat_cert) (simp_all add: digits_val_def digit_val_def is_digit_def)

lemma str_n10: "str_decimal \<lparr>coeff = 31415926535, expo = (- 10)\<rparr> = ''3.1415926535''"
  by (simp add: str_decimal_def Let_def strnat_n10)

lemma printed_n10: "printed (calculate_pi (PyInt 10) c) = Some (Inr ''3.1415926535'')"
  by (simp add: printed_def calc_n10 str_n10)

lemma p10_f729 [simp]: "npow10 31 = 10000000000000000000000000000000"
  by (rule npow10_next [OF p10_f509]) simp_all

lemma p10_f730 [simp]: "npow10 32 = 100000000000000000000000000000000"
  by (rule npow10_next [OF p10_f729]) simp_all

lemma p10_f731 [simp]: "npow10 33 = 1000000000000000000000000000000000"
  by (rule npow10_next [OF p10_f730]) simp_all

lemma p10_f732 [simp]: "npow10 34 = 10000000000000000000000000000000000"
  by (rule npow10_next [OF p10_f731]) simp_all

lemma p10_f733 [simp]: "npow10 35 = 100000000000000000000000000000000000"
  by (rule npow10_next [OF p10_f732]) simp_all

lemma p10_f734 [simp]: "npow10 36 = 1000000000000000000000000000000000000"
  by (rule npow10_next [OF p10_f733]) simp_all

lemma p10_f735 [simp]: "npow10 37 = 10000000000000000000000000000000000000"
  by (rule npow10_next [OF p10_f734]) simp_all

lemma p10_f736 [simp]: "npow10 38 = 100000000000000000000000000000000000000"
  by (rule npow10_next [OF p10_f735]) simp_all

lemma p10_f737 [simp]: "npow10 39 = 1000000000000000000000000000000000000000"
  by (rule npow10_next [OF p10_f736]) simp_all

lemma p10_f738 [simp]: "npow10 40 = 10000000000000000000000000000000000000000"
  by (rule npow10_next [OF p10_f737]) simp_all

lemma p10_f739 [simp]: "npow10 41 = 100000000000000000000000000000000000000000"
  by (rule npow10_next [OF p10_f738]) simp_all

lemma p10_f740 [simp]: "npow10 42 = 1000000000000000000000000000000000000000000"
  by (rule npow10_next [OF p10_f739]) simp_all

lemma p10_f741 [simp]: "npow10 43 = 10000000000000000000000000000000000000000000"
  by (rule npow10_next [OF p10_f740]) simp_all

lemma p10_f742 [simp]: "npow10 44 = 100000000000000000000000000000000000000000000"
  by (rule npow10_next [OF p10_f741]) simp_all

lemma p10_f743 [simp]: "npow10 45 = 1000000000000000000000000000000000000000000000"
  by (rule npow10_next [OF p10_f742]) simp_all

lemma p10_f744 [simp]: "npow10 46 = 10000000000000000000000000000000000000000000000"
  by (rule npow10_next [OF p10_f743]) simp_all

lemma p10_f745 [simp]: "npow10 47 = 100000000000000000000000000000000000000000000000"
  by (rule npow10_next [OF p10_f744]) simp_all

lemma p10_f746 [simp]: "npow10 48 = 1000000000000000000000000000000000000000000000000"
  by (rule npow10_next [OF p10_f745]) simp_all

lemma p10_f747 [simp]: "npow10 49 = 10000000000000000000000000000000000000000000000000"
  by (rule npow10_next [OF p10_f746]) simp_all

lemma p10_f748 [simp]: "npow10 50 = 100000000000000000000000000000000000000000000000000"
  by (rule npow10_next [OF p10_f747]) simp_all

lemma p10_f749 [simp]: "npow10 51 = 1000000000000000000000000000000000000000000000000000"
  by (rule npow10_next [OF p10_f748]) simp_all

lemma p10_f750 [simp]: "npow10 52 = 10000000000000000000000000000000000000000000000000000"
  by (rule npow10_next [OF p10_f749]) simp_all

lemma p10_f751 [simp]: "npow10 53 = 100000000000000000000000000000000000000000000000000000"
  by (rule npow10_next [OF p10_f750]) simp_all

lemma p10_f752 [simp]: "npow10 54 = 1000000000000000000000000000000000000000000000000000000"
  by (rule npow10_next [OF p10_f751]) simp_all

lemma p10_f753 [simp]: "npow10 55 = 10000000000000000000000000000000000000000000000000000000"
  by (rule npow10_next [OF p10_f752]) simp_all

lemma p10_f754 [simp]: "npow10 56 = 100000000000000000000000000000000000000000000000000000000"
  by (rule npow10_next [OF p10_f753]) simp_all

lemma p10_f755 [simp]: "npow10 57 = 1000000000000000000000000000000000000000000000000000000000"
  by (rule npow10_next [OF p10_f754]) simp_all

lemma p10_f756 [simp]: "npow10 58 = 10000000000000000000000000000000000000000000000000000000000"
  by (rule npow10_next [OF p10_f755]) simp_all

lemma p10_f757 [simp]: "npow10 59 = 100000000000000000000000000000000000000000000000000000000000"
  by (rule npow10_next [OF p10_f756]) simp_all

lemma p10_f758 [simp]: "npow10 60 = 1000000000000000000000000000000000000000000000000000000000000"
  by (rule npow10_next [OF p10_f757]) simp_all

lemma p10_f759 [simp]: "npow10 61 = 10000000000000000000000000000000000000000000000000000000000000"
  by (rule npow10_next [OF p10_f758]) simp_all

lemma p10_f760 [simp]: "npow10 62 = 100000000000000000000000000000000000000000000000000000000000000"
  by (rule npow10_next [OF p10_f759]) simp_all

lemma p10_f761 [simp]: "npow10 63 = 1000000000000000000000000000000000000000000000000000000000000000"
  by (rule npow10_next [OF p10_f760]) simp_all

lemma p10_f762 [simp]: "npow10 64 = 10000000000000000000000000000000000000000000000000000000000000000"
  by (rule npow10_next [OF p10_f761]) simp_all

lemma p10_f763 [simp]: "npow10 65 = 100000000000000000000000000000000000000000000000000000000000000000"
  by (rule npow10_next [OF p10_f762]) simp_all

lemma p10_f764 [simp]: "npow10 66 = 1000000000000000000000000000000000000000000000000000000000000000000"
  by (rule npow10_next [OF p10_f763]) simp_all

lemma p10_f765 [simp]: "npow10 67 = 10000000000000000000000000000000000000000000000000000000000000000000"
  by (rule npow10_next [OF p10_f764]) simp_all

lemma p10_f766 [simp]: "npow10 68 = 100000000000000000000000000000000000000000000000000000000000000000000"
  by (rule npow10_next [OF p10_f765]) simp_all

lemma p10_f767 [simp]: "npow10 69 = 1000000000000000000000000000000000000000000000000000000000000000000000"
  by (rule npow10_next [OF p10_f766]) simp_all

lemma p10_f768 [simp]: "npow10 70 = 10000000000000000000000000000000000000000000000000000000000000000000000"
  by (rule npow10_next [OF p10_f767]) simp_all

lemma p10_f769 [simp]: "npow10 71 = 100000000000000000000000000000000000000000000000000000000000000000000000"
  by (rule npow10_next [OF p10_f768]) simp_all

lemma p10_f770 [simp]: "npow10 72 = 1000000000000000000000000000000000000000000000000000000000000000000000000"
  by (rule npow10_next [OF p10_f769]) simp_all

lemma p10_f771 [simp]: "npow10 73 = 10000000000000000000000000000000000000000000000000000000000000000000000000"
  by (rule npow10_next [OF p10_f770]) simp_all

lemma p10_f772 [simp]: "npow10 74 = 100000000000000000000000000000000000000000000000000000000000000000000000000"
  by (rule npow10_next [OF p10_f771]) simp_all

lemma p10_f773 [simp]: "npow10 75 = 1000000000000000000000000000000000000000000000000000000000000000000000000000"
  by (rule npow10_next [OF p10_f772]) simp_all

lemma p10_f774 [simp]: "npow10 76 = 10000000000000000000000000000000000000000000000000000000000000000000000000000"
  by (rule npow10_next [OF p10_f773]) simp_all

lemma p10_f775 [simp]: "npow10 77 = 100000000000000000000000000000000000000000000000000000000000000000000000000000"
  by (rule npow10_next [OF p10_f774]) simp_all

lemma p10_f776 [simp]: "npow10 78 = 1000000000000000000000000000000000000000000000000000000000000000000000000000000"
  by (rule npow10_next [OF p10_f775]) simp_all

lemma p10_f777 [simp]: "npow10 79 = 10000000000000000000000000000000000000000000000000000000000000000000000000000000"
  by (rule npow10_next [OF p10_f776]) simp_all

lemma p10_f778 [simp]: "npow10 80 = 100000000000000000000000000000000000000000000000000000000000000000000000000000000"
  by (rule npow10_next [OF p10_f777]) simp_all

lemma p10_f779 [simp]: "npow10 81 = 1000000000000000000000000000000000000000000000000000000000000000000000000000000000"
  by (rule npow10_next [OF p10_f778]) simp_all

lemma p10_f780 [simp]: "npow10 82 = 10000000000000000000000000000000000000000000000000000000000000000000000000000000000"
  by (rule npow10_next [OF p10_f779]) simp_all

lemma p10_f781 [simp]: "npow10 83 = 100000000000000000000000000000000000000000000000000000000000000000000000000000000000"
  by (rule npow10_next [OF p10_f780]) simp_all

lemma p10_f782 [simp]: "npow10 84 = 1000000000000000000000000000000000000000000000000000000000000000000000000000000000000"
  by (rule npow10_next [OF p10_f781]) simp_all

lemma p10_f783 [simp]: "npow10 85 = 10000000000000000000000000000000000000000000000000000000000000000000000000000000000000"
  by (rule npow10_next [OF p10_f782]) simp_all

lemma p10_f784 [simp]: "npow10 86 = 100000000000000000000000000000000000000000000000000000000000000000000000000000000000000"
  by (rule npow10_next [OF p10_f783]) simp_all

lemma p10_f785 [simp]: "npow10 87 = 1000000000000000000000000000000000000000000000000000000000000000000000000000000000000000"
  by (rule npow10_next [OF p10_f784]) simp_all

lemma p10_f786 [simp]: "npow10 88 = 10000000000000000000000000000000000000000000000000000000000000000000000000000000000000000"
  by (rule npow10_next [OF p10_f785]) simp_all

lemma p10_f787 [simp]: "npow10 89 = 100000000000000000000000000000000000000000000000000000000000000000000000000000000000000000"
  by (rule npow10_next [OF p10_f786]) simp_all

lemma p10_f788 [simp]: "npow10 90 = 1000000000000000000000000000000000000000000000000000000000000000000000000000000000000000000"
  by (rule npow10_next [OF p10_f787]) simp_all

lemma p10_f789 [simp]: "npow10 91 = 10000000000000000000000000000000000000000000000000000000000000000000000000000000000000000000"
  by (rule npow10_next [OF p10_f788]) simp_all

lemma p10_f790 [simp]: "npow10 92 = 100000000000000000000000000000000000000000000000000000000000000000000000000000000000000000000"
  by (rule npow10_next [OF p10_f789]) simp_all

lemma p10_f791 [simp]: "npow10 93 = 1000000000000000000000000000000000000000000000000000000000000000000000000000000000000000000000"
  by (rule npow10_next [OF p10_f790]) simp_all

lemma p10_f792 [simp]: "npow10 94 = 10000000000000000000000000000000000000000000000000000000000000000000000000000000000000000000000"
  by (rule npow10_next [OF p10_f791]) simp_all

lemma p10_f793 [simp]: "npow10 95 = 100000000000000000000000000000000000000000000000000000000000000000000000000000000000000000000000"
  by (rule npow10_next [OF p10_f792]) simp_all

lemma p10_f794 [simp]: "npow10 96 = 1000000000000000000000000000000000000000000000000000000000000000000000000000000000000000000000000"
  by (rule npow10_next [OF p10_f793]) simp_all

lemma p10_f795 [simp]: "npow10 97 = 10000000000000000000000000000000000000000000000000000000000000000000000000000000000000000000000000"
  by (rule npow10_next [OF p10_f794]) simp_all

lemma p10_f796 [simp]: "npow10 98 = 100000000000000000000000000000000000000000000000000000000000000000000000000000000000000000000000000"
  by (rule npow10_next [OF p10_f795]) simp_all

lemma p10_f797 [simp]: "npow10 99 = 1000000000000000000000000000000000000000000000000000000000000000000000000000000000000000000000000000"
  by (rule npow10_next [OF p10_f796]) simp_all

lemma p10_f798 [simp]: "npow10 100 = 10000000000000000000000000000000000000000000000000000000000000000000000000000000000000000000000000000"
  by (rule npow10_next [OF p10_f797]) simp_all

lemma p10_f799 [simp]: "npow10 101 = 100000000000000000000000000000000000000000000000000000000000000000000000000000000000000000000000000000"
  by (rule npow10_next [OF p10_f798]) simp_all

lemma p10_f800 [simp]: "npow10 102 = 1000000000000000000000000000000000000000000000000000000000000000000000000000000000000000000000000000000"
  by (rule npow10_next [OF p10_f799]) simp_all

lemma p10_f801 [simp]: "npow10 103 = 10000000000000000000000000000000000000000000000000000000000000000000000000000000000000000000000000000000"
  by (rule npow10_next [OF p10_f800]) simp_all

lemma p10_f802 [simp]: "npow10 104 = 100000000000000000000000000000000000000000000000000000000000000000000000000000000000000000000000000000000"
  by (rule npow10_next [OF p10_f801]) simp_all

lemma p10_f803 [simp]: "npow10 105 = 1000000000000000000000000000000000000000000000000000000000000000000000000000000000000000000000000000000000"
  by (rule npow10_next [OF p10_f802]) simp_all

lemma p10_f804 [simp]: "npow10 106 = 10000000000000000000000000000000000000000000000000000000000000000000000000000000000000000000000000000000000"
  by (rule npow10_next [OF p10_f803]) simp_all

lemma p10_f805 [simp]: "npow10 107 = 100000000000000000000000000000000000000000000000000000000000000000000000000000000000000000000000000000000000"
  by (rule npow10_next [OF p10_f804]) simp_all

lemma p10_f806 [simp]: "npow10 108 = 1000000000000000000000000000000000000000000000000000000000000000000000000000000000000000000000000000000000000"
  by (rule npow10_next [OF p10_f805]) simp_all

lemma p10_f807 [simp]: "npow10 109 = 10000000000000000000000000000000000000000000000000000000000000000000000000000000000000000000000000000000000000"
  by (rule npow10_next [OF p10_f806]) simp_all

lemma p10_f808 [simp]: "npow10 110 = 100000000000000000000000000000000000000000000000000000000000000000000000000000000000000000000000000000000000000"
  by (rule npow10_next [OF p10_f807]) simp_all

lemma nm_f809 [simp]: "nmul 2 100000000000000000000000000000000000000000000000000000000000000000000000000000000000000000000000000000000000000 = 200000000000000000000000000000000000000000000000000000000000000000000000000000000000000000000000000000000000000"
  by (simp only: nmul_def arith_simps rel_simps numeral_times_numeral numeral_plus_numeral)

lemma nm_f810 [simp]: "nmul 14142135623730950488016887242096980785696718753769480731 14142135623730950488016887242096980785696718753769480731 = 199999999999999999999999999999999999999999999999999999978311694914858133611452456726523605990311797481380294361"
  by (simp only: nmul_def arith_simps rel_simps numeral_times_numeral numeral_plus_numeral)

lemma nm_f811 [simp]: "nmul 14142135623730950488016887242096980785696718753769480732 14142135623730950488016887242096980785696718753769480732 = 200000000000000000000000000000000000000000000000000000006595966162320034587486231210717567561705234988919255824"
  by (simp only: nmul_def arith_simps rel_simps numeral_times_numeral numeral_plus_numeral)

lemma sq_f812 [simp]: "sqrt_newton 200000000000000000000000000000000000000000000000000000000000000000000000000000000000000000000000000000000000000 100000000000000000000000000000000000000000000000000000000 = 14142135623730950488016887242096980785696718753769480731"
  by (rule sqrt_newton_cert' [where ?r1.0 = 14142135623730950488016887242096980785696718753769480732]) simp_all

lemma nm_f813 [simp]: "nmul 2828427124746190097603377448419396157139343750753896146 5 = 14142135623730950488016887242096980785696718753769480730"
  by (simp only: nmul_def arith_simps rel_simps numeral_times_numeral numeral_plus_numeral)

lemma nd_f814 [simp]: "ndiv 14142135623730950488016887242096980785696718753769480731 5 = 2828427124746190097603377448419396157139343750753896146 \<and> nmod 14142135623730950488016887242096980785696718753769480731 5 = 1"
  by (rule ndivmod_cert [where r = 1]) simp_all

lemma dg_f815 [simp]: "ndigits 14142135623730950488016887242096980785696718753769480731 = 56"
  by (rule ndigits_cert [where j = 55]) simp_all

lemma nm_f816 [simp]: "nmul 1414213562373095048801688724209698078569671875376948073 10 = 14142135623730950488016887242096980785696718753769480730"
  by (simp only: nmul_def arith_simps rel_simps numeral_times_numeral numeral_plus_numeral)

lemma nd_f817 [simp]: "ndiv 14142135623730950488016887242096980785696718753769480731 10 = 1414213562373095048801688724209698078569671875376948073 \<and> nmod 14142135623730950488016887242096980785696718753769480731 10 = 1"
  by (rule ndivmod_cert [where r = 1]) simp_all

lemma dg_f818 [simp]: "ndigits 1414213562373095048801688724209698078569671875376948073 = 55"
  by (rule ndigits_cert [where j = 54]) simp_all

lemma nm_f819 [simp]: "nmul 70710678118654752440084436210484903928483593768847403667 1414213562373095048801688724209698078569671875376948073 = 99999999999999999999999999999999999999999999999999999999055342394040732147338049432729689545143601868328783691"
  by (simp only: nmul_def arith_simps rel_simps numeral_times_numeral numeral_plus_numeral)

lemma nd_f820 [simp]: "ndiv 100000000000000000000000000000000000000000000000000000000000000000000000000000000000000000000000000000000000000 1414213562373095048801688724209698078569671875376948073 = 70710678118654752440084436210484903928483593768847403667 \<and> nmod 100000000000000000000000000000000000000000000000000000000000000000000000000000000000000000000000000000000000000 1414213562373095048801688724209698078569671875376948073 = 944657605959267852661950567270310454856398131671216309"
  by (rule ndivmod_cert [where r = 944657605959267852661950567270310454856398131671216309]) simp_all

lemma nm_f821 [simp]: "nmul 14142135623730950488016887242096980785696718753769480733 5 = 70710678118654752440084436210484903928483593768847403665"
  by (simp only: nmul_def arith_simps rel_simps numeral_times_numeral numeral_plus_numeral)

lemma nd_f822 [simp]: "ndiv 70710678118654752440084436210484903928483593768847403667 5 = 14142135623730950488016887242096980785696718753769480733 \<and> nmod 70710678118654752440084436210484903928483593768847403667 5 = 2"
  by (rule ndivmod_cert [where r = 2]) simp_all

lemma dg_f823 [simp]: "ndigits 70710678118654752440084436210484903928483593768847403667 = 56"
  by (rule ndigits_cert [where j = 55]) simp_all

lemma nm_f824 [simp]: "nmul 7071067811865475244008443621048490392848359376884740366 10 = 70710678118654752440084436210484903928483593768847403660"
  by (simp only: nmul_def arith_simps rel_simps numeral_times_numeral numeral_plus_numeral)

lemma nd_f825 [simp]: "ndiv 70710678118654752440084436210484903928483593768847403667 10 = 7071067811865475244008443621048490392848359376884740366 \<and> nmod 70710678118654752440084436210484903928483593768847403667 10 = 7"
  by (rule ndivmod_cert [where r = 7]) simp_all

lemma dg_f826 [simp]: "ndigits 7071067811865475244008443621048490392848359376884740367 = 55"
  by (rule ndigits_cert [where j = 54]) simp_all

lemma nm_f827 [simp]: "nmul 25000000000000000000000000000000000000000000000000000000 4 = 100000000000000000000000000000000000000000000000000000000"
  by (simp only: nmul_def arith_simps rel_simps numeral_times_numeral numeral_plus_numeral)

lemma nd_f828 [simp]: "ndiv 100000000000000000000000000000000000000000000000000000000 4 = 25000000000000000000000000000000000000000000000000000000 \<and> nmod 100000000000000000000000000000000000000000000000000000000 4 = 0"
  by (rule ndivmod_cert [where r = 0]) simp_all

lemma nm_f829 [simp]: "nmul 25 1000000000000000000000000000000000000000000000000000000 = 25000000000000000000000000000000000000000000000000000000"
  by (simp only: nmul_def arith_simps rel_simps numeral_times_numeral numeral_plus_numeral)

lemma sz_f830 [simp]: "strip_zeros 25000000000000000000000000000000000000000000000000000000 (- 56) 0 = (25, (- 2))"
  by (rule strip_zeros_cert [where j = 54]) simp_all

lemma init_n50: "gl_init 55 = Inr \<lparr>a_n = \<lparr>coeff = 1, expo = 0\<rparr>, b_n = \<lparr>coeff = 7071067811865475244008443621048490392848359376884740367, expo = (- 55)\<rparr>, t_n = \<lparr>coeff = 25, expo = (- 2)\<rparr>, p_n = \<lparr>coeff = 1, expo = 0\<rparr>\<rparr>"
  by (simp add: ev cong: let_weak_cong)

lemma ip10_f831 [simp]: "ipow10 55 = 10000000000000000000000000000000000000000000000000000000"
  by (rule ipow10_of [OF p10_f753]) simp

lemma dg_f832 [simp]: "ndigits 17071067811865475244008443621048490392848359376884740367 = 56"
  by (rule ndigits_cert [where j = 55]) simp_all

lemma nm_f833 [simp]: "nmul 1707106781186547524400844362104849039284835937688474036 10 = 17071067811865475244008443621048490392848359376884740360"
  by (simp only: nmul_def arith_simps rel_simps numeral_times_numeral numeral_plus_numeral)

lemma nd_f834 [simp]: "ndiv 17071067811865475244008443621048490392848359376884740367 10 = 1707106781186547524400844362104849039284835937688474036 \<and> nmod 17071067811865475244008443621048490392848359376884740367 10 = 7"
  by (rule ndivmod_cert [where r = 7]) simp_all

lemma dg_f835 [simp]: "ndigits 1707106781186547524400844362104849039284835937688474037 = 55"
  by (rule ndigits_cert [where j = 54]) simp_all

lemma nm_f836 [simp]: "nmul 1707106781186547524400844362104849039284835937688474037 100 = 170710678118654752440084436210484903928483593768847403700"
  by (simp only: nmul_def arith_simps rel_simps numeral_times_numeral numeral_plus_numeral)

lemma nm_f837 [simp]: "nmul 85355339059327376220042218105242451964241796884423701850 2 = 170710678118654752440084436210484903928483593768847403700"
  by (simp only: nmul_def arith_simps rel_simps numeral_times_numeral numeral_plus_numeral)

lemma nd_f838 [simp]: "ndiv 170710678118654752440084436210484903928483593768847403700 2 = 85355339059327376220042218105242451964241796884423701850 \<and> nmod 170710678118654752440084436210484903928483593768847403700 2 = 0"
  by (rule ndivmod_cert [where r = 0]) simp_all

lemma nm_f839 [simp]: "nmul 8535533905932737622004221810524245196424179688442370185 10 = 85355339059327376220042218105242451964241796884423701850"
  by (simp only: nmul_def arith_simps rel_simps numeral_times_numeral numeral_plus_numeral)

lemma nm_f840 [simp]: "nmul 853553390593273762200422181052424519642417968844237018 10 = 8535533905932737622004221810524245196424179688442370180"
  by (simp only: nmul_def arith_simps rel_simps numeral_times_numeral numeral_plus_numeral)

lemma nd_f841 [simp]: "ndiv 8535533905932737622004221810524245196424179688442370185 10 = 853553390593273762200422181052424519642417968844237018 \<and> nmod 8535533905932737622004221810524245196424179688442370185 10 = 5"
  by (rule ndivmod_cert [where r = 5]) simp_all

lemma sz_f842 [simp]: "strip_zeros 85355339059327376220042218105242451964241796884423701850 (- 56) (- 54) = (8535533905932737622004221810524245196424179688442370185, (- 55))"
  by (rule strip_zeros_cert [where j = 1]) simp_all

lemma dg_f843 [simp]: "ndigits 8535533905932737622004221810524245196424179688442370185 = 55"
  by (rule ndigits_cert [where j = 54]) simp_all

lemma nm_f844 [simp]: "nmul 70710678118654752440084436210484903928483593768847403670 100000000000000000000000000000000000000000000000000000000 = 7071067811865475244008443621048490392848359376884740367000000000000000000000000000000000000000000000000000000000"
  by (simp only: nmul_def arith_simps rel_simps numeral_times_numeral numeral_plus_numeral)

lemma nm_f845 [simp]: "nmul 84089641525371454303112547623321489504003426235678451087 84089641525371454303112547623321489504003426235678451087 = 7071067811865475244008443621048490392848359376884740366838218305625829618659944948827986705987180430767451481569"
  by (simp only: nmul_def arith_simps rel_simps numeral_times_numeral numeral_plus_numeral)

lemma nm_f846 [simp]: "nmul 84089641525371454303112547623321489504003426235678451088 84089641525371454303112547623321489504003426235678451088 = 7071067811865475244008443621048490392848359376884740367006397588676572527266170044074629684995187283238808383744"
  by (simp only: nmul_def arith_simps rel_simps numeral_times_numeral numeral_plus_numeral)

lemma sq_f847 [simp]: "sqrt_newton 7071067811865475244008443621048490392848359376884740367000000000000000000000000000000000000000000000000000000000 100000000000000000000000000000000000000000000000000000000 = 84089641525371454303112547623321489504003426235678451087"
  by (rule sqrt_newton_cert' [where ?r1.0 = 84089641525371454303112547623321489504003426235678451088]) simp_all

lemma nm_f848 [simp]: "nmul 16817928305074290860622509524664297900800685247135690217 5 = 84089641525371454303112547623321489504003426235678451085"
  by (simp only: nmul_def arith_simps rel_simps numeral_times_numeral numeral_plus_numeral)

lemma nd_f849 [simp]: "ndiv 84089641525371454303112547623321489504003426235678451087 5 = 16817928305074290860622509524664297900800685247135690217 \<and> nmod 84089641525371454303112547623321489504003426235678451087 5 = 2"
  by (rule ndivmod_cert [where r = 2]) simp_all

lemma dg_f850 [simp]: "ndigits 84089641525371454303112547623321489504003426235678451087 = 56"
  by (rule ndigits_cert [where j = 55]) simp_all

lemma nm_f851 [simp]: "nmul 8408964152537145430311254762332148950400342623567845108 10 = 84089641525371454303112547623321489504003426235678451080"
  by (simp only: nmul_def arith_simps rel_simps numeral_times_numeral numeral_plus_numeral)

lemma nd_f852 [simp]: "ndiv 84089641525371454303112547623321489504003426235678451087 10 = 8408964152537145430311254762332148950400342623567845108 \<and> nmod 84089641525371454303112547623321489504003426235678451087 10 = 7"
  by (rule ndivmod_cert [where r = 7]) simp_all

lemma dg_f853 [simp]: "ndigits 8408964152537145430311254762332148950400342623567845109 = 55"
  by (rule ndigits_cert [where j = 54]) simp_all

lemma dg_f854 [simp]: "ndigits 1464466094067262377995778189475754803575820311557629815 = 55"
  by (rule ndigits_cert [where j = 54]) simp_all

lemma im_f855 [simp]: "imul 1464466094067262377995778189475754803575820311557629815 1464466094067262377995778189475754803575820311557629815 = 2144660940672623779957781894757548035758203115576298164554383508875952649734776692766828758303295940576934225"
  by (simp only: imul_def arith_simps rel_simps numeral_times_numeral numeral_plus_numeral)

lemma dg_f856 [simp]: "ndigits 2144660940672623779957781894757548035758203115576298164554383508875952649734776692766828758303295940576934225 = 109"
  by (rule ndigits_cert [where j = 108]) simp_all

lemma nm_f857 [simp]: "nmul 2144660940672623779957781894757548035758203115576298164554 1000000000000000000000000000000000000000000000000000 = 2144660940672623779957781894757548035758203115576298164554000000000000000000000000000000000000000000000000000"
  by (simp only: nmul_def arith_simps rel_simps numeral_times_numeral numeral_plus_numeral)

lemma nd_f858 [simp]: "ndiv 2144660940672623779957781894757548035758203115576298164554383508875952649734776692766828758303295940576934225 1000000000000000000000000000000000000000000000000000 = 2144660940672623779957781894757548035758203115576298164554 \<and> nmod 2144660940672623779957781894757548035758203115576298164554383508875952649734776692766828758303295940576934225 1000000000000000000000000000000000000000000000000000 = 383508875952649734776692766828758303295940576934225"
  by (rule ndivmod_cert [where r = 383508875952649734776692766828758303295940576934225]) simp_all

lemma dg_f859 [simp]: "ndigits 2144660940672623779957781894757548035758203115576298164554 = 58"
  by (rule ndigits_cert [where j = 57]) simp_all

lemma nm_f860 [simp]: "nmul 2144660940672623779957781894757548035758203115576298164 1000 = 2144660940672623779957781894757548035758203115576298164000"
  by (simp only: nmul_def arith_simps rel_simps numeral_times_numeral numeral_plus_numeral)

lemma nd_f861 [simp]: "ndiv 2144660940672623779957781894757548035758203115576298164554 1000 = 2144660940672623779957781894757548035758203115576298164 \<and> nmod 2144660940672623779957781894757548035758203115576298164554 1000 = 554"
  by (rule ndivmod_cert [where r = 554]) simp_all

lemma dg_f862 [simp]: "ndigits 2144660940672623779957781894757548035758203115576298165 = 55"
  by (rule ndigits_cert [where j = 54]) simp_all

lemma ip10_f863 [simp]: "ipow10 54 = 1000000000000000000000000000000000000000000000000000000"
  by (rule ipow10_of [OF p10_f752]) simp

lemma im_f864 [simp]: "imul 25 1000000000000000000000000000000000000000000000000000000 = 25000000000000000000000000000000000000000000000000000000"
  by (simp only: imul_def arith_simps rel_simps numeral_times_numeral numeral_plus_numeral)

lemma dg_f865 [simp]: "ndigits 22855339059327376220042218105242451964241796884423701835 = 56"
  by (rule ndigits_cert [where j = 55]) simp_all

lemma nm_f866 [simp]: "nmul 2285533905932737622004221810524245196424179688442370183 10 = 22855339059327376220042218105242451964241796884423701830"
  by (simp only: nmul_def arith_simps rel_simps numeral_times_numeral numeral_plus_numeral)

lemma nd_f867 [simp]: "ndiv 22855339059327376220042218105242451964241796884423701835 10 = 2285533905932737622004221810524245196424179688442370183 \<and> nmod 22855339059327376220042218105242451964241796884423701835 10 = 5"
  by (rule ndivmod_cert [where r = 5]) simp_all

lemma dg_f868 [simp]: "ndigits 2285533905932737622004221810524245196424179688442370184 = 55"
  by (rule ndigits_cert [where j = 54]) simp_all

lemma next_n50_0: "gl_next 55 \<lparr>a_n = \<lparr>coeff = 1, expo = 0\<rparr>, b_n = \<lparr>coeff = 7071067811865475244008443621048490392848359376884740367, expo = (- 55)\<rparr>, t_n = \<lparr>coeff = 25, expo = (- 2)\<rparr>, p_n = \<lparr>coeff = 1, expo = 0\<rparr>\<rparr> = Inr \<lparr>a_n = \<lparr>coeff = 8535533905932737622004221810524245196424179688442370185, expo = (- 55)\<rparr>, b_n = \<lparr>coeff = 8408964152537145430311254762332148950400342623567845109, expo = (- 55)\<rparr>, t_n = \<lparr>coeff = 2285533905932737622004221810524245196424179688442370184, expo = (- 55)\<rparr>, p_n = \<lparr>coeff = 2, expo = 0\<rparr>\<rparr>"
  by (simp add: ev cong: let_weak_cong)

lemma conv_n50_0: "converged \<lparr>a_n = \<lparr>coeff = 1, expo = 0\<rparr>, b_n = \<lparr>coeff = 7071067811865475244008443621048490392848359376884740367, expo = (- 55)\<rparr>, t_n = \<lparr>coeff = 25, expo = (- 2)\<rparr>, p_n = \<lparr>coeff = 1, expo = 0\<rparr>\<rparr> \<lparr>a_n = \<lparr>coeff = 8535533905932737622004221810524245196424179688442370185, expo = (- 55)\<rparr>, b_n = \<lparr>coeff = 8408964152537145430311254762332148950400342623567845109, expo = (- 55)\<rparr>, t_n = \<lparr>coeff = 2285533905932737622004221810524245196424179688442370184, expo = (- 55)\<rparr>, p_n = \<lparr>coeff = 2, expo = 0\<rparr>\<rparr> = False"
  by (simp add: ev cong: let_weak_cong)

lemma dg_f869 [simp]: "ndigits 16944498058469883052315476572856394146824522312010215294 = 56"
  by (rule ndigits_cert [where j = 55]) simp_all

lemma nm_f870 [simp]: "nmul 1694449805846988305231547657285639414682452231201021529 10 = 16944498058469883052315476572856394146824522312010215290"
  by (simp only: nmul_def arith_simps rel_simps numeral_times_numeral numeral_plus_numeral)

lemma nd_f871 [simp]: "ndiv 16944498058469883052315476572856394146824522312010215294 10 = 1694449805846988305231547657285639414682452231201021529 \<and> nmod 16944498058469883052315476572856394146824522312010215294 10 = 4"
  by (rule ndivmod_cert [where r = 4]) simp_all

lemma dg_f872 [simp]: "ndigits 1694449805846988305231547657285639414682452231201021529 = 55"
  by (rule ndigits_cert [where j = 54]) simp_all

lemma nm_f873 [simp]: "nmul 1694449805846988305231547657285639414682452231201021529 100 = 169444980584698830523154765728563941468245223120102152900"
  by (simp only: nmul_def arith_simps rel_simps numeral_times_numeral numeral_plus_numeral)

lemma nm_f874 [simp]: "nmul 84722490292349415261577382864281970734122611560051076450 2 = 169444980584698830523154765728563941468245223120102152900"
  by (simp only: nmul_def arith_simps rel_simps numeral_times_numeral numeral_plus_numeral)

lemma nd_f875 [simp]: "ndiv 169444980584698830523154765728563941468245223120102152900 2 = 84722490292349415261577382864281970734122611560051076450 \<and> nmod 169444980584698830523154765728563941468245223120102152900 2 = 0"
  by (rule ndivmod_cert [where r = 0]) simp_all

lemma nm_f876 [simp]: "nmul 8472249029234941526157738286428197073412261156005107645 10 = 84722490292349415261577382864281970734122611560051076450"
  by (simp only: nmul_def arith_simps rel_simps numeral_times_numeral numeral_plus_numeral)

lemma nm_f877 [simp]: "nmul 847224902923494152615773828642819707341226115600510764 10 = 8472249029234941526157738286428197073412261156005107640"
  by (simp only: nmul_def arith_simps rel_simps numeral_times_numeral numeral_plus_numeral)

lemma nd_f878 [simp]: "ndiv 8472249029234941526157738286428197073412261156005107645 10 = 847224902923494152615773828642819707341226115600510764 \<and> nmod 8472249029234941526157738286428197073412261156005107645 10 = 5"
  by (rule ndivmod_cert [where r = 5]) simp_all

lemma sz_f879 [simp]: "strip_zeros 84722490292349415261577382864281970734122611560051076450 (- 56) (- 54) = (8472249029234941526157738286428197073412261156005107645, (- 55))"
  by (rule strip_zeros_cert [where j = 1]) simp_all

lemma dg_f880 [simp]: "ndigits 8472249029234941526157738286428197073412261156005107645 = 55"
  by (rule ndigits_cert [where j = 54]) simp_all

lemma im_f881 [simp]: "imul 8535533905932737622004221810524245196424179688442370185 8408964152537145430311254762332148950400342623567845109 = 71774998637753753819493773075672642634326015429434660890851153193081677130264455040259611739619038992919675165"
  by (simp only: imul_def arith_simps rel_simps numeral_times_numeral numeral_plus_numeral)

lemma dg_f882 [simp]: "ndigits 71774998637753753819493773075672642634326015429434660890851153193081677130264455040259611739619038992919675165 = 110"
  by (rule ndigits_cert [where j = 109]) simp_all

lemma nm_f883 [simp]: "nmul 7177499863775375381949377307567264263432601542943466089 10000000000000000000000000000000000000000000000000000000 = 71774998637753753819493773075672642634326015429434660890000000000000000000000000000000000000000000000000000000"
  by (simp only: nmul_def arith_simps rel_simps numeral_times_numeral numeral_plus_numeral)

lemma nd_f884 [simp]: "ndiv 71774998637753753819493773075672642634326015429434660890851153193081677130264455040259611739619038992919675165 10000000000000000000000000000000000000000000000000000000 = 7177499863775375381949377307567264263432601542943466089 \<and> nmod 71774998637753753819493773075672642634326015429434660890851153193081677130264455040259611739619038992919675165 10000000000000000000000000000000000000000000000000000000 = 851153193081677130264455040259611739619038992919675165"
  by (rule ndivmod_cert [where r = 851153193081677130264455040259611739619038992919675165]) simp_all

lemma dg_f885 [simp]: "ndigits 7177499863775375381949377307567264263432601542943466089 = 55"
  by (rule ndigits_cert [where j = 54]) simp_all

lemma nm_f886 [simp]: "nmul 71774998637753753819493773075672642634326015429434660890 100000000000000000000000000000000000000000000000000000000 = 7177499863775375381949377307567264263432601542943466089000000000000000000000000000000000000000000000000000000000"
  by (simp only: nmul_def arith_simps rel_simps numeral_times_numeral numeral_plus_numeral)

lemma nm_f887 [simp]: "nmul 84720126674689146040363145369335239796398101361200050096 84720126674689146040363145369335239796398101361200050096 = 7177499863775375381949377307567264263432601542943466088929956302251433869084251349760534973584011581352909609216"
  by (simp only: nmul_def arith_simps rel_simps numeral_times_numeral numeral_plus_numeral)

lemma nm_f888 [simp]: "nmul 84720126674689146040363145369335239796398101361200050097 84720126674689146040363145369335239796398101361200050097 = 7177499863775375381949377307567264263432601542943466089099396555600812161164977640499205453176807784075309709409"
  by (simp only: nmul_def arith_simps rel_simps numeral_times_numeral numeral_plus_numeral)

lemma sq_f889 [simp]: "sqrt_newton 7177499863775375381949377307567264263432601542943466089000000000000000000000000000000000000000000000000000000000 100000000000000000000000000000000000000000000000000000000 = 84720126674689146040363145369335239796398101361200050096"
  by (rule sqrt_newton_cert' [where ?r1.0 = 84720126674689146040363145369335239796398101361200050097]) simp_all

lemma nm_f890 [simp]: "nmul 16944025334937829208072629073867047959279620272240010019 5 = 84720126674689146040363145369335239796398101361200050095"
  by (simp only: nmul_def arith_simps rel_simps numeral_times_numeral numeral_plus_numeral)

lemma nd_f891 [simp]: "ndiv 84720126674689146040363145369335239796398101361200050096 5 = 16944025334937829208072629073867047959279620272240010019 \<and> nmod 84720126674689146040363145369335239796398101361200050096 5 = 1"
  by (rule ndivmod_cert [where r = 1]) simp_all

lemma dg_f892 [simp]: "ndigits 84720126674689146040363145369335239796398101361200050096 = 56"
  by (rule ndigits_cert [where j = 55]) simp_all

lemma nm_f893 [simp]: "nmul 8472012667468914604036314536933523979639810136120005009 10 = 84720126674689146040363145369335239796398101361200050090"
  by (simp only: nmul_def arith_simps rel_simps numeral_times_numeral numeral_plus_numeral)

lemma nd_f894 [simp]: "ndiv 84720126674689146040363145369335239796398101361200050096 10 = 8472012667468914604036314536933523979639810136120005009 \<and> nmod 84720126674689146040363145369335239796398101361200050096 10 = 6"
  by (rule ndivmod_cert [where r = 6]) simp_all

lemma dg_f895 [simp]: "ndigits 8472012667468914604036314536933523979639810136120005010 = 55"
  by (rule ndigits_cert [where j = 54]) simp_all

lemma dg_f896 [simp]: "ndigits 63284876697796095846483524096048123011918532437262540 = 53"
  by (rule ndigits_cert [where j = 52]) simp_all

lemma im_f897 [simp]: "imul 63284876697796095846483524096048123011918532437262540 63284876697796095846483524096048123011918532437262540 = 4004975618655255284777041095517656018339948600445939323049174414479841883951335865882919341981088887251600"
  by (simp only: imul_def arith_simps rel_simps numeral_times_numeral numeral_plus_numeral)

lemma dg_f898 [simp]: "ndigits 4004975618655255284777041095517656018339948600445939323049174414479841883951335865882919341981088887251600 = 106"
  by (rule ndigits_cert [where j = 105]) simp_all

lemma nm_f899 [simp]: "nmul 4004975618655255284777041095517656018339948600445939323049 1000000000000000000000000000000000000000000000000 = 4004975618655255284777041095517656018339948600445939323049000000000000000000000000000000000000000000000000"
  by (simp only: nmul_def arith_simps rel_simps numeral_times_numeral numeral_plus_numeral)

lemma nd_f900 [simp]: "ndiv 4004975618655255284777041095517656018339948600445939323049174414479841883951335865882919341981088887251600 1000000000000000000000000000000000000000000000000 = 4004975618655255284777041095517656018339948600445939323049 \<and> nmod 4004975618655255284777041095517656018339948600445939323049174414479841883951335865882919341981088887251600 1000000000000000000000000000000000000000000000000 = 174414479841883951335865882919341981088887251600"
  by (rule ndivmod_cert [where r = 174414479841883951335865882919341981088887251600]) simp_all

lemma dg_f901 [simp]: "ndigits 4004975618655255284777041095517656018339948600445939323049 = 58"
  by (rule ndigits_cert [where j = 57]) simp_all

lemma nm_f902 [simp]: "nmul 4004975618655255284777041095517656018339948600445939323 1000 = 4004975618655255284777041095517656018339948600445939323000"
  by (simp only: nmul_def arith_simps rel_simps numeral_times_numeral numeral_plus_numeral)

lemma nd_f903 [simp]: "ndiv 4004975618655255284777041095517656018339948600445939323049 1000 = 4004975618655255284777041095517656018339948600445939323 \<and> nmod 4004975618655255284777041095517656018339948600445939323049 1000 = 49"
  by (rule ndivmod_cert [where r = 49]) simp_all

lemma dg_f904 [simp]: "ndigits 4004975618655255284777041095517656018339948600445939323 = 55"
  by (rule ndigits_cert [where j = 54]) simp_all

lemma im_f905 [simp]: "imul 2 4004975618655255284777041095517656018339948600445939323 = 8009951237310510569554082191035312036679897200891878646"
  by (simp only: imul_def arith_simps rel_simps numeral_times_numeral numeral_plus_numeral)

lemma dg_f906 [simp]: "ndigits 8009951237310510569554082191035312036679897200891878646 = 55"
  by (rule ndigits_cert [where j = 54]) simp_all

lemma im_f907 [simp]: "imul 2285533905932737622004221810524245196424179688442370184 10000 = 22855339059327376220042218105242451964241796884423701840000"
  by (simp only: imul_def arith_simps rel_simps numeral_times_numeral numeral_plus_numeral)

lemma dg_f908 [simp]: "ndigits 22847329108090065709472664023051416652205116987222809961354 = 59"
  by (rule ndigits_cert [where j = 58]) simp_all

lemma nm_f909 [simp]: "nmul 2284732910809006570947266402305141665220511698722280996 10000 = 22847329108090065709472664023051416652205116987222809960000"
  by (simp only: nmul_def arith_simps rel_simps numeral_times_numeral numeral_plus_numeral)

lemma nd_f910 [simp]: "ndiv 22847329108090065709472664023051416652205116987222809961354 10000 = 2284732910809006570947266402305141665220511698722280996 \<and> nmod 22847329108090065709472664023051416652205116987222809961354 10000 = 1354"
  by (rule ndivmod_cert [where r = 1354]) simp_all

lemma dg_f911 [simp]: "ndigits 2284732910809006570947266402305141665220511698722280996 = 55"
  by (rule ndigits_cert [where j = 54]) simp_all

lemma next_n50_1: "gl_next 55 \<lparr>a_n = \<lparr>coeff = 8535533905932737622004221810524245196424179688442370185, expo = (- 55)\<rparr>, b_n = \<lparr>coeff = 8408964152537145430311254762332148950400342623567845109, expo = (- 55)\<rparr>, t_n = \<lparr>coeff = 2285533905932737622004221810524245196424179688442370184, expo = (- 55)\<rparr>, p_n = \<lparr>coeff = 2, expo = 0\<rparr>\<rparr> = Inr \<lparr>a_n = \<lparr>coeff = 8472249029234941526157738286428197073412261156005107645, expo = (- 55)\<rparr>, b_n = \<lparr>coeff = 8472012667468914604036314536933523979639810136120005010, expo = (- 55)\<rparr>, t_n = \<lparr>coeff = 2284732910809006570947266402305141665220511698722280996, expo = (- 55)\<rparr>, p_n = \<lparr>coeff = 4, expo = 0\<rparr>\<rparr>"
  by (simp add: ev cong: let_weak_cong)

lemma conv_n50_1: "converged \<lparr>a_n = \<lparr>coeff = 8535533905932737622004221810524245196424179688442370185, expo = (- 55)\<rparr>, b_n = \<lparr>coeff = 8408964152537145430311254762332148950400342623567845109, expo = (- 55)\<rparr>, t_n = \<lparr>coeff = 2285533905932737622004221810524245196424179688442370184, expo = (- 55)\<rparr>, p_n = \<lparr>coeff = 2, expo = 0\<rparr>\<rparr> \<lparr>a_n = \<lparr>coeff = 8472249029234941526157738286428197073412261156005107645, expo = (- 55)\<rparr>, b_n = \<lparr>coeff = 8472012667468914604036314536933523979639810136120005010, expo = (- 55)\<rparr>, t_n = \<lparr>coeff = 2284732910809006570947266402305141665220511698722280996, expo = (- 55)\<rparr>, p_n = \<lparr>coeff = 4, expo = 0\<rparr>\<rparr> = False"
  by (simp add: ev cong: let_weak_cong)

lemma dg_f912 [simp]: "ndigits 16944261696703856130194052823361721053052071292125112655 = 56"
  by (rule ndigits_cert [where j = 55]) simp_all

lemma nm_f913 [simp]: "nmul 1694426169670385613019405282336172105305207129212511265 10 = 16944261696703856130194052823361721053052071292125112650"
  by (simp only: nmul_def arith_simps rel_simps numeral_times_numeral numeral_plus_numeral)

lemma nd_f914 [simp]: "ndiv 16944261696703856130194052823361721053052071292125112655 10 = 1694426169670385613019405282336172105305207129212511265 \<and> nmod 16944261696703856130194052823361721053052071292125112655 10 = 5"
  by (rule ndivmod_cert [where r = 5]) simp_all

lemma dg_f915 [simp]: "ndigits 1694426169670385613019405282336172105305207129212511266 = 55"
  by (rule ndigits_cert [where j = 54]) simp_all

lemma nm_f916 [simp]: "nmul 1694426169670385613019405282336172105305207129212511266 100 = 169442616967038561301940528233617210530520712921251126600"
  by (simp only: nmul_def arith_simps rel_simps numeral_times_numeral numeral_plus_numeral)

lemma nm_f917 [simp]: "nmul 84721308483519280650970264116808605265260356460625563300 2 = 169442616967038561301940528233617210530520712921251126600"
  by (simp only: nmul_def arith_simps rel_simps numeral_times_numeral numeral_plus_numeral)

lemma nd_f918 [simp]: "ndiv 169442616967038561301940528233617210530520712921251126600 2 = 84721308483519280650970264116808605265260356460625563300 \<and> nmod 169442616967038561301940528233617210530520712921251126600 2 = 0"
  by (rule ndivmod_cert [where r = 0]) simp_all

lemma nm_f919 [simp]: "nmul 847213084835192806509702641168086052652603564606255633 100 = 84721308483519280650970264116808605265260356460625563300"
  by (simp only: nmul_def arith_simps rel_simps numeral_times_numeral numeral_plus_numeral)

lemma sz_f920 [simp]: "strip_zeros 84721308483519280650970264116808605265260356460625563300 (- 56) (- 54) = (847213084835192806509702641168086052652603564606255633, (- 54))"
  by (rule strip_zeros_cert [where j = 2]) simp_all

lemma dg_f921 [simp]: "ndigits 847213084835192806509702641168086052652603564606255633 = 54"
  by (rule ndigits_cert [where j = 53]) simp_all

lemma im_f922 [simp]: "imul 8472249029234941526157738286428197073412261156005107645 8472012667468914604036314536933523979639810136120005010 = 71777001097629639227453423431674136248817592904549972197954732459379672187914155001451673728191094222989301450"
  by (simp only: imul_def arith_simps rel_simps numeral_times_numeral numeral_plus_numeral)

lemma dg_f923 [simp]: "ndigits 71777001097629639227453423431674136248817592904549972197954732459379672187914155001451673728191094222989301450 = 110"
  by (rule ndigits_cert [where j = 109]) simp_all

lemma nm_f924 [simp]: "nmul 7177700109762963922745342343167413624881759290454997219 10000000000000000000000000000000000000000000000000000000 = 71777001097629639227453423431674136248817592904549972190000000000000000000000000000000000000000000000000000000"
  by (simp only: nmul_def arith_simps rel_simps numeral_times_numeral numeral_plus_numeral)

lemma nd_f925 [simp]: "ndiv 71777001097629639227453423431674136248817592904549972197954732459379672187914155001451673728191094222989301450 10000000000000000000000000000000000000000000000000000000 = 7177700109762963922745342343167413624881759290454997219 \<and> nmod 71777001097629639227453423431674136248817592904549972197954732459379672187914155001451673728191094222989301450 10000000000000000000000000000000000000000000000000000000 = 7954732459379672187914155001451673728191094222989301450"
  by (rule ndivmod_cert [where r = 7954732459379672187914155001451673728191094222989301450]) simp_all

lemma dg_f926 [simp]: "ndigits 7177700109762963922745342343167413624881759290454997220 = 55"
  by (rule ndigits_cert [where j = 54]) simp_all

lemma nm_f927 [simp]: "nmul 71777001097629639227453423431674136248817592904549972200 100000000000000000000000000000000000000000000000000000000 = 7177700109762963922745342343167413624881759290454997220000000000000000000000000000000000000000000000000000000000"
  by (simp only: nmul_def arith_simps rel_simps numeral_times_numeral numeral_plus_numeral)

lemma nm_f928 [simp]: "nmul 84721308475276536670429805177990207039211065605945258339 84721308475276536670429805177990207039211065605945258339 = 7177700109762963922745342343167413624881759290454997219977099539903460555103849380807915535514298173517449038921"
  by (simp only: nmul_def arith_simps rel_simps numeral_times_numeral numeral_plus_numeral)

lemma nm_f929 [simp]: "nmul 84721308475276536670429805177990207039211065605945258340 84721308475276536670429805177990207039211065605945258340 = 7177700109762963922745342343167413624881759290454997220146542156854013628444708991163895949592720304729339555600"
  by (simp only: nmul_def arith_simps rel_simps numeral_times_numeral numeral_plus_numeral)

lemma sq_f930 [simp]: "sqrt_newton 7177700109762963922745342343167413624881759290454997220000000000000000000000000000000000000000000000000000000000 100000000000000000000000000000000000000000000000000000000 = 84721308475276536670429805177990207039211065605945258339"
  by (rule sqrt_newton_cert' [where ?r1.0 = 84721308475276536670429805177990207039211065605945258340]) simp_all

lemma nm_f931 [simp]: "nmul 16944261695055307334085961035598041407842213121189051667 5 = 84721308475276536670429805177990207039211065605945258335"
  by (simp only: nmul_def arith_simps rel_simps numeral_times_numeral numeral_plus_numeral)

lemma nd_f932 [simp]: "ndiv 84721308475276536670429805177990207039211065605945258339 5 = 16944261695055307334085961035598041407842213121189051667 \<and> nmod 84721308475276536670429805177990207039211065605945258339 5 = 4"
  by (rule ndivmod_cert [where r = 4]) simp_all

lemma dg_f933 [simp]: "ndigits 84721308475276536670429805177990207039211065605945258339 = 56"
  by (rule ndigits_cert [where j = 55]) simp_all

lemma nm_f934 [simp]: "nmul 8472130847527653667042980517799020703921106560594525833 10 = 84721308475276536670429805177990207039211065605945258330"
  by (simp only: nmul_def arith_simps rel_simps numeral_times_numeral numeral_plus_numeral)

lemma nd_f935 [simp]: "ndiv 84721308475276536670429805177990207039211065605945258339 10 = 8472130847527653667042980517799020703921106560594525833 \<and> nmod 84721308475276536670429805177990207039211065605945258339 10 = 9"
  by (rule ndivmod_cert [where r = 9]) simp_all

lemma dg_f936 [simp]: "ndigits 8472130847527653667042980517799020703921106560594525834 = 55"
  by (rule ndigits_cert [where j = 54]) simp_all

lemma im_f937 [simp]: "imul 847213084835192806509702641168086052652603564606255633 10 = 8472130848351928065097026411680860526526035646062556330"
  by (simp only: imul_def arith_simps rel_simps numeral_times_numeral numeral_plus_numeral)

lemma dg_f938 [simp]: "ndigits 118180883013461060711874747336546886225509942551315 = 51"
  by (rule ndigits_cert [where j = 50]) simp_all

lemma im_f939 [simp]: "imul 118180883013461060711874747336546886225509942551315 118180883013461060711874747336546886225509942551315 = 13966721109841369082273132606758796249592455824049352840958765815290134190832651099677391651408229225"
  by (simp only: imul_def arith_simps rel_simps numeral_times_numeral numeral_plus_numeral)

lemma dg_f940 [simp]: "ndigits 13966721109841369082273132606758796249592455824049352840958765815290134190832651099677391651408229225 = 101"
  by (rule ndigits_cert [where j = 100]) simp_all

lemma nm_f941 [simp]: "nmul 1396672110984136908227313260675879624959245582404935284095 10000000000000000000000000000000000000000000 = 13966721109841369082273132606758796249592455824049352840950000000000000000000000000000000000000000000"
  by (simp only: nmul_def arith_simps rel_simps numeral_times_numeral numeral_plus_numeral)

lemma nd_f942 [simp]: "ndiv 13966721109841369082273132606758796249592455824049352840958765815290134190832651099677391651408229225 10000000000000000000000000000000000000000000 = 1396672110984136908227313260675879624959245582404935284095 \<and> nmod 13966721109841369082273132606758796249592455824049352840958765815290134190832651099677391651408229225 10000000000000000000000000000000000000000000 = 8765815290134190832651099677391651408229225"
  by (rule ndivmod_cert [where r = 8765815290134190832651099677391651408229225]) simp_all

lemma dg_f943 [simp]: "ndigits 1396672110984136908227313260675879624959245582404935284096 = 58"
  by (rule ndigits_cert [where j = 57]) simp_all

lemma nm_f944 [simp]: "nmul 1396672110984136908227313260675879624959245582404935284 1000 = 1396672110984136908227313260675879624959245582404935284000"
  by (simp only: nmul_def arith_simps rel_simps numeral_times_numeral numeral_plus_numeral)

lemma nd_f945 [simp]: "ndiv 1396672110984136908227313260675879624959245582404935284096 1000 = 1396672110984136908227313260675879624959245582404935284 \<and> nmod 1396672110984136908227313260675879624959245582404935284096 1000 = 96"
  by (rule ndivmod_cert [where r = 96]) simp_all

lemma dg_f946 [simp]: "ndigits 1396672110984136908227313260675879624959245582404935284 = 55"
  by (rule ndigits_cert [where j = 54]) simp_all

lemma im_f947 [simp]: "imul 4 1396672110984136908227313260675879624959245582404935284 = 5586688443936547632909253042703518499836982329619741136"
  by (simp only: imul_def arith_simps rel_simps numeral_times_numeral numeral_plus_numeral)

lemma dg_f948 [simp]: "ndigits 5586688443936547632909253042703518499836982329619741136 = 55"
  by (rule ndigits_cert [where j = 54]) simp_all

lemma im_f949 [simp]: "imul 2284732910809006570947266402305141665220511698722280996 1000000000 = 2284732910809006570947266402305141665220511698722280996000000000"
  by (simp only: imul_def arith_simps rel_simps numeral_times_numeral numeral_plus_numeral)

lemma dg_f950 [simp]: "ndigits 2284732905222318127010718769395888622516993198885298666380258864 = 64"
  by (rule ndigits_cert [where j = 63]) simp_all

lemma nm_f951 [simp]: "nmul 2284732905222318127010718769395888622516993198885298666 1000000000 = 2284732905222318127010718769395888622516993198885298666000000000"
  by (simp only: nmul_def arith_simps rel_simps numeral_times_numeral numeral_plus_numeral)

lemma nd_f952 [simp]: "ndiv 2284732905222318127010718769395888622516993198885298666380258864 1000000000 = 2284732905222318127010718769395888622516993198885298666 \<and> nmod 2284732905222318127010718769395888622516993198885298666380258864 1000000000 = 380258864"
  by (rule ndivmod_cert [where r = 380258864]) simp_all

lemma dg_f953 [simp]: "ndigits 2284732905222318127010718769395888622516993198885298666 = 55"
  by (rule ndigits_cert [where j = 54]) simp_all

lemma next_n50_2: "gl_next 55 \<lparr>a_n = \<lparr>coeff = 8472249029234941526157738286428197073412261156005107645, expo = (- 55)\<rparr>, b_n = \<lparr>coeff = 8472012667468914604036314536933523979639810136120005010, expo = (- 55)\<rparr>, t_n = \<lparr>coeff = 2284732910809006570947266402305141665220511698722280996, expo = (- 55)\<rparr>, p_n = \<lparr>coeff = 4, expo = 0\<rparr>\<rparr> = Inr \<lparr>a_n = \<lparr>coeff = 847213084835192806509702641168086052652603564606255633, expo = (- 54)\<rparr>, b_n = \<lparr>coeff = 8472130847527653667042980517799020703921106560594525834, expo = (- 55)\<rparr>, t_n = \<lparr>coeff = 2284732905222318127010718769395888622516993198885298666, expo = (- 55)\<rparr>, p_n = \<lparr>coeff = 8, expo = 0\<rparr>\<rparr>"
  by (simp add: ev cong: let_weak_cong)

lemma conv_n50_2: "converged \<lparr>a_n = \<lparr>coeff = 8472249029234941526157738286428197073412261156005107645, expo = (- 55)\<rparr>, b_n = \<lparr>coeff = 8472012667468914604036314536933523979639810136120005010, expo = (- 55)\<rparr>, t_n = \<lparr>coeff = 2284732910809006570947266402305141665220511698722280996, expo = (- 55)\<rparr>, p_n = \<lparr>coeff = 4, expo = 0\<rparr>\<rparr> \<lparr>a_n = \<lparr>coeff = 847213084835192806509702641168086052652603564606255633, expo = (- 54)\<rparr>, b_n = \<lparr>coeff = 8472130847527653667042980517799020703921106560594525834, expo = (- 55)\<rparr>, t_n = \<lparr>coeff = 2284732905222318127010718769395888622516993198885298666, expo = (- 55)\<rparr>, p_n = \<lparr>coeff = 8, expo = 0\<rparr>\<rparr> = False"
  by (simp add: ev cong: let_weak_cong)

lemma dg_f954 [simp]: "ndigits 16944261695879581732140006929479881230447142206657082164 = 56"
  by (rule ndigits_cert [where j = 55]) simp_all

lemma nm_f955 [simp]: "nmul 1694426169587958173214000692947988123044714220665708216 10 = 16944261695879581732140006929479881230447142206657082160"
  by (simp only: nmul_def arith_simps rel_simps numeral_times_numeral numeral_plus_numeral)

lemma nd_f956 [simp]: "ndiv 16944261695879581732140006929479881230447142206657082164 10 = 1694426169587958173214000692947988123044714220665708216 \<and> nmod 16944261695879581732140006929479881230447142206657082164 10 = 4"
  by (rule ndivmod_cert [where r = 4]) simp_all

lemma dg_f957 [simp]: "ndigits 1694426169587958173214000692947988123044714220665708216 = 55"
  by (rule ndigits_cert [where j = 54]) simp_all

lemma nm_f958 [simp]: "nmul 1694426169587958173214000692947988123044714220665708216 100 = 169442616958795817321400069294798812304471422066570821600"
  by (simp only: nmul_def arith_simps rel_simps numeral_times_numeral numeral_plus_numeral)

lemma nm_f959 [simp]: "nmul 84721308479397908660700034647399406152235711033285410800 2 = 169442616958795817321400069294798812304471422066570821600"
  by (simp only: nmul_def arith_simps rel_simps numeral_times_numeral numeral_plus_numeral)

lemma nd_f960 [simp]: "ndiv 169442616958795817321400069294798812304471422066570821600 2 = 84721308479397908660700034647399406152235711033285410800 \<and> nmod 169442616958795817321400069294798812304471422066570821600 2 = 0"
  by (rule ndivmod_cert [where r = 0]) simp_all

lemma nm_f961 [simp]: "nmul 847213084793979086607000346473994061522357110332854108 100 = 84721308479397908660700034647399406152235711033285410800"
  by (simp only: nmul_def arith_simps rel_simps numeral_times_numeral numeral_plus_numeral)

lemma sz_f962 [simp]: "strip_zeros 84721308479397908660700034647399406152235711033285410800 (- 56) (- 54) = (847213084793979086607000346473994061522357110332854108, (- 54))"
  by (rule strip_zeros_cert [where j = 2]) simp_all

lemma dg_f963 [simp]: "ndigits 847213084793979086607000346473994061522357110332854108 = 54"
  by (rule ndigits_cert [where j = 53]) simp_all

lemma im_f964 [simp]: "imul 847213084835192806509702641168086052652603564606255633 8472130847527653667042980517799020703921106560594525834 = 7177700110461299978203439383116702270355170514711335187357405890719886012087776194152632926112159491826522922"
  by (simp only: imul_def arith_simps rel_simps numeral_times_numeral numeral_plus_numeral)

lemma dg_f965 [simp]: "ndigits 7177700110461299978203439383116702270355170514711335187357405890719886012087776194152632926112159491826522922 = 109"
  by (rule ndigits_cert [where j = 108]) simp_all

lemma nm_f966 [simp]: "nmul 7177700110461299978203439383116702270355170514711335187 1000000000000000000000000000000000000000000000000000000 = 7177700110461299978203439383116702270355170514711335187000000000000000000000000000000000000000000000000000000"
  by (simp only: nmul_def arith_simps rel_simps numeral_times_numeral numeral_plus_numeral)

lemma nd_f967 [simp]: "ndiv 7177700110461299978203439383116702270355170514711335187357405890719886012087776194152632926112159491826522922 1000000000000000000000000000000000000000000000000000000 = 7177700110461299978203439383116702270355170514711335187 \<and> nmod 7177700110461299978203439383116702270355170514711335187357405890719886012087776194152632926112159491826522922 1000000000000000000000000000000000000000000000000000000 = 357405890719886012087776194152632926112159491826522922"
  by (rule ndivmod_cert [where r = 357405890719886012087776194152632926112159491826522922]) simp_all

lemma dg_f968 [simp]: "ndigits 7177700110461299978203439383116702270355170514711335187 = 55"
  by (rule ndigits_cert [where j = 54]) simp_all

lemma nm_f969 [simp]: "nmul 71777001104612999782034393831167022703551705147113351870 100000000000000000000000000000000000000000000000000000000 = 7177700110461299978203439383116702270355170514711335187000000000000000000000000000000000000000000000000000000000"
  by (simp only: nmul_def arith_simps rel_simps numeral_times_numeral numeral_plus_numeral)

lemma nm_f970 [simp]: "nmul 84721308479397908660599790049038921144053485858626130063 84721308479397908660599790049038921144053485858626130063 = 7177700110461299978203439383116702270355170514711335186878266621601694870603948249411762478515670336963792383969"
  by (simp only: nmul_def arith_simps rel_simps numeral_times_numeral numeral_plus_numeral)

lemma nm_f971 [simp]: "nmul 84721308479397908660599790049038921144053485858626130064 84721308479397908660599790049038921144053485858626130064 = 7177700110461299978203439383116702270355170514711335187047709238560490687925147829509840320803777308681044644096"
  by (simp only: nmul_def arith_simps rel_simps numeral_times_numeral numeral_plus_numeral)

lemma sq_f972 [simp]: "sqrt_newton 7177700110461299978203439383116702270355170514711335187000000000000000000000000000000000000000000000000000000000 100000000000000000000000000000000000000000000000000000000 = 84721308479397908660599790049038921144053485858626130063"
  by (rule sqrt_newton_cert' [where ?r1.0 = 84721308479397908660599790049038921144053485858626130064]) simp_all

lemma nm_f973 [simp]: "nmul 16944261695879581732119958009807784228810697171725226012 5 = 84721308479397908660599790049038921144053485858626130060"
  by (simp only: nmul_def arith_simps rel_simps numeral_times_numeral numeral_plus_numeral)

lemma nd_f974 [simp]: "ndiv 84721308479397908660599790049038921144053485858626130063 5 = 16944261695879581732119958009807784228810697171725226012 \<and> nmod 84721308479397908660599790049038921144053485858626130063 5 = 3"
  by (rule ndivmod_cert [where r = 3]) simp_all

lemma dg_f975 [simp]: "ndigits 84721308479397908660599790049038921144053485858626130063 = 56"
  by (rule ndigits_cert [where j = 55]) simp_all

lemma nm_f976 [simp]: "nmul 8472130847939790866059979004903892114405348585862613006 10 = 84721308479397908660599790049038921144053485858626130060"
  by (simp only: nmul_def arith_simps rel_simps numeral_times_numeral numeral_plus_numeral)

lemma nd_f977 [simp]: "ndiv 84721308479397908660599790049038921144053485858626130063 10 = 8472130847939790866059979004903892114405348585862613006 \<and> nmod 84721308479397908660599790049038921144053485858626130063 10 = 3"
  by (rule ndivmod_cert [where r = 3]) simp_all

lemma dg_f978 [simp]: "ndigits 8472130847939790866059979004903892114405348585862613006 = 55"
  by (rule ndigits_cert [where j = 54]) simp_all

lemma dg_f979 [simp]: "ndigits 41213719902702294694091991130246454273401525 = 44"
  by (rule ndigits_cert [where j = 43]) simp_all

lemma im_f980 [simp]: "imul 41213719902702294694091991130246454273401525 41213719902702294694091991130246454273401525 = 1698570708218399243226429411164241296706585518124392152792284510165824373633093872325625"
  by (simp only: imul_def arith_simps rel_simps numeral_times_numeral numeral_plus_numeral)

lemma dg_f981 [simp]: "ndigits 1698570708218399243226429411164241296706585518124392152792284510165824373633093872325625 = 88"
  by (rule ndigits_cert [where j = 87]) simp_all

lemma nm_f982 [simp]: "nmul 1698570708218399243226429411164241296706585518124392152792 1000000000000000000000000000000 = 1698570708218399243226429411164241296706585518124392152792000000000000000000000000000000"
  by (simp only: nmul_def arith_simps rel_simps numeral_times_numeral numeral_plus_numeral)

lemma nd_f983 [simp]: "ndiv 1698570708218399243226429411164241296706585518124392152792284510165824373633093872325625 1000000000000000000000000000000 = 1698570708218399243226429411164241296706585518124392152792 \<and> nmod 1698570708218399243226429411164241296706585518124392152792284510165824373633093872325625 1000000000000000000000000000000 = 284510165824373633093872325625"
  by (rule ndivmod_cert [where r = 284510165824373633093872325625]) simp_all

lemma dg_f984 [simp]: "ndigits 1698570708218399243226429411164241296706585518124392152792 = 58"
  by (rule ndigits_cert [where j = 57]) simp_all

lemma nm_f985 [simp]: "nmul 1698570708218399243226429411164241296706585518124392152 1000 = 1698570708218399243226429411164241296706585518124392152000"
  by (simp only: nmul_def arith_simps rel_simps numeral_times_numeral numeral_plus_numeral)

lemma nd_f986 [simp]: "ndiv 1698570708218399243226429411164241296706585518124392152792 1000 = 1698570708218399243226429411164241296706585518124392152 \<and> nmod 1698570708218399243226429411164241296706585518124392152792 1000 = 792"
  by (rule ndivmod_cert [where r = 792]) simp_all

lemma dg_f987 [simp]: "ndigits 1698570708218399243226429411164241296706585518124392153 = 55"
  by (rule ndigits_cert [where j = 54]) simp_all

lemma im_f988 [simp]: "imul 8 1698570708218399243226429411164241296706585518124392153 = 13588565665747193945811435289313930373652684144995137224"
  by (simp only: imul_def arith_simps rel_simps numeral_times_numeral numeral_plus_numeral)

lemma dg_f989 [simp]: "ndigits 13588565665747193945811435289313930373652684144995137224 = 56"
  by (rule ndigits_cert [where j = 55]) simp_all

lemma nm_f990 [simp]: "nmul 1358856566574719394581143528931393037365268414499513722 10 = 13588565665747193945811435289313930373652684144995137220"
  by (simp only: nmul_def arith_simps rel_simps numeral_times_numeral numeral_plus_numeral)

lemma nd_f991 [simp]: "ndiv 13588565665747193945811435289313930373652684144995137224 10 = 1358856566574719394581143528931393037365268414499513722 \<and> nmod 13588565665747193945811435289313930373652684144995137224 10 = 4"
  by (rule ndivmod_cert [where r = 4]) simp_all

lemma dg_f992 [simp]: "ndigits 1358856566574719394581143528931393037365268414499513722 = 55"
  by (rule ndigits_cert [where j = 54]) simp_all

lemma ip10_f993 [simp]: "ipow10 19 = 10000000000000000000"
  by (rule ipow10_of [OF p10_f498]) simp

lemma im_f994 [simp]: "imul 2284732905222318127010718769395888622516993198885298666 10000000000000000000 = 22847329052223181270107187693958886225169931988852986660000000000000000000"
  by (simp only: imul_def arith_simps rel_simps numeral_times_numeral numeral_plus_numeral)

lemma dg_f995 [simp]: "ndigits 22847329052223181268748331127384166830588788459921593622634731585500486278 = 74"
  by (rule ndigits_cert [where j = 73]) simp_all

lemma nm_f996 [simp]: "nmul 2284732905222318126874833112738416683058878845992159362 10000000000000000000 = 22847329052223181268748331127384166830588788459921593620000000000000000000"
  by (simp only: nmul_def arith_simps rel_simps numeral_times_numeral numeral_plus_numeral)

lemma nd_f997 [simp]: "ndiv 22847329052223181268748331127384166830588788459921593622634731585500486278 10000000000000000000 = 2284732905222318126874833112738416683058878845992159362 \<and> nmod 22847329052223181268748331127384166830588788459921593622634731585500486278 10000000000000000000 = 2634731585500486278"
  by (rule ndivmod_cert [where r = 2634731585500486278]) simp_all

lemma dg_f998 [simp]: "ndigits 2284732905222318126874833112738416683058878845992159362 = 55"
  by (rule ndigits_cert [where j = 54]) simp_all

lemma next_n50_3: "gl_next 55 \<lparr>a_n = \<lparr>coeff = 847213084835192806509702641168086052652603564606255633, expo = (- 54)\<rparr>, b_n = \<lparr>coeff = 8472130847527653667042980517799020703921106560594525834, expo = (- 55)\<rparr>, t_n = \<lparr>coeff = 2284732905222318127010718769395888622516993198885298666, expo = (- 55)\<rparr>, p_n = \<lparr>coeff = 8, expo = 0\<rparr>\<rparr> = Inr \<lparr>a_n = \<lparr>coeff = 847213084793979086607000346473994061522357110332854108, expo = (- 54)\<rparr>, b_n = \<lparr>coeff = 8472130847939790866059979004903892114405348585862613006, expo = (- 55)\<rparr>, t_n = \<lparr>coeff = 2284732905222318126874833112738416683058878845992159362, expo = (- 55)\<rparr>, p_n = \<lparr>coeff = 16, expo = 0\<rparr>\<rparr>"
  by (simp add: ev cong: let_weak_cong)

lemma conv_n50_3: "converged \<lparr>a_n = \<lparr>coeff = 847213084835192806509702641168086052652603564606255633, expo = (- 54)\<rparr>, b_n = \<lparr>coeff = 8472130847527653667042980517799020703921106560594525834, expo = (- 55)\<rparr>, t_n = \<lparr>coeff = 2284732905222318127010718769395888622516993198885298666, expo = (- 55)\<rparr>, p_n = \<lparr>coeff = 8, expo = 0\<rparr>\<rparr> \<lparr>a_n = \<lparr>coeff = 847213084793979086607000346473994061522357110332854108, expo = (- 54)\<rparr>, b_n = \<lparr>coeff = 8472130847939790866059979004903892114405348585862613006, expo = (- 55)\<rparr>, t_n = \<lparr>coeff = 2284732905222318126874833112738416683058878845992159362, expo = (- 55)\<rparr>, p_n = \<lparr>coeff = 16, expo = 0\<rparr>\<rparr> = False"
  by (simp add: ev cong: let_weak_cong)

lemma im_f999 [simp]: "imul 847213084793979086607000346473994061522357110332854108 10 = 8472130847939790866070003464739940615223571103328541080"
  by (simp only: imul_def arith_simps rel_simps numeral_times_numeral numeral_plus_numeral)

lemma dg_f1000 [simp]: "ndigits 16944261695879581732129982469643832729628919689191154086 = 56"
  by (rule ndigits_cert [where j = 55]) simp_all

lemma nm_f1001 [simp]: "nmul 1694426169587958173212998246964383272962891968919115408 10 = 16944261695879581732129982469643832729628919689191154080"
  by (simp only: nmul_def arith_simps rel_simps numeral_times_numeral numeral_plus_numeral)

lemma nd_f1002 [simp]: "ndiv 16944261695879581732129982469643832729628919689191154086 10 = 1694426169587958173212998246964383272962891968919115408 \<and> nmod 16944261695879581732129982469643832729628919689191154086 10 = 6"
  by (rule ndivmod_cert [where r = 6]) simp_all

lemma dg_f1003 [simp]: "ndigits 1694426169587958173212998246964383272962891968919115409 = 55"
  by (rule ndigits_cert [where j = 54]) simp_all

lemma nm_f1004 [simp]: "nmul 1694426169587958173212998246964383272962891968919115409 100 = 169442616958795817321299824696438327296289196891911540900"
  by (simp only: nmul_def arith_simps rel_simps numeral_times_numeral numeral_plus_numeral)

lemma nm_f1005 [simp]: "nmul 84721308479397908660649912348219163648144598445955770450 2 = 169442616958795817321299824696438327296289196891911540900"
  by (simp only: nmul_def arith_simps rel_simps numeral_times_numeral numeral_plus_numeral)

lemma nd_f1006 [simp]: "ndiv 169442616958795817321299824696438327296289196891911540900 2 = 84721308479397908660649912348219163648144598445955770450 \<and> nmod 169442616958795817321299824696438327296289196891911540900 2 = 0"
  by (rule ndivmod_cert [where r = 0]) simp_all

lemma nm_f1007 [simp]: "nmul 8472130847939790866064991234821916364814459844595577045 10 = 84721308479397908660649912348219163648144598445955770450"
  by (simp only: nmul_def arith_simps rel_simps numeral_times_numeral numeral_plus_numeral)

lemma nm_f1008 [simp]: "nmul 847213084793979086606499123482191636481445984459557704 10 = 8472130847939790866064991234821916364814459844595577040"
  by (simp only: nmul_def arith_simps rel_simps numeral_times_numeral numeral_plus_numeral)

lemma nd_f1009 [simp]: "ndiv 8472130847939790866064991234821916364814459844595577045 10 = 847213084793979086606499123482191636481445984459557704 \<and> nmod 8472130847939790866064991234821916364814459844595577045 10 = 5"
  by (rule ndivmod_cert [where r = 5]) simp_all

lemma sz_f1010 [simp]: "strip_zeros 84721308479397908660649912348219163648144598445955770450 (- 56) (- 54) = (8472130847939790866064991234821916364814459844595577045, (- 55))"
  by (rule strip_zeros_cert [where j = 1]) simp_all

lemma dg_f1011 [simp]: "ndigits 8472130847939790866064991234821916364814459844595577045 = 55"
  by (rule ndigits_cert [where j = 54]) simp_all

lemma im_f1012 [simp]: "imul 847213084793979086607000346473994061522357110332854108 8472130847939790866059979004903892114405348585862613006 = 7177700110461299978211932236657794266571297637277406164175983860048891794248307094107765006838934122661328648"
  by (simp only: imul_def arith_simps rel_simps numeral_times_numeral numeral_plus_numeral)

lemma dg_f1013 [simp]: "ndigits 7177700110461299978211932236657794266571297637277406164175983860048891794248307094107765006838934122661328648 = 109"
  by (rule ndigits_cert [where j = 108]) simp_all

lemma nm_f1014 [simp]: "nmul 7177700110461299978211932236657794266571297637277406164 1000000000000000000000000000000000000000000000000000000 = 7177700110461299978211932236657794266571297637277406164000000000000000000000000000000000000000000000000000000"
  by (simp only: nmul_def arith_simps rel_simps numeral_times_numeral numeral_plus_numeral)

lemma nd_f1015 [simp]: "ndiv 7177700110461299978211932236657794266571297637277406164175983860048891794248307094107765006838934122661328648 1000000000000000000000000000000000000000000000000000000 = 7177700110461299978211932236657794266571297637277406164 \<and> nmod 7177700110461299978211932236657794266571297637277406164175983860048891794248307094107765006838934122661328648 1000000000000000000000000000000000000000000000000000000 = 175983860048891794248307094107765006838934122661328648"
  by (rule ndivmod_cert [where r = 175983860048891794248307094107765006838934122661328648]) simp_all

lemma dg_f1016 [simp]: "ndigits 7177700110461299978211932236657794266571297637277406164 = 55"
  by (rule ndigits_cert [where j = 54]) simp_all

lemma nm_f1017 [simp]: "nmul 71777001104612999782119322366577942665712976372774061640 100000000000000000000000000000000000000000000000000000000 = 7177700110461299978211932236657794266571297637277406164000000000000000000000000000000000000000000000000000000000"
  by (simp only: nmul_def arith_simps rel_simps numeral_times_numeral numeral_plus_numeral)

lemma nm_f1018 [simp]: "nmul 84721308479397908660649912348219163648144583619432666594 84721308479397908660649912348219163648144583619432666594 = 7177700110461299978211932236657794266571297637277406163894569122773134296478988123649225799989149047753563560836"
  by (simp only: nmul_def arith_simps rel_simps numeral_times_numeral numeral_plus_numeral)

lemma nm_f1019 [simp]: "nmul 84721308479397908660649912348219163648144583619432666595 84721308479397908660649912348219163648144583619432666595 = 7177700110461299978211932236657794266571297637277406164064011739731930113800287948345664127285438214992428894025"
  by (simp only: nmul_def arith_simps rel_simps numeral_times_numeral numeral_plus_numeral)

lemma sq_f1020 [simp]: "sqrt_newton 7177700110461299978211932236657794266571297637277406164000000000000000000000000000000000000000000000000000000000 100000000000000000000000000000000000000000000000000000000 = 84721308479397908660649912348219163648144583619432666594"
  by (rule sqrt_newton_cert' [where ?r1.0 = 84721308479397908660649912348219163648144583619432666595]) simp_all

lemma nm_f1021 [simp]: "nmul 16944261695879581732129982469643832729628916723886533318 5 = 84721308479397908660649912348219163648144583619432666590"
  by (simp only: nmul_def arith_simps rel_simps numeral_times_numeral numeral_plus_numeral)

lemma nd_f1022 [simp]: "ndiv 84721308479397908660649912348219163648144583619432666594 5 = 16944261695879581732129982469643832729628916723886533318 \<and> nmod 84721308479397908660649912348219163648144583619432666594 5 = 4"
  by (rule ndivmod_cert [where r = 4]) simp_all

lemma dg_f1023 [simp]: "ndigits 84721308479397908660649912348219163648144583619432666594 = 56"
  by (rule ndigits_cert [where j = 55]) simp_all

lemma nm_f1024 [simp]: "nmul 8472130847939790866064991234821916364814458361943266659 10 = 84721308479397908660649912348219163648144583619432666590"
  by (simp only: nmul_def arith_simps rel_simps numeral_times_numeral numeral_plus_numeral)

lemma nd_f1025 [simp]: "ndiv 84721308479397908660649912348219163648144583619432666594 10 = 8472130847939790866064991234821916364814458361943266659 \<and> nmod 84721308479397908660649912348219163648144583619432666594 10 = 4"
  by (rule ndivmod_cert [where r = 4]) simp_all

lemma dg_f1026 [simp]: "ndigits 8472130847939790866064991234821916364814458361943266659 = 55"
  by (rule ndigits_cert [where j = 54]) simp_all

lemma dg_f1027 [simp]: "ndigits 5012229918024250409111258732964035 = 34"
  by (rule ndigits_cert [where j = 33]) simp_all

lemma im_f1028 [simp]: "imul 5012229918024250409111258732964035 5012229918024250409111258732964035 = 25122448751137383976142969706344281510569037767741392448336603481225"
  by (simp only: imul_def arith_simps rel_simps numeral_times_numeral numeral_plus_numeral)

lemma dg_f1029 [simp]: "ndigits 25122448751137383976142969706344281510569037767741392448336603481225 = 68"
  by (rule ndigits_cert [where j = 67]) simp_all

lemma nm_f1030 [simp]: "nmul 2512244875113738397614296970634428151056903776774139244833 10000000000 = 25122448751137383976142969706344281510569037767741392448330000000000"
  by (simp only: nmul_def arith_simps rel_simps numeral_times_numeral numeral_plus_numeral)

lemma nd_f1031 [simp]: "ndiv 25122448751137383976142969706344281510569037767741392448336603481225 10000000000 = 2512244875113738397614296970634428151056903776774139244833 \<and> nmod 25122448751137383976142969706344281510569037767741392448336603481225 10000000000 = 6603481225"
  by (rule ndivmod_cert [where r = 6603481225]) simp_all

lemma dg_f1032 [simp]: "ndigits 2512244875113738397614296970634428151056903776774139244834 = 58"
  by (rule ndigits_cert [where j = 57]) simp_all

lemma nm_f1033 [simp]: "nmul 2512244875113738397614296970634428151056903776774139244 1000 = 2512244875113738397614296970634428151056903776774139244000"
  by (simp only: nmul_def arith_simps rel_simps numeral_times_numeral numeral_plus_numeral)

lemma nd_f1034 [simp]: "ndiv 2512244875113738397614296970634428151056903776774139244834 1000 = 2512244875113738397614296970634428151056903776774139244 \<and> nmod 2512244875113738397614296970634428151056903776774139244834 1000 = 834"
  by (rule ndivmod_cert [where r = 834]) simp_all

lemma dg_f1035 [simp]: "ndigits 2512244875113738397614296970634428151056903776774139245 = 55"
  by (rule ndigits_cert [where j = 54]) simp_all

lemma im_f1036 [simp]: "imul 16 2512244875113738397614296970634428151056903776774139245 = 40195918001819814361828751530150850416910460428386227920"
  by (simp only: imul_def arith_simps rel_simps numeral_times_numeral numeral_plus_numeral)

lemma dg_f1037 [simp]: "ndigits 40195918001819814361828751530150850416910460428386227920 = 56"
  by (rule ndigits_cert [where j = 55]) simp_all

lemma nm_f1038 [simp]: "nmul 4019591800181981436182875153015085041691046042838622792 10 = 40195918001819814361828751530150850416910460428386227920"
  by (simp only: nmul_def arith_simps rel_simps numeral_times_numeral numeral_plus_numeral)

lemma nd_f1039 [simp]: "ndiv 40195918001819814361828751530150850416910460428386227920 10 = 4019591800181981436182875153015085041691046042838622792 \<and> nmod 40195918001819814361828751530150850416910460428386227920 10 = 0"
  by (rule ndivmod_cert [where r = 0]) simp_all

lemma dg_f1040 [simp]: "ndigits 4019591800181981436182875153015085041691046042838622792 = 55"
  by (rule ndigits_cert [where j = 54]) simp_all

lemma ip10_f1041 [simp]: "ipow10 41 = 100000000000000000000000000000000000000000"
  by (rule ipow10_of [OF p10_f739]) simp

lemma im_f1042 [simp]: "imul 2284732905222318126874833112738416683058878845992159362 100000000000000000000000000000000000000000 = 228473290522231812687483311273841668305887884599215936200000000000000000000000000000000000000000"
  by (simp only: imul_def arith_simps rel_simps numeral_times_numeral numeral_plus_numeral)

lemma dg_f1043 [simp]: "ndigits 228473290522231812687483311273841668305883865007415754218563817124846984914958308953957161377208 = 96"
  by (rule ndigits_cert [where j = 95]) simp_all

lemma nm_f1044 [simp]: "nmul 2284732905222318126874833112738416683058838650074157542 100000000000000000000000000000000000000000 = 228473290522231812687483311273841668305883865007415754200000000000000000000000000000000000000000"
  by (simp only: nmul_def arith_simps rel_simps numeral_times_numeral numeral_plus_numeral)

lemma nd_f1045 [simp]: "ndiv 228473290522231812687483311273841668305883865007415754218563817124846984914958308953957161377208 100000000000000000000000000000000000000000 = 2284732905222318126874833112738416683058838650074157542 \<and> nmod 228473290522231812687483311273841668305883865007415754218563817124846984914958308953957161377208 100000000000000000000000000000000000000000 = 18563817124846984914958308953957161377208"
  by (rule ndivmod_cert [where r = 18563817124846984914958308953957161377208]) simp_all

lemma dg_f1046 [simp]: "ndigits 2284732905222318126874833112738416683058838650074157542 = 55"
  by (rule ndigits_cert [where j = 54]) simp_all

lemma next_n50_4: "gl_next 55 \<lparr>a_n = \<lparr>coeff = 847213084793979086607000346473994061522357110332854108, expo = (- 54)\<rparr>, b_n = \<lparr>coeff = 8472130847939790866059979004903892114405348585862613006, expo = (- 55)\<rparr>, t_n = \<lparr>coeff = 2284732905222318126874833112738416683058878845992159362, expo = (- 55)\<rparr>, p_n = \<lparr>coeff = 16, expo = 0\<rparr>\<rparr> = Inr \<lparr>a_n = \<lparr>coeff = 8472130847939790866064991234821916364814459844595577045, expo = (- 55)\<rparr>, b_n = \<lparr>coeff = 8472130847939790866064991234821916364814458361943266659, expo = (- 55)\<rparr>, t_n = \<lparr>coeff = 2284732905222318126874833112738416683058838650074157542, expo = (- 55)\<rparr>, p_n = \<lparr>coeff = 32, expo = 0\<rparr>\<rparr>"
  by (simp add: ev cong: let_weak_cong)

lemma conv_n50_4: "converged \<lparr>a_n = \<lparr>coeff = 847213084793979086607000346473994061522357110332854108, expo = (- 54)\<rparr>, b_n = \<lparr>coeff = 8472130847939790866059979004903892114405348585862613006, expo = (- 55)\<rparr>, t_n = \<lparr>coeff = 2284732905222318126874833112738416683058878845992159362, expo = (- 55)\<rparr>, p_n = \<lparr>coeff = 16, expo = 0\<rparr>\<rparr> \<lparr>a_n = \<lparr>coeff = 8472130847939790866064991234821916364814459844595577045, expo = (- 55)\<rparr>, b_n = \<lparr>coeff = 8472130847939790866064991234821916364814458361943266659, expo = (- 55)\<rparr>, t_n = \<lparr>coeff = 2284732905222318126874833112738416683058838650074157542, expo = (- 55)\<rparr>, p_n = \<lparr>coeff = 32, expo = 0\<rparr>\<rparr> = False"
  by (simp add: ev cong: let_weak_cong)

lemma dg_f1047 [simp]: "ndigits 16944261695879581732129982469643832729628918206538843704 = 56"
  by (rule ndigits_cert [where j = 55]) simp_all

lemma nm_f1048 [simp]: "nmul 1694426169587958173212998246964383272962891820653884370 10 = 16944261695879581732129982469643832729628918206538843700"
  by (simp only: nmul_def arith_simps rel_simps numeral_times_numeral numeral_plus_numeral)

lemma nd_f1049 [simp]: "ndiv 16944261695879581732129982469643832729628918206538843704 10 = 1694426169587958173212998246964383272962891820653884370 \<and> nmod 16944261695879581732129982469643832729628918206538843704 10 = 4"
  by (rule ndivmod_cert [where r = 4]) simp_all

lemma dg_f1050 [simp]: "ndigits 1694426169587958173212998246964383272962891820653884370 = 55"
  by (rule ndigits_cert [where j = 54]) simp_all

lemma nm_f1051 [simp]: "nmul 1694426169587958173212998246964383272962891820653884370 100 = 169442616958795817321299824696438327296289182065388437000"
  by (simp only: nmul_def arith_simps rel_simps numeral_times_numeral numeral_plus_numeral)

lemma nm_f1052 [simp]: "nmul 84721308479397908660649912348219163648144591032694218500 2 = 169442616958795817321299824696438327296289182065388437000"
  by (simp only: nmul_def arith_simps rel_simps numeral_times_numeral numeral_plus_numeral)

lemma nd_f1053 [simp]: "ndiv 169442616958795817321299824696438327296289182065388437000 2 = 84721308479397908660649912348219163648144591032694218500 \<and> nmod 169442616958795817321299824696438327296289182065388437000 2 = 0"
  by (rule ndivmod_cert [where r = 0]) simp_all

lemma nm_f1054 [simp]: "nmul 847213084793979086606499123482191636481445910326942185 100 = 84721308479397908660649912348219163648144591032694218500"
  by (simp only: nmul_def arith_simps rel_simps numeral_times_numeral numeral_plus_numeral)

lemma sz_f1055 [simp]: "strip_zeros 84721308479397908660649912348219163648144591032694218500 (- 56) (- 54) = (847213084793979086606499123482191636481445910326942185, (- 54))"
  by (rule strip_zeros_cert [where j = 2]) simp_all

lemma dg_f1056 [simp]: "ndigits 847213084793979086606499123482191636481445910326942185 = 54"
  by (rule ndigits_cert [where j = 53]) simp_all

lemma im_f1057 [simp]: "imul 8472130847939790866064991234821916364814459844595577045 8472130847939790866064991234821916364814458361943266659 = 71777001104612999782119322366577942665712988933998437222600162342298649011491241808853853460421252410414242655"
  by (simp only: imul_def arith_simps rel_simps numeral_times_numeral numeral_plus_numeral)

lemma dg_f1058 [simp]: "ndigits 71777001104612999782119322366577942665712988933998437222600162342298649011491241808853853460421252410414242655 = 110"
  by (rule ndigits_cert [where j = 109]) simp_all

lemma nm_f1059 [simp]: "nmul 7177700110461299978211932236657794266571298893399843722 10000000000000000000000000000000000000000000000000000000 = 71777001104612999782119322366577942665712988933998437220000000000000000000000000000000000000000000000000000000"
  by (simp only: nmul_def arith_simps rel_simps numeral_times_numeral numeral_plus_numeral)

lemma nd_f1060 [simp]: "ndiv 71777001104612999782119322366577942665712988933998437222600162342298649011491241808853853460421252410414242655 10000000000000000000000000000000000000000000000000000000 = 7177700110461299978211932236657794266571298893399843722 \<and> nmod 71777001104612999782119322366577942665712988933998437222600162342298649011491241808853853460421252410414242655 10000000000000000000000000000000000000000000000000000000 = 2600162342298649011491241808853853460421252410414242655"
  by (rule ndivmod_cert [where r = 2600162342298649011491241808853853460421252410414242655]) simp_all

lemma dg_f1061 [simp]: "ndigits 7177700110461299978211932236657794266571298893399843722 = 55"
  by (rule ndigits_cert [where j = 54]) simp_all

lemma nm_f1062 [simp]: "nmul 71777001104612999782119322366577942665712988933998437220 100000000000000000000000000000000000000000000000000000000 = 7177700110461299978211932236657794266571298893399843722000000000000000000000000000000000000000000000000000000000"
  by (simp only: nmul_def arith_simps rel_simps numeral_times_numeral numeral_plus_numeral)

lemma nm_f1063 [simp]: "nmul 84721308479397908660649912348219163648144591032694218518 84721308479397908660649912348219163648144591032694218518 = 7177700110461299978211932236657794266571298893399843721921131000312273266506524531492563647896384200502734116324"
  by (simp only: nmul_def arith_simps rel_simps numeral_times_numeral numeral_plus_numeral)

lemma nm_f1064 [simp]: "nmul 84721308479397908660649912348219163648144591032694218519 84721308479397908660649912348219163648144591032694218519 = 7177700110461299978211932236657794266571298893399843722090573617271069083827824356189001975192673382568122553361"
  by (simp only: nmul_def arith_simps rel_simps numeral_times_numeral numeral_plus_numeral)

lemma sq_f1065 [simp]: "sqrt_newton 7177700110461299978211932236657794266571298893399843722000000000000000000000000000000000000000000000000000000000 100000000000000000000000000000000000000000000000000000000 = 84721308479397908660649912348219163648144591032694218518"
  by (rule sqrt_newton_cert' [where ?r1.0 = 84721308479397908660649912348219163648144591032694218519]) simp_all

lemma nm_f1066 [simp]: "nmul 16944261695879581732129982469643832729628918206538843703 5 = 84721308479397908660649912348219163648144591032694218515"
  by (simp only: nmul_def arith_simps rel_simps numeral_times_numeral numeral_plus_numeral)

lemma nd_f1067 [simp]: "ndiv 84721308479397908660649912348219163648144591032694218518 5 = 16944261695879581732129982469643832729628918206538843703 \<and> nmod 84721308479397908660649912348219163648144591032694218518 5 = 3"
  by (rule ndivmod_cert [where r = 3]) simp_all

lemma dg_f1068 [simp]: "ndigits 84721308479397908660649912348219163648144591032694218518 = 56"
  by (rule ndigits_cert [where j = 55]) simp_all

lemma nm_f1069 [simp]: "nmul 8472130847939790866064991234821916364814459103269421851 10 = 84721308479397908660649912348219163648144591032694218510"
  by (simp only: nmul_def arith_simps rel_simps numeral_times_numeral numeral_plus_numeral)

lemma nd_f1070 [simp]: "ndiv 84721308479397908660649912348219163648144591032694218518 10 = 8472130847939790866064991234821916364814459103269421851 \<and> nmod 84721308479397908660649912348219163648144591032694218518 10 = 8"
  by (rule ndivmod_cert [where r = 8]) simp_all

lemma dg_f1071 [simp]: "ndigits 8472130847939790866064991234821916364814459103269421852 = 55"
  by (rule ndigits_cert [where j = 54]) simp_all

lemma im_f1072 [simp]: "imul 847213084793979086606499123482191636481445910326942185 10 = 8472130847939790866064991234821916364814459103269421850"
  by (simp only: imul_def arith_simps rel_simps numeral_times_numeral numeral_plus_numeral)

lemma dg_f1073 [simp]: "ndigits 741326155195 = 12"
  by (rule ndigits_cert [where j = 11]) simp_all

lemma im_f1074 [simp]: "imul 741326155195 741326155195 = 549564468376201225488025"
  by (simp only: imul_def arith_simps rel_simps numeral_times_numeral numeral_plus_numeral)

lemma dg_f1075 [simp]: "ndigits 549564468376201225488025 = 24"
  by (rule ndigits_cert [where j = 23]) simp_all

lemma im_f1076 [simp]: "imul 32 549564468376201225488025 = 17586062988038439215616800"
  by (simp only: imul_def arith_simps rel_simps numeral_times_numeral numeral_plus_numeral)

lemma dg_f1077 [simp]: "ndigits 17586062988038439215616800 = 26"
  by (rule ndigits_cert [where j = 25]) simp_all

lemma im_f1078 [simp]: "imul 2284732905222318126874833112738416683058838650074157542 10000000000000000000000000000000000000000000000000000000 = 22847329052223181268748331127384166830588386500741575420000000000000000000000000000000000000000000000000000000"
  by (simp only: imul_def arith_simps rel_simps numeral_times_numeral numeral_plus_numeral)

lemma dg_f1079 [simp]: "ndigits 22847329052223181268748331127384166830588386500741575419999999999999999999999999999982413937011961560784383200 = 110"
  by (rule ndigits_cert [where j = 109]) simp_all

lemma nm_f1080 [simp]: "nmul 2284732905222318126874833112738416683058838650074157541 10000000000000000000000000000000000000000000000000000000 = 22847329052223181268748331127384166830588386500741575410000000000000000000000000000000000000000000000000000000"
  by (simp only: nmul_def arith_simps rel_simps numeral_times_numeral numeral_plus_numeral)

lemma nd_f1081 [simp]: "ndiv 22847329052223181268748331127384166830588386500741575419999999999999999999999999999982413937011961560784383200 10000000000000000000000000000000000000000000000000000000 = 2284732905222318126874833112738416683058838650074157541 \<and> nmod 22847329052223181268748331127384166830588386500741575419999999999999999999999999999982413937011961560784383200 10000000000000000000000000000000000000000000000000000000 = 9999999999999999999999999999982413937011961560784383200"
  by (rule ndivmod_cert [where r = 9999999999999999999999999999982413937011961560784383200]) simp_all

lemma im_f1082 [simp]: "imul 2 32 = 64"
  by (simp only: imul_def arith_simps rel_simps numeral_times_numeral numeral_plus_numeral)

lemma dg_f1083 [simp]: "ndigits 64 = 2"
  by (rule ndigits_cert [where j = 1]) simp_all

lemma next_n50_5: "gl_next 55 \<lparr>a_n = \<lparr>coeff = 8472130847939790866064991234821916364814459844595577045, expo = (- 55)\<rparr>, b_n = \<lparr>coeff = 8472130847939790866064991234821916364814458361943266659, expo = (- 55)\<rparr>, t_n = \<lparr>coeff = 2284732905222318126874833112738416683058838650074157542, expo = (- 55)\<rparr>, p_n = \<lparr>coeff = 32, expo = 0\<rparr>\<rparr> = Inr \<lparr>a_n = \<lparr>coeff = 847213084793979086606499123482191636481445910326942185, expo = (- 54)\<rparr>, b_n = \<lparr>coeff = 8472130847939790866064991234821916364814459103269421852, expo = (- 55)\<rparr>, t_n = \<lparr>coeff = 2284732905222318126874833112738416683058838650074157542, expo = (- 55)\<rparr>, p_n = \<lparr>coeff = 64, expo = 0\<rparr>\<rparr>"
  by (simp add: ev cong: let_weak_cong)

lemma conv_n50_5: "converged \<lparr>a_n = \<lparr>coeff = 8472130847939790866064991234821916364814459844595577045, expo = (- 55)\<rparr>, b_n = \<lparr>coeff = 8472130847939790866064991234821916364814458361943266659, expo = (- 55)\<rparr>, t_n = \<lparr>coeff = 2284732905222318126874833112738416683058838650074157542, expo = (- 55)\<rparr>, p_n = \<lparr>coeff = 32, expo = 0\<rparr>\<rparr> \<lparr>a_n = \<lparr>coeff = 847213084793979086606499123482191636481445910326942185, expo = (- 54)\<rparr>, b_n = \<lparr>coeff = 8472130847939790866064991234821916364814459103269421852, expo = (- 55)\<rparr>, t_n = \<lparr>coeff = 2284732905222318126874833112738416683058838650074157542, expo = (- 55)\<rparr>, p_n = \<lparr>coeff = 64, expo = 0\<rparr>\<rparr> = False"
  by (simp add: ev cong: let_weak_cong)

lemma dg_f1084 [simp]: "ndigits 16944261695879581732129982469643832729628918206538843702 = 56"
  by (rule ndigits_cert [where j = 55]) simp_all

lemma nd_f1085 [simp]: "ndiv 16944261695879581732129982469643832729628918206538843702 10 = 1694426169587958173212998246964383272962891820653884370 \<and> nmod 16944261695879581732129982469643832729628918206538843702 10 = 2"
  by (rule ndivmod_cert [where r = 2]) simp_all

lemma im_f1086 [simp]: "imul 847213084793979086606499123482191636481445910326942185 8472130847939790866064991234821916364814459103269421852 = 7177700110461299978211932236657794266571298893399843720565590064641906727936125933921057029526070743979626620"
  by (simp only: imul_def arith_simps rel_simps numeral_times_numeral numeral_plus_numeral)

lemma dg_f1087 [simp]: "ndigits 7177700110461299978211932236657794266571298893399843720565590064641906727936125933921057029526070743979626620 = 109"
  by (rule ndigits_cert [where j = 108]) simp_all

lemma nm_f1088 [simp]: "nmul 7177700110461299978211932236657794266571298893399843720 1000000000000000000000000000000000000000000000000000000 = 7177700110461299978211932236657794266571298893399843720000000000000000000000000000000000000000000000000000000"
  by (simp only: nmul_def arith_simps rel_simps numeral_times_numeral numeral_plus_numeral)

lemma nd_f1089 [simp]: "ndiv 7177700110461299978211932236657794266571298893399843720565590064641906727936125933921057029526070743979626620 1000000000000000000000000000000000000000000000000000000 = 7177700110461299978211932236657794266571298893399843720 \<and> nmod 7177700110461299978211932236657794266571298893399843720565590064641906727936125933921057029526070743979626620 1000000000000000000000000000000000000000000000000000000 = 565590064641906727936125933921057029526070743979626620"
  by (rule ndivmod_cert [where r = 565590064641906727936125933921057029526070743979626620]) simp_all

lemma dg_f1090 [simp]: "ndigits 7177700110461299978211932236657794266571298893399843721 = 55"
  by (rule ndigits_cert [where j = 54]) simp_all

lemma nm_f1091 [simp]: "nmul 71777001104612999782119322366577942665712988933998437210 100000000000000000000000000000000000000000000000000000000 = 7177700110461299978211932236657794266571298893399843721000000000000000000000000000000000000000000000000000000000"
  by (simp only: nmul_def arith_simps rel_simps numeral_times_numeral numeral_plus_numeral)

lemma nm_f1092 [simp]: "nmul 84721308479397908660649912348219163648144591032694218512 84721308479397908660649912348219163648144591032694218512 = 7177700110461299978211932236657794266571298893399843720904475298559498362578725583313933684118649108110403494144"
  by (simp only: nmul_def arith_simps rel_simps numeral_times_numeral numeral_plus_numeral)

lemma nm_f1093 [simp]: "nmul 84721308479397908660649912348219163648144591032694218513 84721308479397908660649912348219163648144591032694218513 = 7177700110461299978211932236657794266571298893399843721073917915518294179900025408010372011414938290175791931169"
  by (simp only: nmul_def arith_simps rel_simps numeral_times_numeral numeral_plus_numeral)

lemma sq_f1094 [simp]: "sqrt_newton 7177700110461299978211932236657794266571298893399843721000000000000000000000000000000000000000000000000000000000 100000000000000000000000000000000000000000000000000000000 = 84721308479397908660649912348219163648144591032694218512"
  by (rule sqrt_newton_cert' [where ?r1.0 = 84721308479397908660649912348219163648144591032694218513]) simp_all

lemma nm_f1095 [simp]: "nmul 16944261695879581732129982469643832729628918206538843702 5 = 84721308479397908660649912348219163648144591032694218510"
  by (simp only: nmul_def arith_simps rel_simps numeral_times_numeral numeral_plus_numeral)

lemma nd_f1096 [simp]: "ndiv 84721308479397908660649912348219163648144591032694218512 5 = 16944261695879581732129982469643832729628918206538843702 \<and> nmod 84721308479397908660649912348219163648144591032694218512 5 = 2"
  by (rule ndivmod_cert [where r = 2]) simp_all

lemma dg_f1097 [simp]: "ndigits 84721308479397908660649912348219163648144591032694218512 = 56"
  by (rule ndigits_cert [where j = 55]) simp_all

lemma nd_f1098 [simp]: "ndiv 84721308479397908660649912348219163648144591032694218512 10 = 8472130847939790866064991234821916364814459103269421851 \<and> nmod 84721308479397908660649912348219163648144591032694218512 10 = 2"
  by (rule ndivmod_cert [where r = 2]) simp_all

lemma dg_f1099 [simp]: "ndigits 8472130847939790866064991234821916364814459103269421851 = 55"
  by (rule ndigits_cert [where j = 54]) simp_all

lemma im_f1100 [simp]: "imul 2 64 = 128"
  by (simp only: imul_def arith_simps rel_simps numeral_times_numeral numeral_plus_numeral)

lemma dg_f1101 [simp]: "ndigits 128 = 3"
  by (rule ndigits_cert [where j = 2]) simp_all

lemma next_n50_6: "gl_next 55 \<lparr>a_n = \<lparr>coeff = 847213084793979086606499123482191636481445910326942185, expo = (- 54)\<rparr>, b_n = \<lparr>coeff = 8472130847939790866064991234821916364814459103269421852, expo = (- 55)\<rparr>, t_n = \<lparr>coeff = 2284732905222318126874833112738416683058838650074157542, expo = (- 55)\<rparr>, p_n = \<lparr>coeff = 64, expo = 0\<rparr>\<rparr> = Inr \<lparr>a_n = \<lparr>coeff = 847213084793979086606499123482191636481445910326942185, expo = (- 54)\<rparr>, b_n = \<lparr>coeff = 8472130847939790866064991234821916364814459103269421851, expo = (- 55)\<rparr>, t_n = \<lparr>coeff = 2284732905222318126874833112738416683058838650074157542, expo = (- 55)\<rparr>, p_n = \<lparr>coeff = 128, expo = 0\<rparr>\<rparr>"
  by (simp add: ev cong: let_weak_cong)

lemma conv_n50_6: "converged \<lparr>a_n = \<lparr>coeff = 847213084793979086606499123482191636481445910326942185, expo = (- 54)\<rparr>, b_n = \<lparr>coeff = 8472130847939790866064991234821916364814459103269421852, expo = (- 55)\<rparr>, t_n = \<lparr>coeff = 2284732905222318126874833112738416683058838650074157542, expo = (- 55)\<rparr>, p_n = \<lparr>coeff = 64, expo = 0\<rparr>\<rparr> \<lparr>a_n = \<lparr>coeff = 847213084793979086606499123482191636481445910326942185, expo = (- 54)\<rparr>, b_n = \<lparr>coeff = 8472130847939790866064991234821916364814459103269421851, expo = (- 55)\<rparr>, t_n = \<lparr>coeff = 2284732905222318126874833112738416683058838650074157542, expo = (- 55)\<rparr>, p_n = \<lparr>coeff = 128, expo = 0\<rparr>\<rparr> = True"
  by (simp add: ev cong: let_weak_cong)

lemma loop_n50: "gl_loop 55 \<lparr>a_n = \<lparr>coeff = 1, expo = 0\<rparr>, b_n = \<lparr>coeff = 7071067811865475244008443621048490392848359376884740367, expo = (- 55)\<rparr>, t_n = \<lparr>coeff = 25, expo = (- 2)\<rparr>, p_n = \<lparr>coeff = 1, expo = 0\<rparr>\<rparr> = Some (Inr \<lparr>a_n = \<lparr>coeff = 847213084793979086606499123482191636481445910326942185, expo = (- 54)\<rparr>, b_n = \<lparr>coeff = 8472130847939790866064991234821916364814459103269421852, expo = (- 55)\<rparr>, t_n = \<lparr>coeff = 2284732905222318126874833112738416683058838650074157542, expo = (- 55)\<rparr>, p_n = \<lparr>coeff = 64, expo = 0\<rparr>\<rparr>)"
  apply (subst gl_loop.simps, simp add: next_n50_0 conv_n50_0)
  apply (subst gl_loop.simps, simp add: next_n50_1 conv_n50_1)
  apply (subst gl_loop.simps, simp add: next_n50_2 conv_n50_2)
  apply (subst gl_loop.simps, simp add: next_n50_3 conv_n50_3)
  apply (subst gl_loop.simps, simp add: next_n50_4 conv_n50_4)
  apply (subst gl_loop.simps, simp add: next_n50_5 conv_n50_5)
  apply (subst gl_loop.simps, simp add: next_n50_6 conv_n50_6)
  done

lemma im_f1102 [simp]: "imul 1694426169587958173212998246964383272962891820653884370 1694426169587958173212998246964383272962891820653884370 = 2871080044184519991284772894663117706628519557359937487548465558021579421889251074782669502625271569330296900"
  by (simp only: imul_def arith_simps rel_simps numeral_times_numeral numeral_plus_numeral)

lemma dg_f1103 [simp]: "ndigits 2871080044184519991284772894663117706628519557359937487548465558021579421889251074782669502625271569330296900 = 109"
  by (rule ndigits_cert [where j = 108]) simp_all

lemma nm_f1104 [simp]: "nmul 2871080044184519991284772894663117706628519557359937487548 1000000000000000000000000000000000000000000000000000 = 2871080044184519991284772894663117706628519557359937487548000000000000000000000000000000000000000000000000000"
  by (simp only: nmul_def arith_simps rel_simps numeral_times_numeral numeral_plus_numeral)

lemma nd_f1105 [simp]: "ndiv 2871080044184519991284772894663117706628519557359937487548465558021579421889251074782669502625271569330296900 1000000000000000000000000000000000000000000000000000 = 2871080044184519991284772894663117706628519557359937487548 \<and> nmod 2871080044184519991284772894663117706628519557359937487548465558021579421889251074782669502625271569330296900 1000000000000000000000000000000000000000000000000000 = 465558021579421889251074782669502625271569330296900"
  by (rule ndivmod_cert [where r = 465558021579421889251074782669502625271569330296900]) simp_all

lemma dg_f1106 [simp]: "ndigits 2871080044184519991284772894663117706628519557359937487548 = 58"
  by (rule ndigits_cert [where j = 57]) simp_all

lemma nm_f1107 [simp]: "nmul 2871080044184519991284772894663117706628519557359937487 1000 = 2871080044184519991284772894663117706628519557359937487000"
  by (simp only: nmul_def arith_simps rel_simps numeral_times_numeral numeral_plus_numeral)

lemma nd_f1108 [simp]: "ndiv 2871080044184519991284772894663117706628519557359937487548 1000 = 2871080044184519991284772894663117706628519557359937487 \<and> nmod 2871080044184519991284772894663117706628519557359937487548 1000 = 548"
  by (rule ndivmod_cert [where r = 548]) simp_all

lemma dg_f1109 [simp]: "ndigits 2871080044184519991284772894663117706628519557359937488 = 55"
  by (rule ndigits_cert [where j = 54]) simp_all

lemma im_f1110 [simp]: "imul 4 2284732905222318126874833112738416683058838650074157542 = 9138931620889272507499332450953666732235354600296630168"
  by (simp only: imul_def arith_simps rel_simps numeral_times_numeral numeral_plus_numeral)

lemma dg_f1111 [simp]: "ndigits 9138931620889272507499332450953666732235354600296630168 = 55"
  by (rule ndigits_cert [where j = 54]) simp_all

lemma nm_f1112 [simp]: "nmul 2871080044184519991284772894663117706628519557359937488 100000000000000000000000000000000000000000000000000000000 = 287108004418451999128477289466311770662851955735993748800000000000000000000000000000000000000000000000000000000"
  by (simp only: nmul_def arith_simps rel_simps numeral_times_numeral numeral_plus_numeral)

lemma nm_f1113 [simp]: "nmul 31415926535897932384626433832795028841971693993751058209 9138931620889272507499332450953666732235354600296630168 = 287108004418451999128477289466311770662851955735993748792598635019787570976270766719899394832966878746713449112"
  by (simp only: nmul_def arith_simps rel_simps numeral_times_numeral numeral_plus_numeral)

lemma nd_f1114 [simp]: "ndiv 287108004418451999128477289466311770662851955735993748800000000000000000000000000000000000000000000000000000000 9138931620889272507499332450953666732235354600296630168 = 31415926535897932384626433832795028841971693993751058209 \<and> nmod 287108004418451999128477289466311770662851955735993748800000000000000000000000000000000000000000000000000000000 9138931620889272507499332450953666732235354600296630168 = 7401364980212429023729233280100605167033121253286550888"
  by (rule ndivmod_cert [where r = 7401364980212429023729233280100605167033121253286550888]) simp_all

lemma nm_f1115 [simp]: "nmul 6283185307179586476925286766559005768394338798750211641 5 = 31415926535897932384626433832795028841971693993751058205"
  by (simp only: nmul_def arith_simps rel_simps numeral_times_numeral numeral_plus_numeral)

lemma nd_f1116 [simp]: "ndiv 31415926535897932384626433832795028841971693993751058209 5 = 6283185307179586476925286766559005768394338798750211641 \<and> nmod 31415926535897932384626433832795028841971693993751058209 5 = 4"
  by (rule ndivmod_cert [where r = 4]) simp_all

lemma dg_f1117 [simp]: "ndigits 31415926535897932384626433832795028841971693993751058209 = 56"
  by (rule ndigits_cert [where j = 55]) simp_all

lemma nm_f1118 [simp]: "nmul 3141592653589793238462643383279502884197169399375105820 10 = 31415926535897932384626433832795028841971693993751058200"
  by (simp only: nmul_def arith_simps rel_simps numeral_times_numeral numeral_plus_numeral)

lemma nd_f1119 [simp]: "ndiv 31415926535897932384626433832795028841971693993751058209 10 = 3141592653589793238462643383279502884197169399375105820 \<and> nmod 31415926535897932384626433832795028841971693993751058209 10 = 9"
  by (rule ndivmod_cert [where r = 9]) simp_all

lemma dg_f1120 [simp]: "ndigits 3141592653589793238462643383279502884197169399375105821 = 55"
  by (rule ndigits_cert [where j = 54]) simp_all

lemma value_n50: "pi_value 55 \<lparr>a_n = \<lparr>coeff = 847213084793979086606499123482191636481445910326942185, expo = (- 54)\<rparr>, b_n = \<lparr>coeff = 8472130847939790866064991234821916364814459103269421852, expo = (- 55)\<rparr>, t_n = \<lparr>coeff = 2284732905222318126874833112738416683058838650074157542, expo = (- 55)\<rparr>, p_n = \<lparr>coeff = 64, expo = 0\<rparr>\<rparr> = Inr \<lparr>coeff = 3141592653589793238462643383279502884197169399375105821, expo = (- 54)\<rparr>"
  by (simp add: ev cong: let_weak_cong)

lemma nm_f1121 [simp]: "nmul 314159265358979323846264338327950288419716939937510 10000 = 3141592653589793238462643383279502884197169399375100000"
  by (simp only: nmul_def arith_simps rel_simps numeral_times_numeral numeral_plus_numeral)

lemma nd_f1122 [simp]: "ndiv 3141592653589793238462643383279502884197169399375105821 10000 = 314159265358979323846264338327950288419716939937510 \<and> nmod 3141592653589793238462643383279502884197169399375105821 10000 = 5821"
  by (rule ndivmod_cert [where r = 5821]) simp_all

lemma dg_f1123 [simp]: "ndigits 314159265358979323846264338327950288419716939937510 = 51"
  by (rule ndigits_cert [where j = 50]) simp_all

lemma quant_n50: "quantize_down 55 \<lparr>coeff = 3141592653589793238462643383279502884197169399375105821, expo = (- 54)\<rparr> (- 50) = Inr \<lparr>coeff = 314159265358979323846264338327950288419716939937510, expo = (- 50)\<rparr>"
  by (simp add: ev cong: let_weak_cong)

lemma compute_n50: "compute_pi 55 50 = Some (Inr \<lparr>coeff = 314159265358979323846264338327950288419716939937510, expo = (- 50)\<rparr>)"
  by (simp add: compute_pi_def init_n50 loop_n50 value_n50 quant_n50)

lemma calc_n50: "calculate_pi (PyInt 50) c = Some (Inr \<lparr>coeff = 314159265358979323846264338327950288419716939937510, expo = (- 50)\<rparr>, c\<lparr>prec := 55\<rparr>)"
  by (simp add: calculate_pi_def py_int_def MAX_DIGITS_def compute_n50)

lemma strnat_n50: "str_nat 314159265358979323846264338327950288419716939937510 = ''314159265358979323846264338327950288419716939937510''"
  by (rule str_nat_cert) (simp_all add: digits_val_def digit_val_def is_digit_def)

lemma str_n50: "str_decimal \<lparr>coeff = 314159265358979323846264338327950288419716939937510, expo = (- 50)\<rparr> = ''3.14159265358979323846264338327950288419716939937510''"
  by (simp add: str_decimal_def Let_def strnat_n50)

lemma printed_n50: "printed (calculate_pi (PyInt 50) c) = Some (Inr ''3.14159265358979323846264338327950288419716939937510'')"
  by (simp add: printed_def calc_n50 str_n50)


section \<open>The claims\<close>






text \<open>
  C1 (reference inputs): \<open>calculate_pi(0)\<close> prints as \<open>3\<close>, \<open>calculate_pi(10)\<close> as
  \<open>3.1415926535\<close>, and \<open>calculate_pi(50)\<close> as the known first 50 decimals of \<open>\<pi>\<close>.
\<close>

theorem calculate_pi_reference_digits:
  "printed (calculate_pi (PyInt 0) c) = Some (Inr ''3'')
   \<and> printed (calculate_pi (PyInt 10) c) = Some (Inr ''3.1415926535'')
   \<and> printed (calculate_pi (PyInt 50) c) =
       Some (Inr ''3.14159265358979323846264338327950288419716939937510'')"
  by (simp add: printed_n0 printed_n10 printed_n50)

text \<open>
  C10 (implicit coercion): \<open>calculate_pi\<close> treats its argument as \<open>int()\<close> does. Whatever
  \<open>int()\<close> converts to \<open>n\<close> is handled as the int \<open>n\<close>; the float \<open>2.9\<close> (the double
  \<open>6530219459687219 * 2 ^ -51\<close>) is cut to 2 and gives \<open>3.14\<close>; and the decimal
  string of a number is handled as that number.
\<close>

theorem calculate_pi_coerces_with_int:
  "(py_int x = Inr n \<longrightarrow> calculate_pi x c = calculate_pi (PyInt n) c)
   \<and> calculate_pi (PyFloat (Finite 6530219459687219 (- 51))) c = calculate_pi (PyInt 2) c
   \<and> printed (calculate_pi (PyFloat (Finite 6530219459687219 (- 51))) c) = Some (Inr ''3.14'')
   \<and> (ndigits k \<le> max_str_digits \<longrightarrow>
        calculate_pi (PyStr (str_nat k)) c = calculate_pi (PyInt (int k)) c)"
proof -
  have f: "py_int (PyFloat (Finite 6530219459687219 (- 51))) = Inr 2"
    by (simp add: py_int_def int_of_float_def)
  have a: "py_int x = Inr n \<longrightarrow> calculate_pi x c = calculate_pi (PyInt n) c"
    by (simp add: calculate_pi_def py_int_def)
  have b: "calculate_pi (PyFloat (Finite 6530219459687219 (- 51))) c = calculate_pi (PyInt 2) c"
    using f by (simp add: calculate_pi_def py_int_def)
  have s: "ndigits k \<le> max_str_digits \<longrightarrow>
        calculate_pi (PyStr (str_nat k)) c = calculate_pi (PyInt (int k)) c"
    by (simp add: calculate_pi_def py_int_def int_of_str_str_nat)
  from a b s show ?thesis by (simp add: printed_n2)
qed

text \<open>Witness for C10: the string \<open>10\<close>, which \<open>int()\<close> converts to 10.\<close>

theorem calculate_pi_coerces_with_int_witness:
  "py_int (PyStr ''10'') = Inr 10
   \<and> calculate_pi (PyStr ''10'') \<lparr>prec = 28\<rparr> = calculate_pi (PyInt 10) \<lparr>prec = 28\<rparr>
   \<and> ndigits 10 \<le> max_str_digits
   \<and> calculate_pi (PyStr (str_nat 10)) \<lparr>prec = 28\<rparr> = calculate_pi (PyInt (int 10)) \<lparr>prec = 28\<rparr>"
proof -
  have s: "str_nat 10 = ''10''"
    by (rule str_nat_cert) (simp_all add: digits_val_def digit_val_def is_digit_def)
  have d: "ndigits 10 \<le> max_str_digits"
    by (simp add: ndigits.simps max_str_digits_def)
  have p: "py_int (PyStr ''10'') = Inr 10"
    using int_of_str_str_nat [OF d] by (simp add: py_int_def s)
  from calculate_pi_coerces_with_int [of "PyStr ''10''" 10 "\<lparr>prec = 28\<rparr>" 10] p d s
  show ?thesis by simp
qed


section \<open>The exceptions of the computation\<close>



















section \<open>The returned value: truncation and the iteration\<close>

lemma dec_val_shift:
  "dec_val \<lparr>coeff = c * 10 ^ k, expo = e\<rparr> = dec_val \<lparr>coeff = c, expo = e + int k\<rparr>"
  by (simp add: dec_val_def power_int_add power_int_of_nat algebra_simps del: power_int_of_nat flip: power_int_of_nat)

lemma rescale_down_exact: "e \<le> expo x \<Longrightarrow> dec_val (rescale_down x e) = dec_val x"
proof -
  assume le: "e \<le> expo x"
  have "rescale_down x e = \<lparr>coeff = coeff x * 10 ^ nat (expo x - e), expo = e\<rparr>"
    using le by (simp add: rescale_down_def)
  also have "dec_val \<dots> = dec_val \<lparr>coeff = coeff x, expo = e + int (nat (expo x - e))\<rparr>"
    by (rule dec_val_shift)
  also have "\<dots> = dec_val x" using le by (simp add: dec_val_def)
  finally show ?thesis .
qed

lemma div_real_bounds:
  fixes a b :: nat
  assumes "0 < b"
  shows "real (a div b) * real b \<le> real a \<and> real a < (real (a div b) + 1) * real b"
proof -
  have "(a div b) * b \<le> a" by simp
  then have 1: "real (a div b) * real b \<le> real a"
    by (metis of_nat_mult of_nat_le_iff)
  have "a < (a div b + 1) * b" using assms
    by (metis Suc_eq_plus1 dividend_less_div_times mult.commute add.commute mult_Suc)
  then have 2: "real a < (real (a div b) + 1) * real b"
    by (metis of_nat_mult of_nat_less_iff of_nat_add of_nat_1)
  from 1 2 show ?thesis by simp
qed

lemma rescale_down_cut:
  assumes lt: "expo x < e"
  shows "\<bar>dec_val (rescale_down x e)\<bar> \<le> \<bar>dec_val x\<bar>
         \<and> \<bar>dec_val x\<bar> < \<bar>dec_val (rescale_down x e)\<bar> + 10 powi e"
proof -
  define k where "k = nat (e - expo x)"
  define a where "a = nat \<bar>coeff x\<bar>"
  define q where "q = a div 10 ^ k"
  have ek: "expo x = e - int k" using lt by (simp add: k_def)
  have r: "rescale_down x e = \<lparr>coeff = sgn (coeff x) * int q, expo = e\<rparr>"
    using lt by (simp add: rescale_down_def q_def a_def k_def)
  have pw: "(10::real) powi expo x * 10 ^ k = 10 powi e"
    by (simp add: ek power_int_diff power_int_of_nat del: power_int_of_nat flip: power_int_of_nat)
  have pos: "(0::real) < 10 powi expo x" by simp
  have absx: "\<bar>dec_val x\<bar> = real a * 10 powi expo x"
    by (simp add: dec_val_def abs_mult a_def)
  have q0: "coeff x = 0 \<Longrightarrow> q = 0" by (simp add: q_def a_def)
  have absr: "\<bar>dec_val (rescale_down x e)\<bar> = real q * 10 powi e"
    using q0 by (cases "coeff x = 0") (simp_all add: r dec_val_def abs_mult sgn_if)
  from div_real_bounds [of "10 ^ k" a]
  have b: "real q * 10 ^ k \<le> real a" "real a < (real q + 1) * 10 ^ k"
    by (simp_all add: q_def)
  have "real q * 10 powi e = (real q * 10 ^ k) * 10 powi expo x"
    using pw by (simp add: mult.assoc mult.commute)
  also have "\<dots> \<le> real a * 10 powi expo x"
    using b(1) pos by (simp add: mult_right_mono)
  finally have 1: "real q * 10 powi e \<le> real a * 10 powi expo x" .
  have "real a * 10 powi expo x < ((real q + 1) * 10 ^ k) * 10 powi expo x"
    using b(2) pos by (simp add: mult_strict_right_mono)
  also have "\<dots> = (real q + 1) * 10 powi e"
    using pw by (simp add: mult.assoc mult.commute)
  finally have 2: "real a * 10 powi expo x < real q * 10 powi e + 10 powi e"
    by (simp add: algebra_simps)
  from 1 2 show ?thesis by (simp add: absx absr)
qed

lemma quantize_down_cases:
  "quantize_down p v e = Inr d \<Longrightarrow>
     d = rescale_down v e \<or> (coeff v = 0 \<and> d = \<lparr>coeff = 0, expo = e\<rparr>)"
  by (auto simp: quantize_down_def Let_def split: if_splits)

lemma rescale_down_expo: "expo (rescale_down v e) = e"
  by (simp add: rescale_down_def)

lemma rescale_down_sgn:
  "coeff (rescale_down v e) \<noteq> 0 \<Longrightarrow> sgn (coeff (rescale_down v e)) = sgn (coeff v)"
  by (auto simp: rescale_down_def sgn_mult split: if_splits)

lemma rescale_down_trunc:
  "\<bar>dec_val (rescale_down v e)\<bar> \<le> \<bar>dec_val v\<bar>
   \<and> \<bar>dec_val v\<bar> < \<bar>dec_val (rescale_down v e)\<bar> + 10 powi e"
proof (cases "e \<le> expo v")
  case True
  then show ?thesis by (simp add: rescale_down_exact)
next
  case False
  then show ?thesis using rescale_down_cut [of v e] by simp
qed

lemma quantize_down_trunc:
  assumes "quantize_down p v e = Inr d"
  shows "expo d = e"
    and "\<bar>dec_val d\<bar> \<le> \<bar>dec_val v\<bar>"
    and "\<bar>dec_val v\<bar> < \<bar>dec_val d\<bar> + 10 powi e"
    and "coeff d \<noteq> 0 \<Longrightarrow> sgn (coeff d) = sgn (coeff v)"
proof -
  from quantize_down_cases [OF assms]
  consider (cut) "d = rescale_down v e" | (zero) "coeff v = 0" "d = \<lparr>coeff = 0, expo = e\<rparr>"
    by blast
  then have "expo d = e \<and> \<bar>dec_val d\<bar> \<le> \<bar>dec_val v\<bar> \<and> \<bar>dec_val v\<bar> < \<bar>dec_val d\<bar> + 10 powi e
             \<and> (coeff d \<noteq> 0 \<longrightarrow> sgn (coeff d) = sgn (coeff v))"
  proof cases
    case cut
    then show ?thesis
      using rescale_down_trunc [of v e] by (simp add: rescale_down_expo rescale_down_sgn)
  next
    case zero
    then show ?thesis by (simp add: dec_val_def)
  qed
  then show "expo d = e" "\<bar>dec_val d\<bar> \<le> \<bar>dec_val v\<bar>"
    "\<bar>dec_val v\<bar> < \<bar>dec_val d\<bar> + 10 powi e"
    "coeff d \<noteq> 0 \<Longrightarrow> sgn (coeff d) = sgn (coeff v)"
    by simp_all
qed

lemma ndigits_gt: "10 ^ n \<le> m \<Longrightarrow> n < ndigits m"
proof (induction n arbitrary: m)
  case 0
  then show ?case by (subst ndigits.simps) simp
next
  case (Suc n)
  have "10 ^ n \<le> m div 10" using Suc.prems by (simp add: less_eq_div_iff_mult_less_eq)
  then have "n < ndigits (m div 10)" by (rule Suc.IH)
  moreover have "\<not> m < 10" using Suc.prems
    by (metis One_nat_def le_trans not_less one_le_numeral one_le_power power_Suc mult.right_neutral mult_le_mono2)
  ultimately show ?case by (subst ndigits.simps) simp
qed

lemma str_decimal_fixed:
  assumes e: "expo d = - int n" and big: "10 ^ n \<le> nat \<bar>coeff d\<bar>"
  shows "str_decimal d =
           (if coeff d < 0 then ''-'' else [])
           @ take (ndigits (nat \<bar>coeff d\<bar>) - n) (str_nat (nat \<bar>coeff d\<bar>))
           @ (if n = 0 then [] else ''.'' @ drop (ndigits (nat \<bar>coeff d\<bar>) - n) (str_nat (nat \<bar>coeff d\<bar>)))"
proof -
  have lt: "n < ndigits (nat \<bar>coeff d\<bar>)" using big by (rule ndigits_gt)
  then have eq: "nat (int (ndigits (nat \<bar>coeff d\<bar>)) - int n) = ndigits (nat \<bar>coeff d\<bar>) - n"
    by simp
  show ?thesis
  proof (cases "n = 0")
    case True
    then show ?thesis using e str_nat_digits [of "nat \<bar>coeff d\<bar>"]
      by (simp add: str_decimal_def Let_def length_str_nat)
  next
    case False
    then show ?thesis using e lt eq by (simp add: str_decimal_def Let_def length_str_nat)
  qed
qed

lemma compute_pi_Inr:
  "compute_pi p n = Some (Inr d) \<Longrightarrow>
     \<exists>s0 s v. gl_init p = Inr s0 \<and> gl_loop p s0 = Some (Inr s) \<and> pi_value p s = Inr v
              \<and> quantize_down p v (- int n) = Inr d"
  by (auto simp: compute_pi_def split: sum.splits option.splits)

lemma calculate_pi_Inr:
  "calculate_pi x c = Some (Inr d, c') \<Longrightarrow>
     \<exists>n. py_int x = Inr (int n) \<and> n \<le> 10000 \<and> c' = c\<lparr>prec := n + 5\<rparr>
          \<and> compute_pi (n + 5) n = Some (Inr d)"
proof -
  assume a: "calculate_pi x c = Some (Inr d, c')"
  then obtain m where m: "py_int x = Inr m" "0 \<le> m" "m \<le> 10000"
    and r: "map_option (\<lambda>r. (r, c\<lparr>prec := nat m + 5\<rparr>)) (compute_pi (nat m + 5) (nat m)) = Some (Inr d, c')"
    by (auto simp: calculate_pi_def Let_def MAX_DIGITS_def split: sum.splits int_error.splits if_splits)
  from r have "c' = c\<lparr>prec := nat m + 5\<rparr>" "compute_pi (nat m + 5) (nat m) = Some (Inr d)"
    by auto
  with m show ?thesis by (intro exI [of _ "nat m"]) simp
qed

text \<open>
  C6. A successful call for \<open>n\<close> digits returns a Decimal \<open>d\<close> with exponent \<open>- n\<close>, that is
  with exactly \<open>n\<close> digits after the decimal point. It is the estimate \<open>v\<close> of line 51 cut
  toward zero at that place: \<open>\<bar>d\<bar> \<le> \<bar>v\<bar> < \<bar>d\<bar> + 10\<^sup>-\<^sup>n\<close> with the sign of \<open>v\<close>, never rounded
  up. When the integer part is not zero, \<open>str(d)\<close> is the sign, the integer digits and, for
  \<open>n > 0\<close>, a point followed by exactly \<open>n\<close> digits; for \<open>n = 0\<close> there is no point, and
  \<open>calculate_pi(0)\<close> prints \<open>3\<close>.
\<close>

theorem calculate_pi_truncates:
  assumes "calculate_pi x c = Some (Inr d, c')"
  shows "(\<exists>n s0 s v.
           py_int x = Inr (int n)
           \<and> gl_init (n + 5) = Inr s0 \<and> gl_loop (n + 5) s0 = Some (Inr s)
           \<and> pi_value (n + 5) s = Inr v
           \<and> expo d = - int n
           \<and> \<bar>dec_val d\<bar> \<le> \<bar>dec_val v\<bar>
           \<and> \<bar>dec_val v\<bar> < \<bar>dec_val d\<bar> + 10 powi (- int n)
           \<and> (coeff d \<noteq> 0 \<longrightarrow> sgn (coeff d) = sgn (coeff v))
           \<and> (10 ^ n \<le> nat \<bar>coeff d\<bar> \<longrightarrow>
                (\<exists>ip fp. str_decimal d
                            = (if coeff d < 0 then ''-'' else []) @ ip @ (if n = 0 then [] else ''.'' @ fp)
                          \<and> ip \<noteq> [] \<and> list_all is_digit ip
                          \<and> length fp = n \<and> list_all is_digit fp)))
         \<and> printed (calculate_pi (PyInt 0) c) = Some (Inr ''3'')"
proof -
  from calculate_pi_Inr [OF assms] obtain n where
    n: "py_int x = Inr (int n)" and cp: "compute_pi (n + 5) n = Some (Inr d)"
    by blast
  from compute_pi_Inr [OF cp] obtain s0 s v where
    run: "gl_init (n + 5) = Inr s0" "gl_loop (n + 5) s0 = Some (Inr s)" "pi_value (n + 5) s = Inr v"
    and q: "quantize_down (n + 5) v (- int n) = Inr d"
    by blast
  note tr = quantize_down_trunc [OF q]
  define m where "m = nat \<bar>coeff d\<bar>"
  have str: "\<exists>ip fp. str_decimal d
                       = (if coeff d < 0 then ''-'' else []) @ ip @ (if n = 0 then [] else ''.'' @ fp)
                     \<and> ip \<noteq> [] \<and> list_all is_digit ip
                     \<and> length fp = n \<and> list_all is_digit fp"
    if big: "10 ^ n \<le> nat \<bar>coeff d\<bar>"
  proof -
    have lt: "n < ndigits m" using big unfolding m_def by (rule ndigits_gt)
    have dg: "list_all is_digit (str_nat m)" "length (str_nat m) = ndigits m"
      using str_nat_digits [of m] by (simp_all add: length_str_nat)
    have "str_decimal d = (if coeff d < 0 then ''-'' else []) @ take (ndigits m - n) (str_nat m)
            @ (if n = 0 then [] else ''.'' @ drop (ndigits m - n) (str_nat m))"
      unfolding m_def using tr(1) big by (rule str_decimal_fixed)
    moreover have "take (ndigits m - n) (str_nat m) \<noteq> []" using lt dg(2) by auto
    moreover have "list_all is_digit (take (ndigits m - n) (str_nat m))"
      "list_all is_digit (drop (ndigits m - n) (str_nat m))"
      using dg(1) by (auto simp: list_all_iff dest: in_set_takeD in_set_dropD)
    moreover have "length (drop (ndigits m - n) (str_nat m)) = n" using lt dg(2) by simp
    ultimately show ?thesis by blast
  qed
  have "\<exists>n s0 s v.
           py_int x = Inr (int n)
           \<and> gl_init (n + 5) = Inr s0 \<and> gl_loop (n + 5) s0 = Some (Inr s)
           \<and> pi_value (n + 5) s = Inr v
           \<and> expo d = - int n
           \<and> \<bar>dec_val d\<bar> \<le> \<bar>dec_val v\<bar>
           \<and> \<bar>dec_val v\<bar> < \<bar>dec_val d\<bar> + 10 powi (- int n)
           \<and> (coeff d \<noteq> 0 \<longrightarrow> sgn (coeff d) = sgn (coeff v))
           \<and> (10 ^ n \<le> nat \<bar>coeff d\<bar> \<longrightarrow>
                (\<exists>ip fp. str_decimal d
                            = (if coeff d < 0 then ''-'' else []) @ ip @ (if n = 0 then [] else ''.'' @ fp)
                          \<and> ip \<noteq> [] \<and> list_all is_digit ip
                          \<and> length fp = n \<and> list_all is_digit fp))"
    using n run tr str by blast
  moreover have "printed (calculate_pi (PyInt 0) c) = Some (Inr ''3'')"
    by (rule printed_n0)
  ultimately show ?thesis by (rule conjI)
qed

text \<open>
  Witness for C6: \<open>calculate_pi(0)\<close>, which returns \<open>3\<close> from the estimate \<open>3.1416\<close>, and
  \<open>calculate_pi(10)\<close>, whose string has 10 digits after the point.
\<close>

theorem calculate_pi_truncates_witness:
  "calculate_pi (PyInt 0) \<lparr>prec = 28\<rparr> = Some (Inr \<lparr>coeff = 3, expo = 0\<rparr>, \<lparr>prec = 5\<rparr>)
   \<and> (\<exists>s0 s v. gl_init 5 = Inr s0 \<and> gl_loop 5 s0 = Some (Inr s) \<and> pi_value 5 s = Inr v
          \<and> \<bar>dec_val \<lparr>coeff = 3, expo = 0\<rparr>\<bar> \<le> \<bar>dec_val v\<bar> \<and> \<bar>dec_val v\<bar> < \<bar>dec_val \<lparr>coeff = 3, expo = 0\<rparr>\<bar> + 1
          \<and> sgn (coeff v) = 1)
   \<and> (\<exists>ip. str_decimal \<lparr>coeff = 3, expo = 0\<rparr> = ip \<and> ip \<noteq> [] \<and> list_all is_digit ip)
   \<and> printed (calculate_pi (PyInt 0) \<lparr>prec = 28\<rparr>) = Some (Inr ''3'')
   \<and> calculate_pi (PyInt 10) \<lparr>prec = 28\<rparr> = Some (Inr \<lparr>coeff = 31415926535, expo = - 10\<rparr>, \<lparr>prec = 15\<rparr>)
   \<and> (\<exists>ip fp. str_decimal \<lparr>coeff = 31415926535, expo = - 10\<rparr> = ip @ ''.'' @ fp \<and> ip \<noteq> [] \<and> list_all is_digit ip
          \<and> length fp = 10 \<and> list_all is_digit fp)"
proof -
  have h: "calculate_pi (PyInt 0) \<lparr>prec = 28\<rparr> = Some (Inr \<lparr>coeff = 3, expo = 0\<rparr>, \<lparr>prec = 5\<rparr>)"
    by (simp add: calc_n0)
  from calculate_pi_truncates [OF h] obtain n s0 s v where
    n: "py_int (PyInt 0) = Inr (int n)"
    and run: "gl_init (n + 5) = Inr s0" "gl_loop (n + 5) s0 = Some (Inr s)" "pi_value (n + 5) s = Inr v"
    and cut: "\<bar>dec_val \<lparr>coeff = 3, expo = 0\<rparr>\<bar> \<le> \<bar>dec_val v\<bar>"
      "\<bar>dec_val v\<bar> < \<bar>dec_val \<lparr>coeff = 3, expo = 0\<rparr>\<bar> + 10 powi (- int n)"
      "coeff \<lparr>coeff = 3, expo = 0\<rparr> \<noteq> 0 \<longrightarrow> sgn (coeff \<lparr>coeff = 3, expo = 0\<rparr>) = sgn (coeff v)"
    and str: "10 ^ n \<le> nat \<bar>coeff \<lparr>coeff = 3, expo = 0\<rparr>\<bar> \<longrightarrow>
                (\<exists>ip fp. str_decimal \<lparr>coeff = 3, expo = 0\<rparr>
                            = (if coeff \<lparr>coeff = 3, expo = 0\<rparr> < 0 then ''-'' else []) @ ip @ (if n = 0 then [] else ''.'' @ fp)
                          \<and> ip \<noteq> [] \<and> list_all is_digit ip
                          \<and> length fp = n \<and> list_all is_digit fp)"
    and pr: "printed (calculate_pi (PyInt 0) \<lparr>prec = 28\<rparr>) = Some (Inr ''3'')"
    by blast
  from n have n0: "n = 0" by (simp add: py_int_def)
  from run cut have 1: "\<exists>s0 s v. gl_init 5 = Inr s0 \<and> gl_loop 5 s0 = Some (Inr s) \<and> pi_value 5 s = Inr v
          \<and> \<bar>dec_val \<lparr>coeff = 3, expo = 0\<rparr>\<bar> \<le> \<bar>dec_val v\<bar> \<and> \<bar>dec_val v\<bar> < \<bar>dec_val \<lparr>coeff = 3, expo = 0\<rparr>\<bar> + 1
          \<and> sgn (coeff v) = 1"
    unfolding n0 by (intro exI [of _ s0] exI [of _ s] exI [of _ v]) simp
  from str have 2: "\<exists>ip. str_decimal \<lparr>coeff = 3, expo = 0\<rparr> = ip \<and> ip \<noteq> [] \<and> list_all is_digit ip"
    unfolding n0 by simp
  have k: "calculate_pi (PyInt 10) \<lparr>prec = 28\<rparr> = Some (Inr \<lparr>coeff = 31415926535, expo = - 10\<rparr>, \<lparr>prec = 15\<rparr>)"
    by (simp add: calc_n10)
  from calculate_pi_truncates [OF k] obtain m where
    m: "py_int (PyInt 10) = Inr (int m)"
    and str10: "10 ^ m \<le> nat \<bar>coeff \<lparr>coeff = 31415926535, expo = - 10\<rparr>\<bar> \<longrightarrow>
                (\<exists>ip fp. str_decimal \<lparr>coeff = 31415926535, expo = - 10\<rparr>
                            = (if coeff \<lparr>coeff = 31415926535, expo = - 10\<rparr> < 0 then ''-'' else []) @ ip @ (if m = 0 then [] else ''.'' @ fp)
                          \<and> ip \<noteq> [] \<and> list_all is_digit ip
                          \<and> length fp = m \<and> list_all is_digit fp)"
    by blast
  from m have m10: "m = 10" by (simp add: py_int_def)
  from str10 have 3: "\<exists>ip fp. str_decimal \<lparr>coeff = 31415926535, expo = - 10\<rparr> = ip @ ''.'' @ fp \<and> ip \<noteq> [] \<and> list_all is_digit ip
          \<and> length fp = 10 \<and> list_all is_digit fp"
    unfolding m10 by simp
  from h 1 2 pr k 3 show ?thesis by (intro conjI)
qed

lemma dec_eq_val: "dec_eq x y \<longleftrightarrow> dec_val x = dec_val y"
proof -
  define e where "e = min (expo x) (expo y)"
  have ex: "e + int (nat (expo x - e)) = expo x" "e + int (nat (expo y - e)) = expo y"
    by (simp_all add: e_def)
  have x: "dec_val x = dec_val \<lparr>coeff = coeff x * 10 ^ nat (expo x - e), expo = e\<rparr>"
    unfolding dec_val_shift ex by (simp add: dec_val_def)
  have y: "dec_val y = dec_val \<lparr>coeff = coeff y * 10 ^ nat (expo y - e), expo = e\<rparr>"
    unfolding dec_val_shift ex by (simp add: dec_val_def)
  have "dec_val x = dec_val y \<longleftrightarrow> coeff x * 10 ^ nat (expo x - e) = coeff y * 10 ^ nat (expo y - e)"
    unfolding x y by (simp add: dec_val_def del: of_int_mult of_int_power)
  then show ?thesis by (simp add: dec_eq_def Let_def e_def)
qed

lemma gl_init_Inr:
  "gl_init p = Inr s0 \<Longrightarrow>
     a_n s0 = dec_of_int 1
     \<and> (\<exists>r. dec_sqrt p (dec_of_int 2) = Inr r \<and> dec_div p (dec_of_int 1) r = Inr (b_n s0))
     \<and> dec_div p (dec_of_int 1) (dec_of_int 4) = Inr (t_n s0)
     \<and> p_n s0 = dec_of_int 1"
  by (auto simp: gl_init_def split: sum.splits)

lemma gl_next_Inr:
  "gl_next p s = Inr s' \<Longrightarrow>
     dec_div p (dec_add p (a_n s) (b_n s)) (dec_of_int 2) = Inr (a_n s')
     \<and> dec_sqrt p (dec_mul p (a_n s) (b_n s)) = Inr (b_n s')
     \<and> t_n s' = dec_sub p (t_n s) (dec_mul p (p_n s) (dec_pow2 p (dec_sub p (a_n s) (a_n s'))))
     \<and> p_n s' = dec_mul p (dec_of_int 2) (p_n s)"
  by (auto simp: gl_next_def split: sum.splits)

lemma gl_loop_step:
  "gl_next p s = Inr s' \<Longrightarrow> gl_loop p s = (if converged s s' then Some (Inr s) else gl_loop p s')"
  by (subst gl_loop.simps) simp

lemma gl_iterate_Suc:
  "gl_iterate p (Suc k) s = Some sk \<Longrightarrow>
     \<exists>s1. gl_next p s = Inr s1 \<and> \<not> converged s s1 \<and> gl_iterate p k s1 = Some sk"
  by (auto split: sum.splits if_splits)

text \<open>
  C4. The iteration starts from \<open>a = 1\<close>, \<open>b = 1 / sqrt 2\<close>, \<open>t = 1 / 4\<close>, \<open>p = 1\<close> (quotient and
  square root at the working precision). A pass computes \<open>a' = (a + b) / 2\<close>,
  \<open>b' = sqrt (a * b)\<close>, \<open>t' = t - p * (a - a')\<^sup>2\<close>, \<open>p' = 2 * p\<close>, and leaves the loop when
  \<open>a\<close> and \<open>a'\<close>, or \<open>b\<close> and \<open>b'\<close>, are the same number; otherwise it goes on from the
  new state. So the loop returns a state exactly when some number of passes without that
  equality lead to it and the next pass finds the equality.
\<close>

theorem gauss_legendre_iterator:
  "(gl_init p = Inr s0 \<longrightarrow>
      a_n s0 = dec_of_int 1
      \<and> (\<exists>r. dec_sqrt p (dec_of_int 2) = Inr r \<and> dec_div p (dec_of_int 1) r = Inr (b_n s0))
      \<and> dec_div p (dec_of_int 1) (dec_of_int 4) = Inr (t_n s0)
      \<and> p_n s0 = dec_of_int 1)
   \<and> (gl_next p s = Inr s' \<longrightarrow>
        dec_div p (dec_add p (a_n s) (b_n s)) (dec_of_int 2) = Inr (a_n s')
        \<and> dec_sqrt p (dec_mul p (a_n s) (b_n s)) = Inr (b_n s')
        \<and> t_n s' = dec_sub p (t_n s) (dec_mul p (p_n s) (dec_pow2 p (dec_sub p (a_n s) (a_n s'))))
        \<and> p_n s' = dec_mul p (dec_of_int 2) (p_n s)
        \<and> gl_loop p s = (if converged s s' then Some (Inr s) else gl_loop p s'))
   \<and> (converged s s' \<longleftrightarrow>
        dec_val (a_n s) = dec_val (a_n s') \<or> dec_val (b_n s) = dec_val (b_n s'))
   \<and> (gl_iterate p (Suc k) s = Some sk \<longrightarrow>
        (\<exists>s1. gl_next p s = Inr s1 \<and> \<not> converged s s1 \<and> gl_iterate p k s1 = Some sk))
   \<and> (gl_loop p s = Some (Inr sk) \<longleftrightarrow>
        (\<exists>k sk'. gl_iterate p k s = Some sk \<and> gl_next p sk = Inr sk' \<and> converged sk sk'))"
proof -
  have 1: "gl_init p = Inr s0 \<longrightarrow>
      a_n s0 = dec_of_int 1
      \<and> (\<exists>r. dec_sqrt p (dec_of_int 2) = Inr r \<and> dec_div p (dec_of_int 1) r = Inr (b_n s0))
      \<and> dec_div p (dec_of_int 1) (dec_of_int 4) = Inr (t_n s0)
      \<and> p_n s0 = dec_of_int 1"
    using gl_init_Inr by blast
  have 2: "gl_next p s = Inr s' \<longrightarrow>
        dec_div p (dec_add p (a_n s) (b_n s)) (dec_of_int 2) = Inr (a_n s')
        \<and> dec_sqrt p (dec_mul p (a_n s) (b_n s)) = Inr (b_n s')
        \<and> t_n s' = dec_sub p (t_n s) (dec_mul p (p_n s) (dec_pow2 p (dec_sub p (a_n s) (a_n s'))))
        \<and> p_n s' = dec_mul p (dec_of_int 2) (p_n s)
        \<and> gl_loop p s = (if converged s s' then Some (Inr s) else gl_loop p s')"
    using gl_next_Inr [of p s s'] gl_loop_step [of p s s'] by blast
  have 3: "converged s s' \<longleftrightarrow>
          dec_val (a_n s) = dec_val (a_n s') \<or> dec_val (b_n s) = dec_val (b_n s')"
    by (simp add: converged_def dec_eq_val)
  have 4: "gl_iterate p (Suc k) s = Some sk \<longrightarrow>
        (\<exists>s1. gl_next p s = Inr s1 \<and> \<not> converged s s1 \<and> gl_iterate p k s1 = Some sk)"
    using gl_iterate_Suc by blast
  have 5: "gl_loop p s = Some (Inr sk) \<longleftrightarrow>
          (\<exists>k sk'. gl_iterate p k s = Some sk \<and> gl_next p sk = Inr sk' \<and> converged sk sk')"
    by (rule gl_loop_Inr_iff)
  from 1 2 3 4 5 show ?thesis by (intro conjI)
qed

text \<open>Witness for C4: the run at precision 5, which leaves the loop in its third pass.\<close>

theorem gauss_legendre_iterator_witness:
  "gl_init 5 = Inr \<lparr>a_n = \<lparr>coeff = 1, expo = 0\<rparr>, b_n = \<lparr>coeff = 70711, expo = (- 5)\<rparr>, t_n = \<lparr>coeff = 25, expo = (- 2)\<rparr>, p_n = \<lparr>coeff = 1, expo = 0\<rparr>\<rparr>
   \<and> gl_next 5 \<lparr>a_n = \<lparr>coeff = 1, expo = 0\<rparr>, b_n = \<lparr>coeff = 70711, expo = (- 5)\<rparr>, t_n = \<lparr>coeff = 25, expo = (- 2)\<rparr>, p_n = \<lparr>coeff = 1, expo = 0\<rparr>\<rparr> = Inr \<lparr>a_n = \<lparr>coeff = 85355, expo = (- 5)\<rparr>, b_n = \<lparr>coeff = 84090, expo = (- 5)\<rparr>, t_n = \<lparr>coeff = 22855, expo = (- 5)\<rparr>, p_n = \<lparr>coeff = 2, expo = 0\<rparr>\<rparr>
   \<and> gl_iterate 5 (Suc 1) \<lparr>a_n = \<lparr>coeff = 1, expo = 0\<rparr>, b_n = \<lparr>coeff = 70711, expo = (- 5)\<rparr>, t_n = \<lparr>coeff = 25, expo = (- 2)\<rparr>, p_n = \<lparr>coeff = 1, expo = 0\<rparr>\<rparr> = Some \<lparr>a_n = \<lparr>coeff = 8472, expo = (- 4)\<rparr>, b_n = \<lparr>coeff = 84720, expo = (- 5)\<rparr>, t_n = \<lparr>coeff = 22847, expo = (- 5)\<rparr>, p_n = \<lparr>coeff = 4, expo = 0\<rparr>\<rparr>
   \<and> (\<exists>r. dec_sqrt 5 (dec_of_int 2) = Inr r \<and> dec_div 5 (dec_of_int 1) r = Inr (b_n \<lparr>a_n = \<lparr>coeff = 1, expo = 0\<rparr>, b_n = \<lparr>coeff = 70711, expo = (- 5)\<rparr>, t_n = \<lparr>coeff = 25, expo = (- 2)\<rparr>, p_n = \<lparr>coeff = 1, expo = 0\<rparr>\<rparr>))
   \<and> dec_div 5 (dec_of_int 1) (dec_of_int 4) = Inr (t_n \<lparr>a_n = \<lparr>coeff = 1, expo = 0\<rparr>, b_n = \<lparr>coeff = 70711, expo = (- 5)\<rparr>, t_n = \<lparr>coeff = 25, expo = (- 2)\<rparr>, p_n = \<lparr>coeff = 1, expo = 0\<rparr>\<rparr>)
   \<and> dec_div 5 (dec_add 5 (a_n \<lparr>a_n = \<lparr>coeff = 1, expo = 0\<rparr>, b_n = \<lparr>coeff = 70711, expo = (- 5)\<rparr>, t_n = \<lparr>coeff = 25, expo = (- 2)\<rparr>, p_n = \<lparr>coeff = 1, expo = 0\<rparr>\<rparr>) (b_n \<lparr>a_n = \<lparr>coeff = 1, expo = 0\<rparr>, b_n = \<lparr>coeff = 70711, expo = (- 5)\<rparr>, t_n = \<lparr>coeff = 25, expo = (- 2)\<rparr>, p_n = \<lparr>coeff = 1, expo = 0\<rparr>\<rparr>)) (dec_of_int 2) = Inr (a_n \<lparr>a_n = \<lparr>coeff = 85355, expo = (- 5)\<rparr>, b_n = \<lparr>coeff = 84090, expo = (- 5)\<rparr>, t_n = \<lparr>coeff = 22855, expo = (- 5)\<rparr>, p_n = \<lparr>coeff = 2, expo = 0\<rparr>\<rparr>)
   \<and> dec_sqrt 5 (dec_mul 5 (a_n \<lparr>a_n = \<lparr>coeff = 1, expo = 0\<rparr>, b_n = \<lparr>coeff = 70711, expo = (- 5)\<rparr>, t_n = \<lparr>coeff = 25, expo = (- 2)\<rparr>, p_n = \<lparr>coeff = 1, expo = 0\<rparr>\<rparr>) (b_n \<lparr>a_n = \<lparr>coeff = 1, expo = 0\<rparr>, b_n = \<lparr>coeff = 70711, expo = (- 5)\<rparr>, t_n = \<lparr>coeff = 25, expo = (- 2)\<rparr>, p_n = \<lparr>coeff = 1, expo = 0\<rparr>\<rparr>)) = Inr (b_n \<lparr>a_n = \<lparr>coeff = 85355, expo = (- 5)\<rparr>, b_n = \<lparr>coeff = 84090, expo = (- 5)\<rparr>, t_n = \<lparr>coeff = 22855, expo = (- 5)\<rparr>, p_n = \<lparr>coeff = 2, expo = 0\<rparr>\<rparr>)
   \<and> t_n \<lparr>a_n = \<lparr>coeff = 85355, expo = (- 5)\<rparr>, b_n = \<lparr>coeff = 84090, expo = (- 5)\<rparr>, t_n = \<lparr>coeff = 22855, expo = (- 5)\<rparr>, p_n = \<lparr>coeff = 2, expo = 0\<rparr>\<rparr> = dec_sub 5 (t_n \<lparr>a_n = \<lparr>coeff = 1, expo = 0\<rparr>, b_n = \<lparr>coeff = 70711, expo = (- 5)\<rparr>, t_n = \<lparr>coeff = 25, expo = (- 2)\<rparr>, p_n = \<lparr>coeff = 1, expo = 0\<rparr>\<rparr>) (dec_mul 5 (p_n \<lparr>a_n = \<lparr>coeff = 1, expo = 0\<rparr>, b_n = \<lparr>coeff = 70711, expo = (- 5)\<rparr>, t_n = \<lparr>coeff = 25, expo = (- 2)\<rparr>, p_n = \<lparr>coeff = 1, expo = 0\<rparr>\<rparr>) (dec_pow2 5 (dec_sub 5 (a_n \<lparr>a_n = \<lparr>coeff = 1, expo = 0\<rparr>, b_n = \<lparr>coeff = 70711, expo = (- 5)\<rparr>, t_n = \<lparr>coeff = 25, expo = (- 2)\<rparr>, p_n = \<lparr>coeff = 1, expo = 0\<rparr>\<rparr>) (a_n \<lparr>a_n = \<lparr>coeff = 85355, expo = (- 5)\<rparr>, b_n = \<lparr>coeff = 84090, expo = (- 5)\<rparr>, t_n = \<lparr>coeff = 22855, expo = (- 5)\<rparr>, p_n = \<lparr>coeff = 2, expo = 0\<rparr>\<rparr>))))
   \<and> p_n \<lparr>a_n = \<lparr>coeff = 85355, expo = (- 5)\<rparr>, b_n = \<lparr>coeff = 84090, expo = (- 5)\<rparr>, t_n = \<lparr>coeff = 22855, expo = (- 5)\<rparr>, p_n = \<lparr>coeff = 2, expo = 0\<rparr>\<rparr> = dec_mul 5 (dec_of_int 2) (p_n \<lparr>a_n = \<lparr>coeff = 1, expo = 0\<rparr>, b_n = \<lparr>coeff = 70711, expo = (- 5)\<rparr>, t_n = \<lparr>coeff = 25, expo = (- 2)\<rparr>, p_n = \<lparr>coeff = 1, expo = 0\<rparr>\<rparr>)
   \<and> gl_loop 5 \<lparr>a_n = \<lparr>coeff = 1, expo = 0\<rparr>, b_n = \<lparr>coeff = 70711, expo = (- 5)\<rparr>, t_n = \<lparr>coeff = 25, expo = (- 2)\<rparr>, p_n = \<lparr>coeff = 1, expo = 0\<rparr>\<rparr> = (if converged \<lparr>a_n = \<lparr>coeff = 1, expo = 0\<rparr>, b_n = \<lparr>coeff = 70711, expo = (- 5)\<rparr>, t_n = \<lparr>coeff = 25, expo = (- 2)\<rparr>, p_n = \<lparr>coeff = 1, expo = 0\<rparr>\<rparr> \<lparr>a_n = \<lparr>coeff = 85355, expo = (- 5)\<rparr>, b_n = \<lparr>coeff = 84090, expo = (- 5)\<rparr>, t_n = \<lparr>coeff = 22855, expo = (- 5)\<rparr>, p_n = \<lparr>coeff = 2, expo = 0\<rparr>\<rparr> then Some (Inr \<lparr>a_n = \<lparr>coeff = 1, expo = 0\<rparr>, b_n = \<lparr>coeff = 70711, expo = (- 5)\<rparr>, t_n = \<lparr>coeff = 25, expo = (- 2)\<rparr>, p_n = \<lparr>coeff = 1, expo = 0\<rparr>\<rparr>) else gl_loop 5 \<lparr>a_n = \<lparr>coeff = 85355, expo = (- 5)\<rparr>, b_n = \<lparr>coeff = 84090, expo = (- 5)\<rparr>, t_n = \<lparr>coeff = 22855, expo = (- 5)\<rparr>, p_n = \<lparr>coeff = 2, expo = 0\<rparr>\<rparr>)
   \<and> (\<exists>s1. gl_next 5 \<lparr>a_n = \<lparr>coeff = 1, expo = 0\<rparr>, b_n = \<lparr>coeff = 70711, expo = (- 5)\<rparr>, t_n = \<lparr>coeff = 25, expo = (- 2)\<rparr>, p_n = \<lparr>coeff = 1, expo = 0\<rparr>\<rparr> = Inr s1 \<and> \<not> converged \<lparr>a_n = \<lparr>coeff = 1, expo = 0\<rparr>, b_n = \<lparr>coeff = 70711, expo = (- 5)\<rparr>, t_n = \<lparr>coeff = 25, expo = (- 2)\<rparr>, p_n = \<lparr>coeff = 1, expo = 0\<rparr>\<rparr> s1 \<and> gl_iterate 5 1 s1 = Some \<lparr>a_n = \<lparr>coeff = 8472, expo = (- 4)\<rparr>, b_n = \<lparr>coeff = 84720, expo = (- 5)\<rparr>, t_n = \<lparr>coeff = 22847, expo = (- 5)\<rparr>, p_n = \<lparr>coeff = 4, expo = 0\<rparr>\<rparr>)
   \<and> (gl_loop 5 \<lparr>a_n = \<lparr>coeff = 1, expo = 0\<rparr>, b_n = \<lparr>coeff = 70711, expo = (- 5)\<rparr>, t_n = \<lparr>coeff = 25, expo = (- 2)\<rparr>, p_n = \<lparr>coeff = 1, expo = 0\<rparr>\<rparr> = Some (Inr \<lparr>a_n = \<lparr>coeff = 8472, expo = (- 4)\<rparr>, b_n = \<lparr>coeff = 84720, expo = (- 5)\<rparr>, t_n = \<lparr>coeff = 22847, expo = (- 5)\<rparr>, p_n = \<lparr>coeff = 4, expo = 0\<rparr>\<rparr>) \<longleftrightarrow>
        (\<exists>k sk'. gl_iterate 5 k \<lparr>a_n = \<lparr>coeff = 1, expo = 0\<rparr>, b_n = \<lparr>coeff = 70711, expo = (- 5)\<rparr>, t_n = \<lparr>coeff = 25, expo = (- 2)\<rparr>, p_n = \<lparr>coeff = 1, expo = 0\<rparr>\<rparr> = Some \<lparr>a_n = \<lparr>coeff = 8472, expo = (- 4)\<rparr>, b_n = \<lparr>coeff = 84720, expo = (- 5)\<rparr>, t_n = \<lparr>coeff = 22847, expo = (- 5)\<rparr>, p_n = \<lparr>coeff = 4, expo = 0\<rparr>\<rparr> \<and> gl_next 5 \<lparr>a_n = \<lparr>coeff = 8472, expo = (- 4)\<rparr>, b_n = \<lparr>coeff = 84720, expo = (- 5)\<rparr>, t_n = \<lparr>coeff = 22847, expo = (- 5)\<rparr>, p_n = \<lparr>coeff = 4, expo = 0\<rparr>\<rparr> = Inr sk' \<and> converged \<lparr>a_n = \<lparr>coeff = 8472, expo = (- 4)\<rparr>, b_n = \<lparr>coeff = 84720, expo = (- 5)\<rparr>, t_n = \<lparr>coeff = 22847, expo = (- 5)\<rparr>, p_n = \<lparr>coeff = 4, expo = 0\<rparr>\<rparr> sk'))"
proof -
  have h: "gl_init 5 = Inr \<lparr>a_n = \<lparr>coeff = 1, expo = 0\<rparr>, b_n = \<lparr>coeff = 70711, expo = (- 5)\<rparr>, t_n = \<lparr>coeff = 25, expo = (- 2)\<rparr>, p_n = \<lparr>coeff = 1, expo = 0\<rparr>\<rparr>" "gl_next 5 \<lparr>a_n = \<lparr>coeff = 1, expo = 0\<rparr>, b_n = \<lparr>coeff = 70711, expo = (- 5)\<rparr>, t_n = \<lparr>coeff = 25, expo = (- 2)\<rparr>, p_n = \<lparr>coeff = 1, expo = 0\<rparr>\<rparr> = Inr \<lparr>a_n = \<lparr>coeff = 85355, expo = (- 5)\<rparr>, b_n = \<lparr>coeff = 84090, expo = (- 5)\<rparr>, t_n = \<lparr>coeff = 22855, expo = (- 5)\<rparr>, p_n = \<lparr>coeff = 2, expo = 0\<rparr>\<rparr>" "gl_iterate 5 (Suc 1) \<lparr>a_n = \<lparr>coeff = 1, expo = 0\<rparr>, b_n = \<lparr>coeff = 70711, expo = (- 5)\<rparr>, t_n = \<lparr>coeff = 25, expo = (- 2)\<rparr>, p_n = \<lparr>coeff = 1, expo = 0\<rparr>\<rparr> = Some \<lparr>a_n = \<lparr>coeff = 8472, expo = (- 4)\<rparr>, b_n = \<lparr>coeff = 84720, expo = (- 5)\<rparr>, t_n = \<lparr>coeff = 22847, expo = (- 5)\<rparr>, p_n = \<lparr>coeff = 4, expo = 0\<rparr>\<rparr>"
    by (simp_all add: init_n0 next_n0_0 conv_n0_0 next_n0_1 conv_n0_1)
  have w: "(gl_init 5 = Inr \<lparr>a_n = \<lparr>coeff = 1, expo = 0\<rparr>, b_n = \<lparr>coeff = 70711, expo = (- 5)\<rparr>, t_n = \<lparr>coeff = 25, expo = (- 2)\<rparr>, p_n = \<lparr>coeff = 1, expo = 0\<rparr>\<rparr> \<longrightarrow>
      a_n \<lparr>a_n = \<lparr>coeff = 1, expo = 0\<rparr>, b_n = \<lparr>coeff = 70711, expo = (- 5)\<rparr>, t_n = \<lparr>coeff = 25, expo = (- 2)\<rparr>, p_n = \<lparr>coeff = 1, expo = 0\<rparr>\<rparr> = dec_of_int 1
      \<and> (\<exists>r. dec_sqrt 5 (dec_of_int 2) = Inr r \<and> dec_div 5 (dec_of_int 1) r = Inr (b_n \<lparr>a_n = \<lparr>coeff = 1, expo = 0\<rparr>, b_n = \<lparr>coeff = 70711, expo = (- 5)\<rparr>, t_n = \<lparr>coeff = 25, expo = (- 2)\<rparr>, p_n = \<lparr>coeff = 1, expo = 0\<rparr>\<rparr>))
      \<and> dec_div 5 (dec_of_int 1) (dec_of_int 4) = Inr (t_n \<lparr>a_n = \<lparr>coeff = 1, expo = 0\<rparr>, b_n = \<lparr>coeff = 70711, expo = (- 5)\<rparr>, t_n = \<lparr>coeff = 25, expo = (- 2)\<rparr>, p_n = \<lparr>coeff = 1, expo = 0\<rparr>\<rparr>)
      \<and> p_n \<lparr>a_n = \<lparr>coeff = 1, expo = 0\<rparr>, b_n = \<lparr>coeff = 70711, expo = (- 5)\<rparr>, t_n = \<lparr>coeff = 25, expo = (- 2)\<rparr>, p_n = \<lparr>coeff = 1, expo = 0\<rparr>\<rparr> = dec_of_int 1)
   \<and> (gl_next 5 \<lparr>a_n = \<lparr>coeff = 1, expo = 0\<rparr>, b_n = \<lparr>coeff = 70711, expo = (- 5)\<rparr>, t_n = \<lparr>coeff = 25, expo = (- 2)\<rparr>, p_n = \<lparr>coeff = 1, expo = 0\<rparr>\<rparr> = Inr \<lparr>a_n = \<lparr>coeff = 85355, expo = (- 5)\<rparr>, b_n = \<lparr>coeff = 84090, expo = (- 5)\<rparr>, t_n = \<lparr>coeff = 22855, expo = (- 5)\<rparr>, p_n = \<lparr>coeff = 2, expo = 0\<rparr>\<rparr> \<longrightarrow>
        dec_div 5 (dec_add 5 (a_n \<lparr>a_n = \<lparr>coeff = 1, expo = 0\<rparr>, b_n = \<lparr>coeff = 70711, expo = (- 5)\<rparr>, t_n = \<lparr>coeff = 25, expo = (- 2)\<rparr>, p_n = \<lparr>coeff = 1, expo = 0\<rparr>\<rparr>) (b_n \<lparr>a_n = \<lparr>coeff = 1, expo = 0\<rparr>, b_n = \<lparr>coeff = 70711, expo = (- 5)\<rparr>, t_n = \<lparr>coeff = 25, expo = (- 2)\<rparr>, p_n = \<lparr>coeff = 1, expo = 0\<rparr>\<rparr>)) (dec_of_int 2) = Inr (a_n \<lparr>a_n = \<lparr>coeff = 85355, expo = (- 5)\<rparr>, b_n = \<lparr>coeff = 84090, expo = (- 5)\<rparr>, t_n = \<lparr>coeff = 22855, expo = (- 5)\<rparr>, p_n = \<lparr>coeff = 2, expo = 0\<rparr>\<rparr>)
        \<and> dec_sqrt 5 (dec_mul 5 (a_n \<lparr>a_n = \<lparr>coeff = 1, expo = 0\<rparr>, b_n = \<lparr>coeff = 70711, expo = (- 5)\<rparr>, t_n = \<lparr>coeff = 25, expo = (- 2)\<rparr>, p_n = \<lparr>coeff = 1, expo = 0\<rparr>\<rparr>) (b_n \<lparr>a_n = \<lparr>coeff = 1, expo = 0\<rparr>, b_n = \<lparr>coeff = 70711, expo = (- 5)\<rparr>, t_n = \<lparr>coeff = 25, expo = (- 2)\<rparr>, p_n = \<lparr>coeff = 1, expo = 0\<rparr>\<rparr>)) = Inr (b_n \<lparr>a_n = \<lparr>coeff = 85355, expo = (- 5)\<rparr>, b_n = \<lparr>coeff = 84090, expo = (- 5)\<rparr>, t_n = \<lparr>coeff = 22855, expo = (- 5)\<rparr>, p_n = \<lparr>coeff = 2, expo = 0\<rparr>\<rparr>)
        \<and> t_n \<lparr>a_n = \<lparr>coeff = 85355, expo = (- 5)\<rparr>, b_n = \<lparr>coeff = 84090, expo = (- 5)\<rparr>, t_n = \<lparr>coeff = 22855, expo = (- 5)\<rparr>, p_n = \<lparr>coeff = 2, expo = 0\<rparr>\<rparr> = dec_sub 5 (t_n \<lparr>a_n = \<lparr>coeff = 1, expo = 0\<rparr>, b_n = \<lparr>coeff = 70711, expo = (- 5)\<rparr>, t_n = \<lparr>coeff = 25, expo = (- 2)\<rparr>, p_n = \<lparr>coeff = 1, expo = 0\<rparr>\<rparr>) (dec_mul 5 (p_n \<lparr>a_n = \<lparr>coeff = 1, expo = 0\<rparr>, b_n = \<lparr>coeff = 70711, expo = (- 5)\<rparr>, t_n = \<lparr>coeff = 25, expo = (- 2)\<rparr>, p_n = \<lparr>coeff = 1, expo = 0\<rparr>\<rparr>) (dec_pow2 5 (dec_sub 5 (a_n \<lparr>a_n = \<lparr>coeff = 1, expo = 0\<rparr>, b_n = \<lparr>coeff = 70711, expo = (- 5)\<rparr>, t_n = \<lparr>coeff = 25, expo = (- 2)\<rparr>, p_n = \<lparr>coeff = 1, expo = 0\<rparr>\<rparr>) (a_n \<lparr>a_n = \<lparr>coeff = 85355, expo = (- 5)\<rparr>, b_n = \<lparr>coeff = 84090, expo = (- 5)\<rparr>, t_n = \<lparr>coeff = 22855, expo = (- 5)\<rparr>, p_n = \<lparr>coeff = 2, expo = 0\<rparr>\<rparr>))))
        \<and> p_n \<lparr>a_n = \<lparr>coeff = 85355, expo = (- 5)\<rparr>, b_n = \<lparr>coeff = 84090, expo = (- 5)\<rparr>, t_n = \<lparr>coeff = 22855, expo = (- 5)\<rparr>, p_n = \<lparr>coeff = 2, expo = 0\<rparr>\<rparr> = dec_mul 5 (dec_of_int 2) (p_n \<lparr>a_n = \<lparr>coeff = 1, expo = 0\<rparr>, b_n = \<lparr>coeff = 70711, expo = (- 5)\<rparr>, t_n = \<lparr>coeff = 25, expo = (- 2)\<rparr>, p_n = \<lparr>coeff = 1, expo = 0\<rparr>\<rparr>)
        \<and> gl_loop 5 \<lparr>a_n = \<lparr>coeff = 1, expo = 0\<rparr>, b_n = \<lparr>coeff = 70711, expo = (- 5)\<rparr>, t_n = \<lparr>coeff = 25, expo = (- 2)\<rparr>, p_n = \<lparr>coeff = 1, expo = 0\<rparr>\<rparr> = (if converged \<lparr>a_n = \<lparr>coeff = 1, expo = 0\<rparr>, b_n = \<lparr>coeff = 70711, expo = (- 5)\<rparr>, t_n = \<lparr>coeff = 25, expo = (- 2)\<rparr>, p_n = \<lparr>coeff = 1, expo = 0\<rparr>\<rparr> \<lparr>a_n = \<lparr>coeff = 85355, expo = (- 5)\<rparr>, b_n = \<lparr>coeff = 84090, expo = (- 5)\<rparr>, t_n = \<lparr>coeff = 22855, expo = (- 5)\<rparr>, p_n = \<lparr>coeff = 2, expo = 0\<rparr>\<rparr> then Some (Inr \<lparr>a_n = \<lparr>coeff = 1, expo = 0\<rparr>, b_n = \<lparr>coeff = 70711, expo = (- 5)\<rparr>, t_n = \<lparr>coeff = 25, expo = (- 2)\<rparr>, p_n = \<lparr>coeff = 1, expo = 0\<rparr>\<rparr>) else gl_loop 5 \<lparr>a_n = \<lparr>coeff = 85355, expo = (- 5)\<rparr>, b_n = \<lparr>coeff = 84090, expo = (- 5)\<rparr>, t_n = \<lparr>coeff = 22855, expo = (- 5)\<rparr>, p_n = \<lparr>coeff = 2, expo = 0\<rparr>\<rparr>))
   \<and> (converged \<lparr>a_n = \<lparr>coeff = 1, expo = 0\<rparr>, b_n = \<lparr>coeff = 70711, expo = (- 5)\<rparr>, t_n = \<lparr>coeff = 25, expo = (- 2)\<rparr>, p_n = \<lparr>coeff = 1, expo = 0\<rparr>\<rparr> \<lparr>a_n = \<lparr>coeff = 85355, expo = (- 5)\<rparr>, b_n = \<lparr>coeff = 84090, expo = (- 5)\<rparr>, t_n = \<lparr>coeff = 22855, expo = (- 5)\<rparr>, p_n = \<lparr>coeff = 2, expo = 0\<rparr>\<rparr> \<longleftrightarrow>
        dec_val (a_n \<lparr>a_n = \<lparr>coeff = 1, expo = 0\<rparr>, b_n = \<lparr>coeff = 70711, expo = (- 5)\<rparr>, t_n = \<lparr>coeff = 25, expo = (- 2)\<rparr>, p_n = \<lparr>coeff = 1, expo = 0\<rparr>\<rparr>) = dec_val (a_n \<lparr>a_n = \<lparr>coeff = 85355, expo = (- 5)\<rparr>, b_n = \<lparr>coeff = 84090, expo = (- 5)\<rparr>, t_n = \<lparr>coeff = 22855, expo = (- 5)\<rparr>, p_n = \<lparr>coeff = 2, expo = 0\<rparr>\<rparr>) \<or> dec_val (b_n \<lparr>a_n = \<lparr>coeff = 1, expo = 0\<rparr>, b_n = \<lparr>coeff = 70711, expo = (- 5)\<rparr>, t_n = \<lparr>coeff = 25, expo = (- 2)\<rparr>, p_n = \<lparr>coeff = 1, expo = 0\<rparr>\<rparr>) = dec_val (b_n \<lparr>a_n = \<lparr>coeff = 85355, expo = (- 5)\<rparr>, b_n = \<lparr>coeff = 84090, expo = (- 5)\<rparr>, t_n = \<lparr>coeff = 22855, expo = (- 5)\<rparr>, p_n = \<lparr>coeff = 2, expo = 0\<rparr>\<rparr>))
   \<and> (gl_iterate 5 (Suc 1) \<lparr>a_n = \<lparr>coeff = 1, expo = 0\<rparr>, b_n = \<lparr>coeff = 70711, expo = (- 5)\<rparr>, t_n = \<lparr>coeff = 25, expo = (- 2)\<rparr>, p_n = \<lparr>coeff = 1, expo = 0\<rparr>\<rparr> = Some \<lparr>a_n = \<lparr>coeff = 8472, expo = (- 4)\<rparr>, b_n = \<lparr>coeff = 84720, expo = (- 5)\<rparr>, t_n = \<lparr>coeff = 22847, expo = (- 5)\<rparr>, p_n = \<lparr>coeff = 4, expo = 0\<rparr>\<rparr> \<longrightarrow>
        (\<exists>s1. gl_next 5 \<lparr>a_n = \<lparr>coeff = 1, expo = 0\<rparr>, b_n = \<lparr>coeff = 70711, expo = (- 5)\<rparr>, t_n = \<lparr>coeff = 25, expo = (- 2)\<rparr>, p_n = \<lparr>coeff = 1, expo = 0\<rparr>\<rparr> = Inr s1 \<and> \<not> converged \<lparr>a_n = \<lparr>coeff = 1, expo = 0\<rparr>, b_n = \<lparr>coeff = 70711, expo = (- 5)\<rparr>, t_n = \<lparr>coeff = 25, expo = (- 2)\<rparr>, p_n = \<lparr>coeff = 1, expo = 0\<rparr>\<rparr> s1 \<and> gl_iterate 5 1 s1 = Some \<lparr>a_n = \<lparr>coeff = 8472, expo = (- 4)\<rparr>, b_n = \<lparr>coeff = 84720, expo = (- 5)\<rparr>, t_n = \<lparr>coeff = 22847, expo = (- 5)\<rparr>, p_n = \<lparr>coeff = 4, expo = 0\<rparr>\<rparr>))
   \<and> (gl_loop 5 \<lparr>a_n = \<lparr>coeff = 1, expo = 0\<rparr>, b_n = \<lparr>coeff = 70711, expo = (- 5)\<rparr>, t_n = \<lparr>coeff = 25, expo = (- 2)\<rparr>, p_n = \<lparr>coeff = 1, expo = 0\<rparr>\<rparr> = Some (Inr \<lparr>a_n = \<lparr>coeff = 8472, expo = (- 4)\<rparr>, b_n = \<lparr>coeff = 84720, expo = (- 5)\<rparr>, t_n = \<lparr>coeff = 22847, expo = (- 5)\<rparr>, p_n = \<lparr>coeff = 4, expo = 0\<rparr>\<rparr>) \<longleftrightarrow>
        (\<exists>k sk'. gl_iterate 5 k \<lparr>a_n = \<lparr>coeff = 1, expo = 0\<rparr>, b_n = \<lparr>coeff = 70711, expo = (- 5)\<rparr>, t_n = \<lparr>coeff = 25, expo = (- 2)\<rparr>, p_n = \<lparr>coeff = 1, expo = 0\<rparr>\<rparr> = Some \<lparr>a_n = \<lparr>coeff = 8472, expo = (- 4)\<rparr>, b_n = \<lparr>coeff = 84720, expo = (- 5)\<rparr>, t_n = \<lparr>coeff = 22847, expo = (- 5)\<rparr>, p_n = \<lparr>coeff = 4, expo = 0\<rparr>\<rparr> \<and> gl_next 5 \<lparr>a_n = \<lparr>coeff = 8472, expo = (- 4)\<rparr>, b_n = \<lparr>coeff = 84720, expo = (- 5)\<rparr>, t_n = \<lparr>coeff = 22847, expo = (- 5)\<rparr>, p_n = \<lparr>coeff = 4, expo = 0\<rparr>\<rparr> = Inr sk' \<and> converged \<lparr>a_n = \<lparr>coeff = 8472, expo = (- 4)\<rparr>, b_n = \<lparr>coeff = 84720, expo = (- 5)\<rparr>, t_n = \<lparr>coeff = 22847, expo = (- 5)\<rparr>, p_n = \<lparr>coeff = 4, expo = 0\<rparr>\<rparr> sk'))"
    by (rule gauss_legendre_iterator
          [where p = 5 and ?s0.0 = "\<lparr>a_n = \<lparr>coeff = 1, expo = 0\<rparr>, b_n = \<lparr>coeff = 70711, expo = (- 5)\<rparr>, t_n = \<lparr>coeff = 25, expo = (- 2)\<rparr>, p_n = \<lparr>coeff = 1, expo = 0\<rparr>\<rparr>" and s = "\<lparr>a_n = \<lparr>coeff = 1, expo = 0\<rparr>, b_n = \<lparr>coeff = 70711, expo = (- 5)\<rparr>, t_n = \<lparr>coeff = 25, expo = (- 2)\<rparr>, p_n = \<lparr>coeff = 1, expo = 0\<rparr>\<rparr>" and s' = "\<lparr>a_n = \<lparr>coeff = 85355, expo = (- 5)\<rparr>, b_n = \<lparr>coeff = 84090, expo = (- 5)\<rparr>, t_n = \<lparr>coeff = 22855, expo = (- 5)\<rparr>, p_n = \<lparr>coeff = 2, expo = 0\<rparr>\<rparr>" and sk = "\<lparr>a_n = \<lparr>coeff = 8472, expo = (- 4)\<rparr>, b_n = \<lparr>coeff = 84720, expo = (- 5)\<rparr>, t_n = \<lparr>coeff = 22847, expo = (- 5)\<rparr>, p_n = \<lparr>coeff = 4, expo = 0\<rparr>\<rparr>" and k = 1])
  from w h show ?thesis by blast
qed

end
